theory Spec2Isabelle
  imports Complex_Main
begin

section \<open>Data model\<close>

text \<open>
  Partial-assembly kernels of the vector diffusion integrator
  (\<^verbatim>\<open>fem/integ/bilininteg_vecdiffusion_pa.cpp\<close>).

  \<^item> \<^verbatim>\<open>real_t\<close> is modelled by the exact reals: the development speaks about the
    arithmetic the kernels perform, not about floating-point rounding.
  \<^item> A \<^verbatim>\<open>Vector\<close> or \<^verbatim>\<open>Array<real_t>\<close> is a list of reals; a store
    \<^verbatim>\<open>v(i) = a\<close> is a list update, a load is \<open>!\<close>.  The kernels do no bounds
    checking, so the theorems carry the sizes of the buffers that are written as hypotheses.
  \<^item> Extents and loop counters (\<^verbatim>\<open>NE\<close>, \<^verbatim>\<open>Q1D\<close>, \<^verbatim>\<open>D1D\<close>, \<^verbatim>\<open>VDIM\<close>) are
    natural numbers; the mesh dimension \<^verbatim>\<open>dim\<close>, on which the dispatch routines branch,
    is an integer.
  \<^item> \<^verbatim>\<open>MFEM_ABORT\<close> and a failing \<^verbatim>\<open>MFEM_VERIFY\<close> end the computation; a routine that
    can reach one returns a sum with the error on the left.
\<close>

type_synonym real_t = real

datatype mfem_error = MFEM_ABORT string | MFEM_VERIFY string

text \<open>A counted loop \<^verbatim>\<open>for (int i = 0; i < n; ++i) body\<close> over a state.\<close>

definition for_loop :: "nat \<Rightarrow> (nat \<Rightarrow> 's \<Rightarrow> 's) \<Rightarrow> 's \<Rightarrow> 's" where
  "for_loop n body s = fold body [0..<n] s"

text \<open>
  \<^verbatim>\<open>mfem::forall(N, body)\<close> runs the body once for every index below \<open>N\<close>.  The
  iterations of the kernels below touch disjoint parts of the output, so the order is
  immaterial; the model runs them in increasing order.
\<close>

definition mfem_forall :: "nat \<Rightarrow> (nat \<Rightarrow> 's \<Rightarrow> 's) \<Rightarrow> 's \<Rightarrow> 's" where
  "mfem_forall N body s = for_loop N body s"

text \<open>
  Modelled from the spec: the \<^verbatim>\<open>Reshape\<close> view of \<^verbatim>\<open>general/dtensor.hpp\<close> is not
  among the sources.  Section 3 of the specification fixes the axis order of every array
  (for instance \<open>(NQ, K, NE)\<close> for the operator data); the view over the flat buffer
  is taken with the first axis contiguous, so the entry \<open>(i0, i1, ...)\<close> of a view with
  extents \<open>(n0, n1, ...)\<close> lives at offset \<open>i0 + n0 * (i1 + n1 * ...)\<close>.  The last
  extent does not enter the offset.
\<close>

definition at2 :: "nat \<Rightarrow> nat \<Rightarrow> nat \<Rightarrow> nat" where
  "at2 n0 i0 i1 = i0 + n0 * i1"

definition at3 :: "nat \<Rightarrow> nat \<Rightarrow> nat \<Rightarrow> nat \<Rightarrow> nat \<Rightarrow> nat" where
  "at3 n0 n1 i0 i1 i2 = i0 + n0 * (i1 + n1 * i2)"

definition at4 :: "nat \<Rightarrow> nat \<Rightarrow> nat \<Rightarrow> nat \<Rightarrow> nat \<Rightarrow> nat \<Rightarrow> nat \<Rightarrow> nat" where
  "at4 n0 n1 n2 i0 i1 i2 i3 = i0 + n0 * (i1 + n1 * (i2 + n2 * i3))"

definition at5 ::
  "nat \<Rightarrow> nat \<Rightarrow> nat \<Rightarrow> nat \<Rightarrow> nat \<Rightarrow> nat \<Rightarrow> nat \<Rightarrow> nat \<Rightarrow> nat \<Rightarrow> nat" where
  "at5 n0 n1 n2 n3 i0 i1 i2 i3 i4 = i0 + n0 * (i1 + n1 * (i2 + n2 * (i3 + n3 * i4)))"

section \<open>Setup kernels\<close>

text \<open>
  The coefficient \<^verbatim>\<open>C1\<close> of both setup kernels: the view is \<open>(1, 1)\<close> when the
  coefficient vector has size one and \<open>(NQ, NE)\<close> otherwise.
\<close>

definition coeff_at :: "nat \<Rightarrow> real_t list \<Rightarrow> nat \<Rightarrow> nat \<Rightarrow> real_t" where
  "coeff_at NQ c q e =
     (let const_c = (length c = 1) in
      if const_c then c ! at2 1 0 0 else c ! at2 NQ q e)"

text \<open>The body of the quadrature-point loop of \<^verbatim>\<open>PAVectorDiffusionSetup2D\<close>.\<close>

definition PAVectorDiffusionSetup2D_point ::
  "nat \<Rightarrow> real_t list \<Rightarrow> real_t list \<Rightarrow> real_t list \<Rightarrow> nat \<Rightarrow> nat \<Rightarrow>
   real_t list \<Rightarrow> real_t list" where
  "PAVectorDiffusionSetup2D_point NQ W J c e q y =
     (let J11 = J ! at4 NQ 2 2 q 0 0 e;
          J21 = J ! at4 NQ 2 2 q 1 0 e;
          J12 = J ! at4 NQ 2 2 q 0 1 e;
          J22 = J ! at4 NQ 2 2 q 1 1 e;
          C1 = coeff_at NQ c q e;
          c_detJ = W ! q * C1 / ((J11 * J22) - (J21 * J12));
          y = y[at3 NQ 3 q 0 e := c_detJ * (J12 * J12 + J22 * J22)];
          y = y[at3 NQ 3 q 1 e := - c_detJ * (J12 * J11 + J22 * J21)];
          y = y[at3 NQ 3 q 2 e := c_detJ * (J11 * J11 + J21 * J21)]
      in y)"

definition PAVectorDiffusionSetup2D ::
  "nat \<Rightarrow> nat \<Rightarrow> real_t list \<Rightarrow> real_t list \<Rightarrow> real_t list \<Rightarrow> real_t list \<Rightarrow> real_t list" where
  "PAVectorDiffusionSetup2D Q1D NE w j c op =
     (let NQ = Q1D * Q1D in
      mfem_forall NE (\<lambda>e. for_loop NQ (PAVectorDiffusionSetup2D_point NQ w j c e)) op)"

text \<open>The body of the quadrature-point loop of \<^verbatim>\<open>PAVectorDiffusionSetup3D\<close>.\<close>

definition PAVectorDiffusionSetup3D_point ::
  "nat \<Rightarrow> real_t list \<Rightarrow> real_t list \<Rightarrow> real_t list \<Rightarrow> nat \<Rightarrow> nat \<Rightarrow>
   real_t list \<Rightarrow> real_t list" where
  "PAVectorDiffusionSetup3D_point NQ W J c e q y =
     (let J11 = J ! at4 NQ 3 3 q 0 0 e;
          J21 = J ! at4 NQ 3 3 q 1 0 e;
          J31 = J ! at4 NQ 3 3 q 2 0 e;
          J12 = J ! at4 NQ 3 3 q 0 1 e;
          J22 = J ! at4 NQ 3 3 q 1 1 e;
          J32 = J ! at4 NQ 3 3 q 2 1 e;
          J13 = J ! at4 NQ 3 3 q 0 2 e;
          J23 = J ! at4 NQ 3 3 q 1 2 e;
          J33 = J ! at4 NQ 3 3 q 2 2 e;
          detJ = J11 * (J22 * J33 - J32 * J23) -
                 J21 * (J12 * J33 - J32 * J13) +
                 J31 * (J12 * J23 - J22 * J13);
          C1 = coeff_at NQ c q e;
          c_detJ = W ! q * C1 / detJ;
          A11 = (J22 * J33) - (J23 * J32);
          A12 = (J32 * J13) - (J12 * J33);
          A13 = (J12 * J23) - (J22 * J13);
          A21 = (J31 * J23) - (J21 * J33);
          A22 = (J11 * J33) - (J13 * J31);
          A23 = (J21 * J13) - (J11 * J23);
          A31 = (J21 * J32) - (J31 * J22);
          A32 = (J31 * J12) - (J11 * J32);
          A33 = (J11 * J22) - (J12 * J21);
          y = y[at3 NQ 6 q 0 e := c_detJ * (A11 * A11 + A12 * A12 + A13 * A13)];
          y = y[at3 NQ 6 q 1 e := c_detJ * (A11 * A21 + A12 * A22 + A13 * A23)];
          y = y[at3 NQ 6 q 2 e := c_detJ * (A11 * A31 + A12 * A32 + A13 * A33)];
          y = y[at3 NQ 6 q 3 e := c_detJ * (A21 * A21 + A22 * A22 + A23 * A23)];
          y = y[at3 NQ 6 q 4 e := c_detJ * (A21 * A31 + A22 * A32 + A23 * A33)];
          y = y[at3 NQ 6 q 5 e := c_detJ * (A31 * A31 + A32 * A32 + A33 * A33)]
      in y)"

definition PAVectorDiffusionSetup3D ::
  "nat \<Rightarrow> nat \<Rightarrow> real_t list \<Rightarrow> real_t list \<Rightarrow> real_t list \<Rightarrow> real_t list \<Rightarrow> real_t list" where
  "PAVectorDiffusionSetup3D Q1D NE w j c op =
     (let NQ = Q1D * Q1D * Q1D in
      mfem_forall NE (\<lambda>e. for_loop NQ (PAVectorDiffusionSetup3D_point NQ w j c e)) op)"

text \<open>
  The dispatch routine \<^verbatim>\<open>PAVectorDiffusionSetup\<close>: the abort comes first, then the
  two independent tests on \<open>dim\<close>.
\<close>

definition PAVectorDiffusionSetup ::
  "int \<Rightarrow> nat \<Rightarrow> nat \<Rightarrow> real_t list \<Rightarrow> real_t list \<Rightarrow> real_t list \<Rightarrow> real_t list \<Rightarrow>
   mfem_error + real_t list" where
  "PAVectorDiffusionSetup dim' Q1D NE W J C op =
     (if \<not> (dim' = 2 \<or> dim' = 3) then Inl (MFEM_ABORT ''Dimension not supported.'')
      else
        let op = (if dim' = 2 then PAVectorDiffusionSetup2D Q1D NE W J C op else op);
            op = (if dim' = 3 then PAVectorDiffusionSetup3D Q1D NE W J C op else op)
        in Inr op)"

text \<open>
  The quadrature-point loop body of the surface case (\<open>dim = 2\<close>, \<open>sdim = 3\<close>) inside
  \<^verbatim>\<open>VectorDiffusionIntegrator::AssemblePA\<close>.  The Jacobian view is
  \<open>(NQ, SDIM, DIM, ne)\<close> with \<open>SDIM = 3\<close> and \<open>DIM = 2\<close>, the output view
  \<open>(NQ, SDIM, ne)\<close>.
\<close>

definition AssemblePA_surface_point ::
  "nat \<Rightarrow> real_t list \<Rightarrow> real_t list \<Rightarrow> real_t list \<Rightarrow> nat \<Rightarrow> nat \<Rightarrow>
   real_t list \<Rightarrow> real_t list" where
  "AssemblePA_surface_point NQ W J coeff e q D =
     (let wq = W ! q;
          J11 = J ! at4 NQ 3 2 q 0 0 e;
          J21 = J ! at4 NQ 3 2 q 1 0 e;
          J31 = J ! at4 NQ 3 2 q 2 0 e;
          J12 = J ! at4 NQ 3 2 q 0 1 e;
          J22 = J ! at4 NQ 3 2 q 1 1 e;
          J32 = J ! at4 NQ 3 2 q 2 1 e;
          E = J11 * J11 + J21 * J21 + J31 * J31;
          G = J12 * J12 + J22 * J22 + J32 * J32;
          F = J11 * J12 + J21 * J22 + J31 * J32;
          iw = 1 / sqrt (E * G - F * F);
          C1 = coeff_at NQ coeff q e;
          alpha = wq * C1 * iw;
          D = D[at3 NQ 3 q 0 e := alpha * G];
          D = D[at3 NQ 3 q 1 e := - alpha * F];
          D = D[at3 NQ 3 q 2 e := alpha * E]
      in D)"

text \<open>
  \<^verbatim>\<open>VectorDiffusionIntegrator::AssemblePA\<close> after the collaborators have been asked:
  \<open>DeviceCanUseCeed\<close> is the capability query (the libCEED operator then replaces the
  kernels and the operator data is left alone), \<open>VQ_or_MQ\<close> says whether a vector or
  matrix coefficient is set, \<open>dim\<close> and \<open>sdim\<close> are the mesh and space dimension,
  \<open>quad1D\<close> and \<open>ne\<close> come from the quadrature map and the space, \<open>w\<close>, \<open>j\<close>
  and \<open>coeff\<close> are the weights, the Jacobians and the compressed coefficient samples,
  and \<open>d\<close> is \<^verbatim>\<open>pa_data\<close> after \<^verbatim>\<open>SetSize\<close>.
\<close>

definition AssemblePA ::
  "bool \<Rightarrow> bool \<Rightarrow> int \<Rightarrow> int \<Rightarrow> nat \<Rightarrow> nat \<Rightarrow> real_t list \<Rightarrow> real_t list \<Rightarrow> real_t list \<Rightarrow>
   real_t list \<Rightarrow> mfem_error + real_t list" where
  "AssemblePA DeviceCanUseCeed VQ_or_MQ dim' sdim quad1D ne w j coeff d =
     (if DeviceCanUseCeed then Inr d
      else if VQ_or_MQ then
        Inl (MFEM_VERIFY
          ''Only scalar coefficient supported for partial assembly for VectorDiffusionIntegrator'')
      else if dim' = 1 then Inl (MFEM_ABORT ''dim==1 not supported in PAVectorDiffusionSetup'')
      else if dim' = 2 \<and> sdim = 3 then
        (let NQ = quad1D * quad1D in
         Inr (mfem_forall ne (\<lambda>e. for_loop NQ (AssemblePA_surface_point NQ w j coeff e)) d))
      else PAVectorDiffusionSetup dim' quad1D ne w j coeff d)"

section \<open>Diagonal kernels\<close>

text \<open>
  A stack array (\<^verbatim>\<open>real_t QD0[MQ1][MD1]\<close>, \<^verbatim>\<open>real_t grad[max_Q1D][max_Q1D][2]\<close>, ...)
  is a function from index tuples to values.  In C++ its initial content is indeterminate;
  the kernels assign every cell before they read it, and the model starts the array from
  zeros.
\<close>

type_synonym arr2 = "nat \<times> nat \<Rightarrow> real_t"
type_synonym arr3 = "nat \<times> nat \<times> nat \<Rightarrow> real_t"
type_synonym arr4 = "nat \<times> nat \<times> nat \<times> nat \<Rightarrow> real_t"

definition stack_array :: "'k \<Rightarrow> real_t" where
  "stack_array = (\<lambda>_. 0)"

text \<open>
  \<^verbatim>\<open>PAVectorDiffusionDiagonal2D\<close>, first loop nest: the body of the \<open>dy\<close> loop, which
  clears and then fills the cells \<open>[qx][dy]\<close> of the three accumulators.
\<close>

definition Diagonal2D_QD_cell ::
  "nat \<Rightarrow> real_t list \<Rightarrow> real_t list \<Rightarrow> real_t list \<Rightarrow> nat \<Rightarrow> nat \<Rightarrow> nat \<Rightarrow>
   arr2 \<times> arr2 \<times> arr2 \<Rightarrow> arr2 \<times> arr2 \<times> arr2" where
  "Diagonal2D_QD_cell Q1D b g d e qx dy = (\<lambda>(QD0, QD1, QD2).
     let QD0 = QD0((qx, dy) := 0);
         QD1 = QD1((qx, dy) := 0);
         QD2 = QD2((qx, dy) := 0)
     in for_loop Q1D (\<lambda>qy (QD0, QD1, QD2).
          let q = qx + qy * Q1D;
              D0 = d ! at3 (Q1D * Q1D) 3 q 0 e;
              D1 = d ! at3 (Q1D * Q1D) 3 q 1 e;
              D2 = d ! at3 (Q1D * Q1D) 3 q 2 e;
              QD0 = QD0((qx, dy) := QD0 (qx, dy) + b ! at2 Q1D qy dy * b ! at2 Q1D qy dy * D0);
              QD1 = QD1((qx, dy) := QD1 (qx, dy) + b ! at2 Q1D qy dy * g ! at2 Q1D qy dy * D1);
              QD2 = QD2((qx, dy) := QD2 (qx, dy) + g ! at2 Q1D qy dy * g ! at2 Q1D qy dy * D2)
          in (QD0, QD1, QD2)) (QD0, QD1, QD2))"

text \<open>The scalar \<^verbatim>\<open>temp\<close> of the second loop nest, for the output position \<open>(dx, dy)\<close>.\<close>

definition Diagonal2D_temp ::
  "nat \<Rightarrow> real_t list \<Rightarrow> real_t list \<Rightarrow> arr2 \<times> arr2 \<times> arr2 \<Rightarrow> nat \<Rightarrow> nat \<Rightarrow> real_t" where
  "Diagonal2D_temp Q1D b g = (\<lambda>(QD0, QD1, QD2) dx dy.
     let temp = 0 in
     for_loop Q1D (\<lambda>qx temp.
       let temp = temp + g ! at2 Q1D qx dx * g ! at2 Q1D qx dx * QD0 (qx, dy);
           temp = temp + g ! at2 Q1D qx dx * b ! at2 Q1D qx dx * QD1 (qx, dy);
           temp = temp + b ! at2 Q1D qx dx * g ! at2 Q1D qx dx * QD1 (qx, dy);
           temp = temp + b ! at2 Q1D qx dx * b ! at2 Q1D qx dx * QD2 (qx, dy)
       in temp) temp)"

text \<open>
  The body of \<^verbatim>\<open>mfem::forall\<close> in \<^verbatim>\<open>PAVectorDiffusionDiagonal2D\<close>.  The output view is
  \<open>(D1D, D1D, 2, NE)\<close>: the number of vector components is the literal 2.
\<close>

definition PAVectorDiffusionDiagonal2D_element ::
  "nat \<Rightarrow> nat \<Rightarrow> real_t list \<Rightarrow> real_t list \<Rightarrow> real_t list \<Rightarrow> nat \<Rightarrow>
   real_t list \<Rightarrow> real_t list" where
  "PAVectorDiffusionDiagonal2D_element D1D Q1D b g d e Y =
     (let QD = for_loop Q1D (\<lambda>qx. for_loop D1D (\<lambda>dy. Diagonal2D_QD_cell Q1D b g d e qx dy))
                 (stack_array, stack_array, stack_array)
      in for_loop D1D (\<lambda>dy. for_loop D1D (\<lambda>dx Y.
           let temp = Diagonal2D_temp Q1D b g QD dx dy;
               Y = Y[at4 D1D D1D 2 dx dy 0 e := Y ! at4 D1D D1D 2 dx dy 0 e + temp];
               Y = Y[at4 D1D D1D 2 dx dy 1 e := Y ! at4 D1D D1D 2 dx dy 1 e + temp]
           in Y)) Y)"

text \<open>
  \<^verbatim>\<open>PAVectorDiffusionDiagonal2D<T_D1D, T_Q1D>\<close>.  The template arguments are ordinary
  arguments here (0 selects the run-time size); \<open>MAX_D1D\<close> and \<open>MAX_Q1D\<close> are the limits
  \<^verbatim>\<open>DeviceDofQuadLimits::Get()\<close> reports, constants of the backend that are not part of
  the sources.
\<close>

definition PAVectorDiffusionDiagonal2D ::
  "nat \<Rightarrow> nat \<Rightarrow> nat \<Rightarrow> nat \<Rightarrow> nat \<Rightarrow> real_t list \<Rightarrow> real_t list \<Rightarrow> real_t list \<Rightarrow> real_t list \<Rightarrow>
   nat \<Rightarrow> nat \<Rightarrow> mfem_error + real_t list" where
  "PAVectorDiffusionDiagonal2D MAX_D1D MAX_Q1D T_D1D T_Q1D NE b g d y d1d q1d =
     (let D1D = (if T_D1D \<noteq> 0 then T_D1D else d1d);
          Q1D = (if T_Q1D \<noteq> 0 then T_Q1D else q1d)
      in if \<not> D1D \<le> MAX_D1D then Inl (MFEM_VERIFY [])
         else if \<not> Q1D \<le> MAX_Q1D then Inl (MFEM_VERIFY [])
         else Inr (mfem_forall NE (PAVectorDiffusionDiagonal2D_element D1D Q1D b g d) y))"

text \<open>
  \<^verbatim>\<open>PAVectorDiffusionDiagonal3D\<close>: the index \<open>k\<close> of the entry \<open>(i, j)\<close> of the
  symmetric matrix in the packed operator data.  Both counters stay below 3, so no
  subtraction goes below zero.
\<close>

definition Diagonal3D_k :: "nat \<Rightarrow> nat \<Rightarrow> nat" where
  "Diagonal3D_k i j =
     (if j \<ge> i then 3 - (3 - i) * (2 - i) div 2 + j
      else 3 - (3 - j) * (2 - j) div 2 + i)"

text \<open>First tensor contraction, along the z direction.\<close>

definition Diagonal3D_QQD ::
  "nat \<Rightarrow> nat \<Rightarrow> real_t list \<Rightarrow> real_t list \<Rightarrow> real_t list \<Rightarrow> nat \<Rightarrow> nat \<Rightarrow> nat \<Rightarrow>
   arr3 \<Rightarrow> arr3" where
  "Diagonal3D_QQD D1D Q1D b g d e i j QQD =
     for_loop Q1D (\<lambda>qx. for_loop Q1D (\<lambda>qy. for_loop D1D (\<lambda>dz QQD.
       let QQD = QQD((qx, qy, dz) := 0)
       in for_loop Q1D (\<lambda>qz QQD.
            let q = qx + (qy + qz * Q1D) * Q1D;
                k = Diagonal3D_k i j;
                O' = d ! at3 (Q1D * Q1D * Q1D) 6 q k e;
                Bz = b ! at2 Q1D qz dz;
                Gz = g ! at2 Q1D qz dz;
                L = (if i = 2 then Gz else Bz);
                R = (if j = 2 then Gz else Bz)
            in QQD((qx, qy, dz) := QQD (qx, qy, dz) + L * O' * R)) QQD))) QQD"

text \<open>Second tensor contraction, along the y direction.\<close>

definition Diagonal3D_QDD ::
  "nat \<Rightarrow> nat \<Rightarrow> real_t list \<Rightarrow> real_t list \<Rightarrow> nat \<Rightarrow> nat \<Rightarrow> arr3 \<Rightarrow> arr3 \<Rightarrow> arr3" where
  "Diagonal3D_QDD D1D Q1D b g i j QQD QDD =
     for_loop Q1D (\<lambda>qx. for_loop D1D (\<lambda>dz. for_loop D1D (\<lambda>dy QDD.
       let QDD = QDD((qx, dy, dz) := 0)
       in for_loop Q1D (\<lambda>qy QDD.
            let By = b ! at2 Q1D qy dy;
                Gy = g ! at2 Q1D qy dy;
                L = (if i = 1 then Gy else By);
                R = (if j = 1 then Gy else By)
            in QDD((qx, dy, dz) := QDD (qx, dy, dz) + L * QQD (qx, qy, dz) * R)) QDD))) QDD"

text \<open>Third tensor contraction, along the x direction, and the three accumulations.\<close>

definition Diagonal3D_temp ::
  "nat \<Rightarrow> real_t list \<Rightarrow> real_t list \<Rightarrow> nat \<Rightarrow> nat \<Rightarrow> arr3 \<Rightarrow> nat \<Rightarrow> nat \<Rightarrow> nat \<Rightarrow> real_t" where
  "Diagonal3D_temp Q1D b g i j QDD dx dy dz =
     (let temp = 0 in
      for_loop Q1D (\<lambda>qx temp.
        let Bx = b ! at2 Q1D qx dx;
            Gx = g ! at2 Q1D qx dx;
            L = (if i = 0 then Gx else Bx);
            R = (if j = 0 then Gx else Bx)
        in temp + L * QDD (qx, dy, dz) * R) temp)"

definition Diagonal3D_Y ::
  "nat \<Rightarrow> nat \<Rightarrow> real_t list \<Rightarrow> real_t list \<Rightarrow> nat \<Rightarrow> nat \<Rightarrow> nat \<Rightarrow> arr3 \<Rightarrow>
   real_t list \<Rightarrow> real_t list" where
  "Diagonal3D_Y D1D Q1D b g e i j QDD Y =
     for_loop D1D (\<lambda>dz. for_loop D1D (\<lambda>dy. for_loop D1D (\<lambda>dx Y.
       let temp = Diagonal3D_temp Q1D b g i j QDD dx dy dz;
           Y = Y[at5 D1D D1D D1D 3 dx dy dz 0 e := Y ! at5 D1D D1D D1D 3 dx dy dz 0 e + temp];
           Y = Y[at5 D1D D1D D1D 3 dx dy dz 1 e := Y ! at5 D1D D1D D1D 3 dx dy dz 1 e + temp];
           Y = Y[at5 D1D D1D D1D 3 dx dy dz 2 e := Y ! at5 D1D D1D D1D 3 dx dy dz 2 e + temp]
       in Y))) Y"

text \<open>
  The body of \<^verbatim>\<open>mfem::forall\<close> in \<^verbatim>\<open>PAVectorDiffusionDiagonal3D\<close>: the two stack
  arrays live across the iterations of the \<open>i\<close> and \<open>j\<close> loops.
\<close>

definition PAVectorDiffusionDiagonal3D_element ::
  "nat \<Rightarrow> nat \<Rightarrow> real_t list \<Rightarrow> real_t list \<Rightarrow> real_t list \<Rightarrow> nat \<Rightarrow>
   real_t list \<Rightarrow> real_t list" where
  "PAVectorDiffusionDiagonal3D_element D1D Q1D b g d e Y =
     (let DIM = 3 in
      snd (snd (for_loop DIM (\<lambda>i. for_loop DIM (\<lambda>j (QQD, QDD, Y).
        let QQD = Diagonal3D_QQD D1D Q1D b g d e i j QQD;
            QDD = Diagonal3D_QDD D1D Q1D b g i j QQD QDD;
            Y = Diagonal3D_Y D1D Q1D b g e i j QDD Y
        in (QQD, QDD, Y))) (stack_array, stack_array, Y))))"

definition PAVectorDiffusionDiagonal3D ::
  "nat \<Rightarrow> nat \<Rightarrow> nat \<Rightarrow> nat \<Rightarrow> nat \<Rightarrow> real_t list \<Rightarrow> real_t list \<Rightarrow> real_t list \<Rightarrow> real_t list \<Rightarrow>
   nat \<Rightarrow> nat \<Rightarrow> mfem_error + real_t list" where
  "PAVectorDiffusionDiagonal3D MAX_D1D MAX_Q1D T_D1D T_Q1D NE b g d y d1d q1d =
     (let D1D = (if T_D1D \<noteq> 0 then T_D1D else d1d);
          Q1D = (if T_Q1D \<noteq> 0 then T_Q1D else q1d);
          max_q1d = (if T_Q1D \<noteq> 0 then T_Q1D else MAX_Q1D);
          max_d1d = (if T_D1D \<noteq> 0 then T_D1D else MAX_D1D)
      in if \<not> D1D \<le> max_d1d then Inl (MFEM_VERIFY [])
         else if \<not> Q1D \<le> max_q1d then Inl (MFEM_VERIFY [])
         else Inr (mfem_forall NE (PAVectorDiffusionDiagonal3D_element D1D Q1D b g d) y))"

text \<open>The dispatch routine \<^verbatim>\<open>PAVectorDiffusionAssembleDiagonal\<close>.\<close>

definition PAVectorDiffusionAssembleDiagonal ::
  "nat \<Rightarrow> nat \<Rightarrow> int \<Rightarrow> nat \<Rightarrow> nat \<Rightarrow> nat \<Rightarrow> real_t list \<Rightarrow> real_t list \<Rightarrow> real_t list \<Rightarrow>
   real_t list \<Rightarrow> mfem_error + real_t list" where
  "PAVectorDiffusionAssembleDiagonal MAX_D1D MAX_Q1D dim' D1D Q1D NE B G op y =
     (if dim' = 2 then PAVectorDiffusionDiagonal2D MAX_D1D MAX_Q1D 0 0 NE B G op y D1D Q1D
      else if dim' = 3 then PAVectorDiffusionDiagonal3D MAX_D1D MAX_Q1D 0 0 NE B G op y D1D Q1D
      else Inl (MFEM_ABORT ''Dimension not implemented.''))"

section \<open>Apply kernels\<close>

text \<open>\<^verbatim>\<open>PAVectorDiffusionApply2D\<close>: clearing \<^verbatim>\<open>grad\<close>.\<close>

definition Apply2D_grad_clear :: "nat \<Rightarrow> arr3 \<Rightarrow> arr3" where
  "Apply2D_grad_clear Q1D grad =
     for_loop Q1D (\<lambda>qy. for_loop Q1D (\<lambda>qx grad.
       let grad = grad((qy, qx, 0) := 0);
           grad = grad((qy, qx, 1) := 0)
       in grad)) grad"

text \<open>Forward transform, x direction: \<^verbatim>\<open>gradX\<close> for the row \<open>dy\<close> of the input.\<close>

definition Apply2D_gradX ::
  "nat \<Rightarrow> nat \<Rightarrow> nat \<Rightarrow> real_t list \<Rightarrow> real_t list \<Rightarrow> real_t list \<Rightarrow> nat \<Rightarrow> nat \<Rightarrow> nat \<Rightarrow> arr2" where
  "Apply2D_gradX D1D Q1D VDIM b g x e c dy =
     (let gradX = stack_array;
          gradX = for_loop Q1D (\<lambda>qx gradX.
            let gradX = gradX((qx, 0) := 0);
                gradX = gradX((qx, 1) := 0)
            in gradX) gradX
      in for_loop D1D (\<lambda>dx gradX.
           let s = x ! at4 D1D D1D VDIM dx dy c e
           in for_loop Q1D (\<lambda>qx gradX.
                let gradX = gradX((qx, 0) := gradX (qx, 0) + s * b ! at2 Q1D qx dx);
                    gradX = gradX((qx, 1) := gradX (qx, 1) + s * g ! at2 Q1D qx dx)
                in gradX) gradX) gradX)"

text \<open>Forward transform: the loop over \<open>dy\<close>, which adds the rows into \<^verbatim>\<open>grad\<close>.\<close>

definition Apply2D_grad ::
  "nat \<Rightarrow> nat \<Rightarrow> nat \<Rightarrow> real_t list \<Rightarrow> real_t list \<Rightarrow> real_t list \<Rightarrow> nat \<Rightarrow> nat \<Rightarrow> arr3 \<Rightarrow> arr3" where
  "Apply2D_grad D1D Q1D VDIM b g x e c grad =
     for_loop D1D (\<lambda>dy grad.
       let gradX = Apply2D_gradX D1D Q1D VDIM b g x e c dy
       in for_loop Q1D (\<lambda>qy grad.
            let wy = b ! at2 Q1D qy dy;
                wDy = g ! at2 Q1D qy dy
            in for_loop Q1D (\<lambda>qx grad.
                 let grad = grad((qy, qx, 0) := grad (qy, qx, 0) + gradX (qx, 1) * wy);
                     grad = grad((qy, qx, 1) := grad (qy, qx, 1) + gradX (qx, 0) * wDy)
                 in grad) grad) grad) grad"

text \<open>The pointwise product with the operator (\<^verbatim>\<open>Calculate Dxy, xDy in plane\<close>).\<close>

definition Apply2D_pointwise :: "nat \<Rightarrow> real_t list \<Rightarrow> nat \<Rightarrow> arr3 \<Rightarrow> arr3" where
  "Apply2D_pointwise Q1D d e grad =
     for_loop Q1D (\<lambda>qy. for_loop Q1D (\<lambda>qx grad.
       let q = qx + qy * Q1D;
           O11 = d ! at3 (Q1D * Q1D) 3 q 0 e;
           O12 = d ! at3 (Q1D * Q1D) 3 q 1 e;
           O22 = d ! at3 (Q1D * Q1D) 3 q 2 e;
           gradX = grad (qy, qx, 0);
           gradY = grad (qy, qx, 1);
           grad = grad((qy, qx, 0) := (O11 * gradX) + (O12 * gradY));
           grad = grad((qy, qx, 1) := (O12 * gradX) + (O22 * gradY))
       in grad)) grad"

text \<open>Backward transform, x direction: \<^verbatim>\<open>gradX\<close> for the row \<open>qy\<close> of quadrature points.\<close>

definition Apply2D_gradX_back ::
  "nat \<Rightarrow> nat \<Rightarrow> real_t list \<Rightarrow> real_t list \<Rightarrow> arr3 \<Rightarrow> nat \<Rightarrow> arr2" where
  "Apply2D_gradX_back D1D Q1D bt gt grad qy =
     (let gradX = stack_array;
          gradX = for_loop D1D (\<lambda>dx gradX.
            let gradX = gradX((dx, 0) := 0);
                gradX = gradX((dx, 1) := 0)
            in gradX) gradX
      in for_loop Q1D (\<lambda>qx gradX.
           let gX = grad (qy, qx, 0);
               gY = grad (qy, qx, 1)
           in for_loop D1D (\<lambda>dx gradX.
                let wx = bt ! at2 D1D dx qx;
                    wdx = gt ! at2 D1D dx qx;
                    gradX = gradX((dx, 0) := gradX (dx, 0) + gX * wdx);
                    gradX = gradX((dx, 1) := gradX (dx, 1) + gY * wx)
                in gradX) gradX) gradX)"

text \<open>Backward transform: the loop over \<open>qy\<close>, which accumulates into the output.\<close>

definition Apply2D_y ::
  "nat \<Rightarrow> nat \<Rightarrow> nat \<Rightarrow> real_t list \<Rightarrow> real_t list \<Rightarrow> arr3 \<Rightarrow> nat \<Rightarrow> nat \<Rightarrow>
   real_t list \<Rightarrow> real_t list" where
  "Apply2D_y D1D Q1D VDIM bt gt grad e c y =
     for_loop Q1D (\<lambda>qy y.
       let gradX = Apply2D_gradX_back D1D Q1D bt gt grad qy
       in for_loop D1D (\<lambda>dy y.
            let wy = bt ! at2 D1D dy qy;
                wDy = gt ! at2 D1D dy qy
            in for_loop D1D (\<lambda>dx y.
                 y[at4 D1D D1D VDIM dx dy c e :=
                     y ! at4 D1D D1D VDIM dx dy c e +
                     ((gradX (dx, 0) * wy) + (gradX (dx, 1) * wDy))]) y) y) y"

text \<open>
  The body of \<^verbatim>\<open>mfem::forall\<close> in \<^verbatim>\<open>PAVectorDiffusionApply2D\<close>; \<^verbatim>\<open>grad\<close> is declared
  outside the loop over the components and lives across its iterations.
\<close>

definition PAVectorDiffusionApply2D_element ::
  "nat \<Rightarrow> nat \<Rightarrow> nat \<Rightarrow> real_t list \<Rightarrow> real_t list \<Rightarrow> real_t list \<Rightarrow> real_t list \<Rightarrow>
   real_t list \<Rightarrow> real_t list \<Rightarrow> nat \<Rightarrow> real_t list \<Rightarrow> real_t list" where
  "PAVectorDiffusionApply2D_element D1D Q1D VDIM b g bt gt d x e y =
     snd (for_loop VDIM (\<lambda>c (grad, y).
       let grad = Apply2D_grad_clear Q1D grad;
           grad = Apply2D_grad D1D Q1D VDIM b g x e c grad;
           grad = Apply2D_pointwise Q1D d e grad;
           y = Apply2D_y D1D Q1D VDIM bt gt grad e c y
       in (grad, y)) (stack_array, y))"

definition PAVectorDiffusionApply2D ::
  "nat \<Rightarrow> nat \<Rightarrow> nat \<Rightarrow> nat \<Rightarrow> nat \<Rightarrow> nat \<Rightarrow> real_t list \<Rightarrow> real_t list \<Rightarrow> real_t list \<Rightarrow>
   real_t list \<Rightarrow> real_t list \<Rightarrow> real_t list \<Rightarrow> real_t list \<Rightarrow> nat \<Rightarrow> nat \<Rightarrow> nat \<Rightarrow>
   mfem_error + real_t list" where
  "PAVectorDiffusionApply2D MAX_D1D MAX_Q1D T_D1D T_Q1D T_VDIM NE b g bt gt d x y d1d q1d vdim =
     (let D1D = (if T_D1D \<noteq> 0 then T_D1D else d1d);
          Q1D = (if T_Q1D \<noteq> 0 then T_Q1D else q1d);
          VDIM = (if T_VDIM \<noteq> 0 then T_VDIM else vdim)
      in if \<not> D1D \<le> MAX_D1D then Inl (MFEM_VERIFY [])
         else if \<not> Q1D \<le> MAX_Q1D then Inl (MFEM_VERIFY [])
         else Inr (mfem_forall NE
                (PAVectorDiffusionApply2D_element D1D Q1D VDIM b g bt gt d x) y))"

text \<open>\<^verbatim>\<open>PAVectorDiffusionApply3D\<close>: clearing \<^verbatim>\<open>grad\<close>.\<close>

definition Apply3D_grad_clear :: "nat \<Rightarrow> arr4 \<Rightarrow> arr4" where
  "Apply3D_grad_clear Q1D grad =
     for_loop Q1D (\<lambda>qz. for_loop Q1D (\<lambda>qy. for_loop Q1D (\<lambda>qx grad.
       let grad = grad((qz, qy, qx, 0) := 0);
           grad = grad((qz, qy, qx, 1) := 0);
           grad = grad((qz, qy, qx, 2) := 0)
       in grad))) grad"

text \<open>Forward transform, x direction.\<close>

definition Apply3D_gradX ::
  "nat \<Rightarrow> nat \<Rightarrow> real_t list \<Rightarrow> real_t list \<Rightarrow> real_t list \<Rightarrow> nat \<Rightarrow> nat \<Rightarrow> nat \<Rightarrow> nat \<Rightarrow> arr2" where
  "Apply3D_gradX D1D Q1D b g x e c dz dy =
     (let VDIM = 3;
          gradX = stack_array;
          gradX = for_loop Q1D (\<lambda>qx gradX.
            let gradX = gradX((qx, 0) := 0);
                gradX = gradX((qx, 1) := 0)
            in gradX) gradX
      in for_loop D1D (\<lambda>dx gradX.
           let s = x ! at5 D1D D1D D1D VDIM dx dy dz c e
           in for_loop Q1D (\<lambda>qx gradX.
                let gradX = gradX((qx, 0) := gradX (qx, 0) + s * b ! at2 Q1D qx dx);
                    gradX = gradX((qx, 1) := gradX (qx, 1) + s * g ! at2 Q1D qx dx)
                in gradX) gradX) gradX)"

text \<open>Forward transform, y direction.\<close>

definition Apply3D_gradXY ::
  "nat \<Rightarrow> nat \<Rightarrow> real_t list \<Rightarrow> real_t list \<Rightarrow> real_t list \<Rightarrow> nat \<Rightarrow> nat \<Rightarrow> nat \<Rightarrow> arr3" where
  "Apply3D_gradXY D1D Q1D b g x e c dz =
     (let gradXY = stack_array;
          gradXY = for_loop Q1D (\<lambda>qy. for_loop Q1D (\<lambda>qx gradXY.
            let gradXY = gradXY((qy, qx, 0) := 0);
                gradXY = gradXY((qy, qx, 1) := 0);
                gradXY = gradXY((qy, qx, 2) := 0)
            in gradXY)) gradXY
      in for_loop D1D (\<lambda>dy gradXY.
           let gradX = Apply3D_gradX D1D Q1D b g x e c dz dy
           in for_loop Q1D (\<lambda>qy gradXY.
                let wy = b ! at2 Q1D qy dy;
                    wDy = g ! at2 Q1D qy dy
                in for_loop Q1D (\<lambda>qx gradXY.
                     let wx = gradX (qx, 0);
                         wDx = gradX (qx, 1);
                         gradXY = gradXY((qy, qx, 0) := gradXY (qy, qx, 0) + wDx * wy);
                         gradXY = gradXY((qy, qx, 1) := gradXY (qy, qx, 1) + wx * wDy);
                         gradXY = gradXY((qy, qx, 2) := gradXY (qy, qx, 2) + wx * wy)
                     in gradXY) gradXY) gradXY) gradXY)"

text \<open>Forward transform, z direction.\<close>

definition Apply3D_grad ::
  "nat \<Rightarrow> nat \<Rightarrow> real_t list \<Rightarrow> real_t list \<Rightarrow> real_t list \<Rightarrow> nat \<Rightarrow> nat \<Rightarrow> arr4 \<Rightarrow> arr4" where
  "Apply3D_grad D1D Q1D b g x e c grad =
     for_loop D1D (\<lambda>dz grad.
       let gradXY = Apply3D_gradXY D1D Q1D b g x e c dz
       in for_loop Q1D (\<lambda>qz grad.
            let wz = b ! at2 Q1D qz dz;
                wDz = g ! at2 Q1D qz dz
            in for_loop Q1D (\<lambda>qy. for_loop Q1D (\<lambda>qx grad.
                 let grad = grad((qz, qy, qx, 0) := grad (qz, qy, qx, 0) + gradXY (qy, qx, 0) * wz);
                     grad = grad((qz, qy, qx, 1) := grad (qz, qy, qx, 1) + gradXY (qy, qx, 1) * wz);
                     grad = grad((qz, qy, qx, 2) := grad (qz, qy, qx, 2) + gradXY (qy, qx, 2) * wDz)
                 in grad)) grad) grad) grad"

text \<open>The pointwise product with the operator (\<^verbatim>\<open>Calculate Dxyz, xDyz, xyDz in plane\<close>).\<close>

definition Apply3D_pointwise :: "nat \<Rightarrow> real_t list \<Rightarrow> nat \<Rightarrow> arr4 \<Rightarrow> arr4" where
  "Apply3D_pointwise Q1D op e grad =
     for_loop Q1D (\<lambda>qz. for_loop Q1D (\<lambda>qy. for_loop Q1D (\<lambda>qx grad.
       let q = qx + (qy + qz * Q1D) * Q1D;
           O11 = op ! at3 (Q1D * Q1D * Q1D) 6 q 0 e;
           O12 = op ! at3 (Q1D * Q1D * Q1D) 6 q 1 e;
           O13 = op ! at3 (Q1D * Q1D * Q1D) 6 q 2 e;
           O22 = op ! at3 (Q1D * Q1D * Q1D) 6 q 3 e;
           O23 = op ! at3 (Q1D * Q1D * Q1D) 6 q 4 e;
           O33 = op ! at3 (Q1D * Q1D * Q1D) 6 q 5 e;
           gradX = grad (qz, qy, qx, 0);
           gradY = grad (qz, qy, qx, 1);
           gradZ = grad (qz, qy, qx, 2);
           grad = grad((qz, qy, qx, 0) := (O11 * gradX) + (O12 * gradY) + (O13 * gradZ));
           grad = grad((qz, qy, qx, 1) := (O12 * gradX) + (O22 * gradY) + (O23 * gradZ));
           grad = grad((qz, qy, qx, 2) := (O13 * gradX) + (O23 * gradY) + (O33 * gradZ))
       in grad))) grad"

text \<open>Backward transform, x direction.\<close>

definition Apply3D_gradX_back ::
  "nat \<Rightarrow> nat \<Rightarrow> real_t list \<Rightarrow> real_t list \<Rightarrow> arr4 \<Rightarrow> nat \<Rightarrow> nat \<Rightarrow> arr2" where
  "Apply3D_gradX_back D1D Q1D bt gt grad qz qy =
     (let gradX = stack_array;
          gradX = for_loop D1D (\<lambda>dx gradX.
            let gradX = gradX((dx, 0) := 0);
                gradX = gradX((dx, 1) := 0);
                gradX = gradX((dx, 2) := 0)
            in gradX) gradX
      in for_loop Q1D (\<lambda>qx gradX.
           let gX = grad (qz, qy, qx, 0);
               gY = grad (qz, qy, qx, 1);
               gZ = grad (qz, qy, qx, 2)
           in for_loop D1D (\<lambda>dx gradX.
                let wx = bt ! at2 D1D dx qx;
                    wdx = gt ! at2 D1D dx qx;
                    gradX = gradX((dx, 0) := gradX (dx, 0) + gX * wdx);
                    gradX = gradX((dx, 1) := gradX (dx, 1) + gY * wx);
                    gradX = gradX((dx, 2) := gradX (dx, 2) + gZ * wx)
                in gradX) gradX) gradX)"

text \<open>Backward transform, y direction.\<close>

definition Apply3D_gradXY_back ::
  "nat \<Rightarrow> nat \<Rightarrow> real_t list \<Rightarrow> real_t list \<Rightarrow> arr4 \<Rightarrow> nat \<Rightarrow> arr3" where
  "Apply3D_gradXY_back D1D Q1D bt gt grad qz =
     (let gradXY = stack_array;
          gradXY = for_loop D1D (\<lambda>dy. for_loop D1D (\<lambda>dx gradXY.
            let gradXY = gradXY((dy, dx, 0) := 0);
                gradXY = gradXY((dy, dx, 1) := 0);
                gradXY = gradXY((dy, dx, 2) := 0)
            in gradXY)) gradXY
      in for_loop Q1D (\<lambda>qy gradXY.
           let gradX = Apply3D_gradX_back D1D Q1D bt gt grad qz qy
           in for_loop D1D (\<lambda>dy gradXY.
                let wy = bt ! at2 D1D dy qy;
                    wDy = gt ! at2 D1D dy qy
                in for_loop D1D (\<lambda>dx gradXY.
                     let gradXY = gradXY((dy, dx, 0) := gradXY (dy, dx, 0) + gradX (dx, 0) * wy);
                         gradXY = gradXY((dy, dx, 1) := gradXY (dy, dx, 1) + gradX (dx, 1) * wDy);
                         gradXY = gradXY((dy, dx, 2) := gradXY (dy, dx, 2) + gradX (dx, 2) * wy)
                     in gradXY) gradXY) gradXY) gradXY)"

text \<open>Backward transform, z direction, accumulating into the output.\<close>

definition Apply3D_y ::
  "nat \<Rightarrow> nat \<Rightarrow> real_t list \<Rightarrow> real_t list \<Rightarrow> arr4 \<Rightarrow> nat \<Rightarrow> nat \<Rightarrow> real_t list \<Rightarrow> real_t list" where
  "Apply3D_y D1D Q1D bt gt grad e c y =
     (let VDIM = 3 in
      for_loop Q1D (\<lambda>qz y.
        let gradXY = Apply3D_gradXY_back D1D Q1D bt gt grad qz
        in for_loop D1D (\<lambda>dz y.
             let wz = bt ! at2 D1D dz qz;
                 wDz = gt ! at2 D1D dz qz
             in for_loop D1D (\<lambda>dy. for_loop D1D (\<lambda>dx y.
                  y[at5 D1D D1D D1D VDIM dx dy dz c e :=
                      y ! at5 D1D D1D D1D VDIM dx dy dz c e +
                      ((gradXY (dy, dx, 0) * wz) +
                       (gradXY (dy, dx, 1) * wz) +
                       (gradXY (dy, dx, 2) * wDz))])) y) y) y)"

text \<open>
  The body of \<^verbatim>\<open>mfem::forall\<close> in \<^verbatim>\<open>PAVectorDiffusionApply3D\<close>; here \<^verbatim>\<open>grad\<close> is
  declared inside the loop over the three components.
\<close>

definition PAVectorDiffusionApply3D_element ::
  "nat \<Rightarrow> nat \<Rightarrow> real_t list \<Rightarrow> real_t list \<Rightarrow> real_t list \<Rightarrow> real_t list \<Rightarrow>
   real_t list \<Rightarrow> real_t list \<Rightarrow> nat \<Rightarrow> real_t list \<Rightarrow> real_t list" where
  "PAVectorDiffusionApply3D_element D1D Q1D b g bt gt op x e y =
     (let VDIM = 3 in
      for_loop VDIM (\<lambda>c y.
        let grad = stack_array;
            grad = Apply3D_grad_clear Q1D grad;
            grad = Apply3D_grad D1D Q1D b g x e c grad;
            grad = Apply3D_pointwise Q1D op e grad
        in Apply3D_y D1D Q1D bt gt grad e c y) y)"

definition PAVectorDiffusionApply3D ::
  "nat \<Rightarrow> nat \<Rightarrow> nat \<Rightarrow> nat \<Rightarrow> nat \<Rightarrow> real_t list \<Rightarrow> real_t list \<Rightarrow> real_t list \<Rightarrow>
   real_t list \<Rightarrow> real_t list \<Rightarrow> real_t list \<Rightarrow> real_t list \<Rightarrow> nat \<Rightarrow> nat \<Rightarrow>
   mfem_error + real_t list" where
  "PAVectorDiffusionApply3D MAX_D1D MAX_Q1D T_D1D T_Q1D NE b g bt gt op x y d1d q1d =
     (let D1D = (if T_D1D \<noteq> 0 then T_D1D else d1d);
          Q1D = (if T_Q1D \<noteq> 0 then T_Q1D else q1d)
      in if \<not> D1D \<le> MAX_D1D then Inl (MFEM_VERIFY [])
         else if \<not> Q1D \<le> MAX_Q1D then Inl (MFEM_VERIFY [])
         else Inr (mfem_forall NE (PAVectorDiffusionApply3D_element D1D Q1D b g bt gt op x) y))"

section \<open>Entry points of the integrator\<close>

text \<open>
  \<^verbatim>\<open>VectorDiffusionIntegrator::AddMultPA\<close>.  \<open>DeviceCanUseCeed\<close> is the capability
  query and \<open>ceedOp_AddMult\<close> the action of the libCEED operator, which is not part of this
  file.  Otherwise the mesh dimension \<open>dim\<close> and the space dimension \<open>sdim\<close> select the
  kernel; on a surface mesh (\<open>dim = 2\<close>, \<open>sdim = 3\<close>) the switch on
  \<^verbatim>\<open>(dofs1D << 4) | quad1D\<close> picks one of the instantiations with three vector components
  (\<^verbatim>\<open>0x22\<close>, \<^verbatim>\<open>0x33\<close>, \<^verbatim>\<open>0x44\<close>, \<^verbatim>\<open>0x55\<close> are 34, 51, 68, 85) or the
  run-time sized kernel with \<open>VDIM = sdim\<close>.
\<close>

definition AddMultPA ::
  "bool \<Rightarrow> (real_t list \<Rightarrow> real_t list \<Rightarrow> real_t list) \<Rightarrow> nat \<Rightarrow> nat \<Rightarrow> int \<Rightarrow> int \<Rightarrow> nat \<Rightarrow> nat \<Rightarrow> nat \<Rightarrow>
   real_t list \<Rightarrow> real_t list \<Rightarrow> real_t list \<Rightarrow> real_t list \<Rightarrow> real_t list \<Rightarrow> real_t list \<Rightarrow>
   real_t list \<Rightarrow> mfem_error + real_t list" where
  "AddMultPA DeviceCanUseCeed ceedOp_AddMult MAX_D1D MAX_Q1D dim' sdim dofs1D quad1D ne
       B G Bt Gt D x y =
     (if DeviceCanUseCeed then Inr (ceedOp_AddMult x y)
      else if dim' = 2 \<and> sdim = 3 then
        (let key = or (push_bit 4 dofs1D) quad1D in
         if key = 34 then PAVectorDiffusionApply2D MAX_D1D MAX_Q1D 2 2 3 ne B G Bt Gt D x y 0 0 0
         else if key = 51 then PAVectorDiffusionApply2D MAX_D1D MAX_Q1D 3 3 3 ne B G Bt Gt D x y 0 0 0
         else if key = 68 then PAVectorDiffusionApply2D MAX_D1D MAX_Q1D 4 4 3 ne B G Bt Gt D x y 0 0 0
         else if key = 85 then PAVectorDiffusionApply2D MAX_D1D MAX_Q1D 5 5 3 ne B G Bt Gt D x y 0 0 0
         else PAVectorDiffusionApply2D MAX_D1D MAX_Q1D 0 0 0 ne B G Bt Gt D x y
                dofs1D quad1D (nat sdim))
      else if dim' = 2 \<and> sdim = 2 then
        PAVectorDiffusionApply2D MAX_D1D MAX_Q1D 0 0 0 ne B G Bt Gt D x y dofs1D quad1D (nat sdim)
      else if dim' = 3 \<and> sdim = 3 then
        PAVectorDiffusionApply3D MAX_D1D MAX_Q1D 0 0 ne B G Bt Gt D x y dofs1D quad1D
      else Inl (MFEM_ABORT ''Unknown kernel.''))"

text \<open>
  \<^verbatim>\<open>VectorDiffusionIntegrator::AssembleDiagonalPA\<close>; \<open>ceedOp_GetDiagonal\<close> is the libCEED
  operator's diagonal.  The space dimension is not passed on to the diagonal kernels.
\<close>

definition AssembleDiagonalPA ::
  "bool \<Rightarrow> (real_t list \<Rightarrow> real_t list) \<Rightarrow> nat \<Rightarrow> nat \<Rightarrow> int \<Rightarrow> nat \<Rightarrow> nat \<Rightarrow> nat \<Rightarrow>
   real_t list \<Rightarrow> real_t list \<Rightarrow> real_t list \<Rightarrow> real_t list \<Rightarrow> mfem_error + real_t list" where
  "AssembleDiagonalPA DeviceCanUseCeed ceedOp_GetDiagonal MAX_D1D MAX_Q1D dim' dofs1D quad1D ne
       B G pa_data diag =
     (if DeviceCanUseCeed then Inr (ceedOp_GetDiagonal diag)
      else PAVectorDiffusionAssembleDiagonal MAX_D1D MAX_Q1D dim' dofs1D quad1D ne B G pa_data diag)"

section \<open>Reference notions for the statements\<close>

text \<open>
  The notions the specification uses to say what the kernels compute.  They are written
  from the specification, not from the code: the determinant of a \<open>3 \<times> 3\<close> matrix (rule of
  Sarrus), its adjugate (the transpose of the cofactor matrix, a cofactor being a signed
  minor), and the entries of \<open>A A\<^sup>T\<close>.  Matrices are functions of a row and a column
  index, counted from 0.
\<close>

definition det3 :: "(nat \<Rightarrow> nat \<Rightarrow> real) \<Rightarrow> real" where
  "det3 M = M 0 0 * M 1 1 * M 2 2 + M 0 1 * M 1 2 * M 2 0 + M 0 2 * M 1 0 * M 2 1
          - M 0 2 * M 1 1 * M 2 0 - M 0 1 * M 1 0 * M 2 2 - M 0 0 * M 1 2 * M 2 1"

definition skip :: "nat \<Rightarrow> nat \<Rightarrow> nat" where
  "skip i r = (if r < i then r else r + 1)"

definition minor3 :: "(nat \<Rightarrow> nat \<Rightarrow> real) \<Rightarrow> nat \<Rightarrow> nat \<Rightarrow> real" where
  "minor3 M i j = M (skip i 0) (skip j 0) * M (skip i 1) (skip j 1)
                - M (skip i 0) (skip j 1) * M (skip i 1) (skip j 0)"

definition adj3 :: "(nat \<Rightarrow> nat \<Rightarrow> real) \<Rightarrow> nat \<Rightarrow> nat \<Rightarrow> real" where
  "adj3 M i j = (- 1) ^ (i + j) * minor3 M j i"

definition mat_AAt :: "(nat \<Rightarrow> nat \<Rightarrow> real) \<Rightarrow> nat \<Rightarrow> nat \<Rightarrow> real" where
  "mat_AAt A i j = (\<Sum>k<3. A i k * A j k)"

text \<open>The Euclidean dot product of two vectors with three components.\<close>

definition dot3 :: "(nat \<Rightarrow> real) \<Rightarrow> (nat \<Rightarrow> real) \<Rightarrow> real" where
  "dot3 u v = (\<Sum>r<3. u r * v r)"

text \<open>
  The unit nodal vector \<open>e\<^sub>i\<close> of length \<open>n\<close> and the dot product of two vectors, as the
  specification uses them for the diagonal and the symmetry property.
\<close>

definition unit_vec :: "nat \<Rightarrow> nat \<Rightarrow> real list" where
  "unit_vec n i = (replicate n 0)[i := 1]"

definition dot :: "real list \<Rightarrow> real list \<Rightarrow> real" where
  "dot u v = (\<Sum>i<length u. u ! i * v ! i)"

section \<open>Closed forms of the loop nests\<close>

text \<open>
  What a transformer of an output vector adds: \<open>adds_to F c\<close> says that \<open>F\<close> keeps the
  length and adds \<open>c k\<close> to the entry \<open>k\<close>, whatever the vector holds.  \<open>fadds\<close> is the
  same for a stack array.
\<close>

definition adds_to :: "(real list \<Rightarrow> real list) \<Rightarrow> (nat \<Rightarrow> real) \<Rightarrow> bool" where
  "adds_to F c \<longleftrightarrow> (\<forall>y. length (F y) = length y \<and> (\<forall>k<length y. F y ! k = y ! k + c k))"

definition fadds :: "(('k \<Rightarrow> real) \<Rightarrow> ('k \<Rightarrow> real)) \<Rightarrow> ('k \<Rightarrow> real) \<Rightarrow> bool" where
  "fadds F c \<longleftrightarrow> (\<forall>a p. F a p = a p + c p)"

text \<open>
  A value \<open>val e c dx dy\<close> delivered to the offset of \<open>(dx, dy, c, e)\<close> in the view
  \<open>(D1D, D1D, VDIM, NE)\<close>, as a function of the flat offset \<open>k\<close>.
\<close>

definition scatter4 :: "nat \<Rightarrow> nat \<Rightarrow> nat \<Rightarrow> (nat \<Rightarrow> nat \<Rightarrow> nat \<Rightarrow> nat \<Rightarrow> real) \<Rightarrow> nat \<Rightarrow> real" where
  "scatter4 D1D VDIM NE val k =
     (\<Sum>e<NE. \<Sum>c<VDIM. \<Sum>dy<D1D. \<Sum>dx<D1D.
        if k = at4 D1D D1D VDIM dx dy c e then val e c dx dy else 0)"

text \<open>
  The 2D diagonal kernel: the value of \<^verbatim>\<open>temp\<close> at the output position \<open>(dx, dy)\<close> of the
  element \<open>e\<close>, with the sums the loops compute.
\<close>

definition Diagonal2D_value ::
  "nat \<Rightarrow> real list \<Rightarrow> real list \<Rightarrow> real list \<Rightarrow> nat \<Rightarrow> nat \<Rightarrow> nat \<Rightarrow> real" where
  "Diagonal2D_value Q1D b g d e dx dy =
     (\<Sum>qx<Q1D.
        g ! at2 Q1D qx dx * g ! at2 Q1D qx dx *
          (\<Sum>qy<Q1D. b ! at2 Q1D qy dy * b ! at2 Q1D qy dy * d ! at3 (Q1D * Q1D) 3 (qx + qy * Q1D) 0 e) +
        g ! at2 Q1D qx dx * b ! at2 Q1D qx dx *
          (\<Sum>qy<Q1D. b ! at2 Q1D qy dy * g ! at2 Q1D qy dy * d ! at3 (Q1D * Q1D) 3 (qx + qy * Q1D) 1 e) +
        b ! at2 Q1D qx dx * g ! at2 Q1D qx dx *
          (\<Sum>qy<Q1D. b ! at2 Q1D qy dy * g ! at2 Q1D qy dy * d ! at3 (Q1D * Q1D) 3 (qx + qy * Q1D) 1 e) +
        b ! at2 Q1D qx dx * b ! at2 Q1D qx dx *
          (\<Sum>qy<Q1D. g ! at2 Q1D qy dy * g ! at2 Q1D qy dy * d ! at3 (Q1D * Q1D) 3 (qx + qy * Q1D) 2 e))"

definition QD_at :: "nat \<times> nat \<Rightarrow> arr2 \<times> arr2 \<times> arr2 \<Rightarrow> real \<times> real \<times> real" where
  "QD_at p = (\<lambda>(A0, A1, A2). (A0 p, A1 p, A2 p))"

text \<open>
  The 2D apply kernel, for the component \<open>c\<close> of the element \<open>e\<close>: the forward transform
  with the table \<open>tx\<close> along x and \<open>ty\<close> along y (\<^verbatim>\<open>grad[qy][qx][0]\<close> is
  \<open>Apply2D_fwd \<dots> g b\<close>, \<^verbatim>\<open>grad[qy][qx][1]\<close> is \<open>Apply2D_fwd \<dots> b g\<close>), the two
  components after the product with the operator, and the value added to the output
  position \<open>(dx, dy)\<close> by the backward transform.
\<close>

definition Apply2D_fwd ::
  "nat \<Rightarrow> nat \<Rightarrow> nat \<Rightarrow> real list \<Rightarrow> real list \<Rightarrow> real list \<Rightarrow> nat \<Rightarrow> nat \<Rightarrow> nat \<Rightarrow> nat \<Rightarrow> real" where
  "Apply2D_fwd D1D Q1D VDIM tx ty x e c qy qx =
     (\<Sum>dy<D1D. (\<Sum>dx<D1D. x ! at4 D1D D1D VDIM dx dy c e * tx ! at2 Q1D qx dx) * ty ! at2 Q1D qy dy)"

definition Apply2D_flux0 ::
  "nat \<Rightarrow> nat \<Rightarrow> nat \<Rightarrow> real list \<Rightarrow> real list \<Rightarrow> real list \<Rightarrow> real list \<Rightarrow> nat \<Rightarrow> nat \<Rightarrow> nat \<Rightarrow> nat \<Rightarrow> real" where
  "Apply2D_flux0 D1D Q1D VDIM b g d x e c qy qx =
     d ! at3 (Q1D * Q1D) 3 (qx + qy * Q1D) 0 e * Apply2D_fwd D1D Q1D VDIM g b x e c qy qx +
     d ! at3 (Q1D * Q1D) 3 (qx + qy * Q1D) 1 e * Apply2D_fwd D1D Q1D VDIM b g x e c qy qx"

definition Apply2D_flux1 ::
  "nat \<Rightarrow> nat \<Rightarrow> nat \<Rightarrow> real list \<Rightarrow> real list \<Rightarrow> real list \<Rightarrow> real list \<Rightarrow> nat \<Rightarrow> nat \<Rightarrow> nat \<Rightarrow> nat \<Rightarrow> real" where
  "Apply2D_flux1 D1D Q1D VDIM b g d x e c qy qx =
     d ! at3 (Q1D * Q1D) 3 (qx + qy * Q1D) 1 e * Apply2D_fwd D1D Q1D VDIM g b x e c qy qx +
     d ! at3 (Q1D * Q1D) 3 (qx + qy * Q1D) 2 e * Apply2D_fwd D1D Q1D VDIM b g x e c qy qx"

definition Apply2D_value ::
  "nat \<Rightarrow> nat \<Rightarrow> nat \<Rightarrow> real list \<Rightarrow> real list \<Rightarrow> real list \<Rightarrow> real list \<Rightarrow> real list \<Rightarrow> real list \<Rightarrow>
   nat \<Rightarrow> nat \<Rightarrow> nat \<Rightarrow> nat \<Rightarrow> real" where
  "Apply2D_value D1D Q1D VDIM b g bt gt d x e c dx dy =
     (\<Sum>qy<Q1D.
        (\<Sum>qx<Q1D. Apply2D_flux0 D1D Q1D VDIM b g d x e c qy qx * gt ! at2 D1D dx qx) *
          bt ! at2 D1D dy qy +
        (\<Sum>qx<Q1D. Apply2D_flux1 D1D Q1D VDIM b g d x e c qy qx * bt ! at2 D1D dx qx) *
          gt ! at2 D1D dy qy)"

text \<open>
  The three-dimensional kernels.  \<open>scatter5\<close> places per-degree-of-freedom values at their
  positions in the five-index view of the output; \<open>Diagonal3D_term\<close> is the contribution of
  one pair \<open>(i, j)\<close> of derivative directions to the diagonal; \<open>Apply3D_fwd\<close> is the
  interpolation of the input to a quadrature point along three one-dimensional tables,
  \<open>Apply3D_bwd\<close> its transpose, and \<open>Apply3D_flux0\<close>, \<open>Apply3D_flux1\<close>,
  \<open>Apply3D_flux2\<close> are the components of the gradient after the pointwise product.
\<close>

definition scatter5 ::
  "nat \<Rightarrow> nat \<Rightarrow> nat \<Rightarrow> (nat \<Rightarrow> nat \<Rightarrow> nat \<Rightarrow> nat \<Rightarrow> nat \<Rightarrow> real) \<Rightarrow> nat \<Rightarrow> real" where
  "scatter5 D1D VDIM NE val k =
     (\<Sum>e<NE. \<Sum>c<VDIM. \<Sum>dz<D1D. \<Sum>dy<D1D. \<Sum>dx<D1D.
        if k = at5 D1D D1D D1D VDIM dx dy dz c e then val e c dx dy dz else 0)"

definition Diagonal3D_term ::
  "nat \<Rightarrow> real list \<Rightarrow> real list \<Rightarrow> real list \<Rightarrow> nat \<Rightarrow> nat \<Rightarrow> nat \<Rightarrow> nat \<Rightarrow> nat \<Rightarrow> nat \<Rightarrow> real" where
  "Diagonal3D_term Q1D b g d e i j dx dy dz =
     (\<Sum>qx<Q1D.
        (if i = 0 then g ! at2 Q1D qx dx else b ! at2 Q1D qx dx) *
        (\<Sum>qy<Q1D.
           (if i = 1 then g ! at2 Q1D qy dy else b ! at2 Q1D qy dy) *
           (\<Sum>qz<Q1D.
              (if i = 2 then g ! at2 Q1D qz dz else b ! at2 Q1D qz dz) *
              d ! at3 (Q1D * Q1D * Q1D) 6 (qx + (qy + qz * Q1D) * Q1D) (Diagonal3D_k i j) e *
              (if j = 2 then g ! at2 Q1D qz dz else b ! at2 Q1D qz dz)) *
           (if j = 1 then g ! at2 Q1D qy dy else b ! at2 Q1D qy dy)) *
        (if j = 0 then g ! at2 Q1D qx dx else b ! at2 Q1D qx dx))"

definition Diagonal3D_value ::
  "nat \<Rightarrow> real list \<Rightarrow> real list \<Rightarrow> real list \<Rightarrow> nat \<Rightarrow> nat \<Rightarrow> nat \<Rightarrow> nat \<Rightarrow> real" where
  "Diagonal3D_value Q1D b g d e dx dy dz =
     (\<Sum>i<3. \<Sum>j<3. Diagonal3D_term Q1D b g d e i j dx dy dz)"

definition Apply3D_fwd ::
  "nat \<Rightarrow> nat \<Rightarrow> real list \<Rightarrow> real list \<Rightarrow> real list \<Rightarrow> real list \<Rightarrow> nat \<Rightarrow> nat \<Rightarrow>
   nat \<Rightarrow> nat \<Rightarrow> nat \<Rightarrow> real" where
  "Apply3D_fwd D1D Q1D tx ty tz x e c qz qy qx =
     (\<Sum>dz<D1D.
        (\<Sum>dy<D1D.
           (\<Sum>dx<D1D. x ! at5 D1D D1D D1D 3 dx dy dz c e * tx ! at2 Q1D qx dx) *
           ty ! at2 Q1D qy dy) *
        tz ! at2 Q1D qz dz)"

definition Apply3D_flux0 ::
  "nat \<Rightarrow> nat \<Rightarrow> real list \<Rightarrow> real list \<Rightarrow> real list \<Rightarrow> real list \<Rightarrow> nat \<Rightarrow> nat \<Rightarrow>
   nat \<Rightarrow> nat \<Rightarrow> nat \<Rightarrow> real" where
  "Apply3D_flux0 D1D Q1D b g op x e c qz qy qx =
     op ! at3 (Q1D * Q1D * Q1D) 6 (qx + (qy + qz * Q1D) * Q1D) 0 e *
       Apply3D_fwd D1D Q1D g b b x e c qz qy qx +
     op ! at3 (Q1D * Q1D * Q1D) 6 (qx + (qy + qz * Q1D) * Q1D) 1 e *
       Apply3D_fwd D1D Q1D b g b x e c qz qy qx +
     op ! at3 (Q1D * Q1D * Q1D) 6 (qx + (qy + qz * Q1D) * Q1D) 2 e *
       Apply3D_fwd D1D Q1D b b g x e c qz qy qx"

definition Apply3D_flux1 ::
  "nat \<Rightarrow> nat \<Rightarrow> real list \<Rightarrow> real list \<Rightarrow> real list \<Rightarrow> real list \<Rightarrow> nat \<Rightarrow> nat \<Rightarrow>
   nat \<Rightarrow> nat \<Rightarrow> nat \<Rightarrow> real" where
  "Apply3D_flux1 D1D Q1D b g op x e c qz qy qx =
     op ! at3 (Q1D * Q1D * Q1D) 6 (qx + (qy + qz * Q1D) * Q1D) 1 e *
       Apply3D_fwd D1D Q1D g b b x e c qz qy qx +
     op ! at3 (Q1D * Q1D * Q1D) 6 (qx + (qy + qz * Q1D) * Q1D) 3 e *
       Apply3D_fwd D1D Q1D b g b x e c qz qy qx +
     op ! at3 (Q1D * Q1D * Q1D) 6 (qx + (qy + qz * Q1D) * Q1D) 4 e *
       Apply3D_fwd D1D Q1D b b g x e c qz qy qx"

definition Apply3D_flux2 ::
  "nat \<Rightarrow> nat \<Rightarrow> real list \<Rightarrow> real list \<Rightarrow> real list \<Rightarrow> real list \<Rightarrow> nat \<Rightarrow> nat \<Rightarrow>
   nat \<Rightarrow> nat \<Rightarrow> nat \<Rightarrow> real" where
  "Apply3D_flux2 D1D Q1D b g op x e c qz qy qx =
     op ! at3 (Q1D * Q1D * Q1D) 6 (qx + (qy + qz * Q1D) * Q1D) 2 e *
       Apply3D_fwd D1D Q1D g b b x e c qz qy qx +
     op ! at3 (Q1D * Q1D * Q1D) 6 (qx + (qy + qz * Q1D) * Q1D) 4 e *
       Apply3D_fwd D1D Q1D b g b x e c qz qy qx +
     op ! at3 (Q1D * Q1D * Q1D) 6 (qx + (qy + qz * Q1D) * Q1D) 5 e *
       Apply3D_fwd D1D Q1D b b g x e c qz qy qx"

definition Apply3D_value ::
  "nat \<Rightarrow> nat \<Rightarrow> real list \<Rightarrow> real list \<Rightarrow> real list \<Rightarrow> real list \<Rightarrow> real list \<Rightarrow> real list \<Rightarrow>
   nat \<Rightarrow> nat \<Rightarrow> nat \<Rightarrow> nat \<Rightarrow> nat \<Rightarrow> real" where
  "Apply3D_value D1D Q1D b g bt gt op x e c dx dy dz =
     (\<Sum>qz<Q1D.
        (\<Sum>qy<Q1D.
           (\<Sum>qx<Q1D. Apply3D_flux0 D1D Q1D b g op x e c qz qy qx * gt ! at2 D1D dx qx) *
           bt ! at2 D1D dy qy) * bt ! at2 D1D dz qz +
        (\<Sum>qy<Q1D.
           (\<Sum>qx<Q1D. Apply3D_flux1 D1D Q1D b g op x e c qz qy qx * bt ! at2 D1D dx qx) *
           gt ! at2 D1D dy qy) * bt ! at2 D1D dz qz +
        (\<Sum>qy<Q1D.
           (\<Sum>qx<Q1D. Apply3D_flux2 D1D Q1D b g op x e c qz qy qx * bt ! at2 D1D dx qx) *
           bt ! at2 D1D dy qy) * gt ! at2 D1D dz qz)"

definition Apply3D_bwd ::
  "nat \<Rightarrow> real list \<Rightarrow> real list \<Rightarrow> real list \<Rightarrow> (nat \<Rightarrow> nat \<Rightarrow> nat \<Rightarrow> real) \<Rightarrow>
   nat \<Rightarrow> nat \<Rightarrow> nat \<Rightarrow> real" where
  "Apply3D_bwd Q1D tx ty tz F dx dy dz =
     (\<Sum>qz<Q1D.
        (\<Sum>qy<Q1D. (\<Sum>qx<Q1D. F qz qy qx * tx ! at2 Q1D qx dx) * ty ! at2 Q1D qy dy) *
        tz ! at2 Q1D qz dz)"

section \<open>Loops and views\<close>

lemma for_loop_0: "for_loop 0 f s = s"
  by (simp add: for_loop_def)

lemma for_loop_Suc: "for_loop (Suc n) f s = f n (for_loop n f s)"
  by (simp add: for_loop_def)

lemma for_loop_cong:
  assumes "\<And>i s. i < n \<Longrightarrow> f i s = g i s"
  shows "for_loop n f s = for_loop n g s"
  using assms by (induction n) (simp_all add: for_loop_0 for_loop_Suc)

lemma for_loop_length:
  assumes "\<And>i (y::'a list). i < n \<Longrightarrow> length (F i y) = length y"
  shows "length (for_loop n F y) = length y"
  using assms by (induction n) (simp_all add: for_loop_0 for_loop_Suc)

text \<open>A cell that no iteration writes keeps its value.\<close>

lemma for_loop_nth_frame:
  assumes len: "\<And>i (y::'a list). i < n \<Longrightarrow> length (F i y) = length y"
    and frame: "\<And>i y. i < n \<Longrightarrow> k < length y \<Longrightarrow> F i y ! k = y ! k"
    and k: "k < length y"
  shows "for_loop n F y ! k = y ! k"
  using len frame
proof (induction n)
  case 0
  show ?case by (simp add: for_loop_0)
next
  case (Suc n)
  have l: "length (for_loop n F y) = length y"
    by (rule for_loop_length) (simp add: Suc.prems(1))
  have "F n (for_loop n F y) ! k = for_loop n F y ! k"
    by (rule Suc.prems(2)) (simp_all add: l k)
  also have "\<dots> = y ! k"
    by (rule Suc.IH) (simp_all add: Suc.prems)
  finally show ?case by (simp add: for_loop_Suc)
qed

text \<open>
  A cell that exactly one iteration \<open>i\<close> writes, with a value \<open>a\<close> that does not depend on
  the buffer, holds \<open>a\<close> after the loop.
\<close>

lemma for_loop_nth_written:
  assumes len: "\<And>i (y::'a list). i < n \<Longrightarrow> length (F i y) = length y"
    and frame: "\<And>i' y. i' < n \<Longrightarrow> i' \<noteq> i \<Longrightarrow> k < length y \<Longrightarrow> F i' y ! k = y ! k"
    and val: "\<And>y. k < length y \<Longrightarrow> F i y ! k = a"
    and i: "i < n" and k: "k < length y"
  shows "for_loop n F y ! k = a"
  using len frame i
proof (induction n)
  case 0
  then show ?case by simp
next
  case (Suc n)
  have l: "length (for_loop n F y) = length y"
    by (rule for_loop_length) (simp add: Suc.prems(1))
  show ?case
  proof (cases "i = n")
    case True
    have "F i (for_loop n F y) ! k = a"
      by (rule val) (simp add: l k)
    with True show ?thesis by (simp add: for_loop_Suc)
  next
    case False
    with Suc.prems(3) have lt: "i < n" by simp
    have "F n (for_loop n F y) ! k = for_loop n F y ! k"
      using False by (intro Suc.prems(2)) (simp_all add: l k)
    also have "\<dots> = a"
      by (rule Suc.IH) (simp_all add: Suc.prems lt)
    finally show ?thesis by (simp add: for_loop_Suc)
  qed
qed

lemma at2_eq_iff:
  "i < n \<Longrightarrow> i' < n \<Longrightarrow> at2 n i r = at2 n i' r' \<longleftrightarrow> i = i' \<and> r = r'"
proof -
  assume a: "i < n" "i' < n"
  have "i + n * r = i' + n * r' \<Longrightarrow> i = i' \<and> r = r'"
  proof -
    assume e: "i + n * r = i' + n * r'"
    have "(i + n * r) mod n = i" "(i' + n * r') mod n = i'" using a by simp_all
    with e have ii: "i = i'" by simp
    have "(i + n * r) div n = r" "(i' + n * r') div n = r'" using a by simp_all
    with e have "r = r'" by simp
    with ii show ?thesis by simp
  qed
  then show ?thesis by (auto simp: at2_def)
qed

lemma at3_eq_iff:
  "i < n \<Longrightarrow> i' < n \<Longrightarrow> k < m \<Longrightarrow> k' < m \<Longrightarrow>
   at3 n m i k r = at3 n m i' k' r' \<longleftrightarrow> i = i' \<and> k = k' \<and> r = r'"
  using at2_eq_iff [of i n i' "at2 m k r" "at2 m k' r'"] at2_eq_iff [of k m k' r r']
  by (simp add: at3_def at2_def)

lemma at3_less:
  "i < n \<Longrightarrow> k < m \<Longrightarrow> r < N \<Longrightarrow> at3 n m i k r < n * m * N"
proof -
  assume a: "i < n" "k < m" "r < N"
  have "k + m * r < m * N"
  proof -
    have "k + m * r < m + m * r" using a by simp
    also have "\<dots> = m * Suc r" by simp
    also have "\<dots> \<le> m * N" using a by (intro mult_le_mono2) simp
    finally show ?thesis .
  qed
  then have "Suc (k + m * r) \<le> m * N" by simp
  then have "n * Suc (k + m * r) \<le> n * (m * N)" by (rule mult_le_mono2)
  moreover have "i + n * (k + m * r) < n * Suc (k + m * r)" using a by simp
  ultimately show ?thesis by (simp add: at3_def mult.assoc)
qed

lemma forall_for_loop_nth_written:
  assumes len: "\<And>e q (y::'a list). length (P e q y) = length y"
    and frame: "\<And>e' q' y. e' < NE \<Longrightarrow> q' < NQ \<Longrightarrow> q' \<noteq> q \<or> e' \<noteq> e \<Longrightarrow> k < length y \<Longrightarrow>
                  P e' q' y ! k = y ! k"
    and val: "\<And>y. k < length y \<Longrightarrow> P e q y ! k = a"
    and e: "e < NE" and q: "q < NQ" and k: "k < length y"
  shows "mfem_forall NE (\<lambda>e. for_loop NQ (P e)) y ! k = a"
  unfolding mfem_forall_def
proof (rule for_loop_nth_written [where i = e])
  show "length (for_loop NQ (P i) y) = length y" for i y
    by (rule for_loop_length) (rule len)
  show "for_loop NQ (P i') y ! k = y ! k" if "i' < NE" "i' \<noteq> e" "k < length y" for i' y
  proof (rule for_loop_nth_frame)
    show "length (P i' i y) = length y" for i y by (rule len)
    show "P i' i y ! k = y ! k" if "i < NQ" "k < length y" for i y
      using that \<open>i' < NE\<close> \<open>i' \<noteq> e\<close> by (intro frame) simp_all
    show "k < length y" by fact
  qed
  show "for_loop NQ (P e) y ! k = a" if "k < length y" for y
  proof (rule for_loop_nth_written [where i = q])
    show "length (P e i y) = length y" for i y by (rule len)
    show "P e i' y ! k = y ! k" if "i' < NQ" "i' \<noteq> q" "k < length y" for i' y
      using that e by (intro frame) simp_all
    show "P e q y ! k = a" if "k < length y" for y by (rule val) fact
    show "q < NQ" by fact
    show "k < length y" by fact
  qed
  show "e < NE" by fact
  show "k < length y" by fact
qed

lemma coeff_at_cases:
  assumes "q < NQ" "e < NE"
    and "length c = 1 \<and> C1 = c ! 0 \<or> length c = NQ * NE \<and> C1 = c ! at2 NQ q e"
  shows "coeff_at NQ c q e = C1"
proof (cases "length c = 1")
  case True
  show ?thesis
  proof (cases "NQ * NE = 1")
    case one: True
    then have "NQ = 1" "NE = 1" by simp_all
    with assms have "q = 0" "e = 0" by simp_all
    with assms True show ?thesis by (auto simp: coeff_at_def at2_def)
  next
    case False
    with assms True show ?thesis by (auto simp: coeff_at_def at2_def)
  qed
next
  case False
  with assms show ?thesis by (auto simp: coeff_at_def)
qed

lemma Setup2D_point_length:
  "length (PAVectorDiffusionSetup2D_point NQ W J c e q y) = length y"
  by (simp add: PAVectorDiffusionSetup2D_point_def Let_def)

lemma Setup2D_point_frame:
  assumes "q' < NQ" "q < NQ" "k < 3" "q' \<noteq> q \<or> e' \<noteq> e"
  shows "PAVectorDiffusionSetup2D_point NQ W J c e' q' y ! at3 NQ 3 q k e = y ! at3 NQ 3 q k e"
  using assms by (auto simp: PAVectorDiffusionSetup2D_point_def Let_def at3_eq_iff)

lemma Setup2D_point_val:
  assumes "q < NQ" "at3 NQ 3 q k e < length y" "k < 3"
  shows "PAVectorDiffusionSetup2D_point NQ W J c e q y ! at3 NQ 3 q k e =
     (let J11 = J ! at4 NQ 2 2 q 0 0 e;
          J21 = J ! at4 NQ 2 2 q 1 0 e;
          J12 = J ! at4 NQ 2 2 q 0 1 e;
          J22 = J ! at4 NQ 2 2 q 1 1 e;
          c_detJ = W ! q * coeff_at NQ c q e / (J11 * J22 - J21 * J12)
      in [c_detJ * (J12\<^sup>2 + J22\<^sup>2), - c_detJ * (J12 * J11 + J22 * J21),
          c_detJ * (J11\<^sup>2 + J21\<^sup>2)] ! k)"
proof -
  from \<open>k < 3\<close> consider "k = 0" | "k = 1" | "k = 2" by linarith
  then show ?thesis
    using assms
    by cases (simp_all add: PAVectorDiffusionSetup2D_point_def Let_def at3_eq_iff power2_eq_square)
qed

lemma Setup2D_nth:
  assumes "q < Q1D * Q1D" "e < NE" "k < 3" "length op = Q1D * Q1D * 3 * NE"
  shows "PAVectorDiffusionSetup2D Q1D NE W J c op ! at3 (Q1D * Q1D) 3 q k e =
     (let NQ = Q1D * Q1D;
          J11 = J ! at4 NQ 2 2 q 0 0 e;
          J21 = J ! at4 NQ 2 2 q 1 0 e;
          J12 = J ! at4 NQ 2 2 q 0 1 e;
          J22 = J ! at4 NQ 2 2 q 1 1 e;
          c_detJ = W ! q * coeff_at NQ c q e / (J11 * J22 - J21 * J12)
      in [c_detJ * (J12\<^sup>2 + J22\<^sup>2), - c_detJ * (J12 * J11 + J22 * J21),
          c_detJ * (J11\<^sup>2 + J21\<^sup>2)] ! k)" (is "_ = ?rhs")
proof -
  have k: "at3 (Q1D * Q1D) 3 q k e < length op"
    using at3_less [of q "Q1D * Q1D" k 3 e NE] assms by simp
  have "PAVectorDiffusionSetup2D Q1D NE W J c op ! at3 (Q1D * Q1D) 3 q k e =
        PAVectorDiffusionSetup2D_point (Q1D * Q1D) W J c e q op ! at3 (Q1D * Q1D) 3 q k e"
    unfolding PAVectorDiffusionSetup2D_def Let_def
  proof (rule forall_for_loop_nth_written [where e = e and q = q and NE = NE
        and NQ = "Q1D * Q1D" and P = "PAVectorDiffusionSetup2D_point (Q1D * Q1D) W J c"])
    fix e' q' :: nat and y :: "real list"
    show "length (PAVectorDiffusionSetup2D_point (Q1D * Q1D) W J c e' q' y) = length y"
      by (rule Setup2D_point_length)
    assume "q' < Q1D * Q1D" "q' \<noteq> q \<or> e' \<noteq> e"
    then show "PAVectorDiffusionSetup2D_point (Q1D * Q1D) W J c e' q' y ! at3 (Q1D * Q1D) 3 q k e =
          y ! at3 (Q1D * Q1D) 3 q k e"
      using assms by (intro Setup2D_point_frame) simp_all
  next
    fix y :: "real list"
    assume "at3 (Q1D * Q1D) 3 q k e < length y"
    then show "PAVectorDiffusionSetup2D_point (Q1D * Q1D) W J c e q y ! at3 (Q1D * Q1D) 3 q k e =
       PAVectorDiffusionSetup2D_point (Q1D * Q1D) W J c e q op ! at3 (Q1D * Q1D) 3 q k e"
      using assms k by (simp add: Setup2D_point_val)
  qed (use assms k in simp_all)
  also have "\<dots> = ?rhs"
    using assms k by (simp add: Setup2D_point_val Let_def)
  finally show ?thesis .
qed

section \<open>The setup kernels, entry by entry\<close>

text \<open>
  C1.  For every element \<open>e < NE\<close> and quadrature point \<open>q < Q1D\<^sup>2\<close> the 2D setup
  kernel leaves in \<open>D(q, 0..2, e)\<close> the three values
  \<open>c_detJ * (J12\<^sup>2 + J22\<^sup>2)\<close>, \<open>- c_detJ * (J12 * J11 + J22 * J21)\<close> and
  \<open>c_detJ * (J11\<^sup>2 + J21\<^sup>2)\<close>, where \<open>c_detJ = W[q] * C1 / (J11 * J22 - J21 * J12)\<close>,
  the \<open>Jij\<close> are the entries of the Jacobian at \<open>(q, e)\<close>, and \<open>C1\<close> is the single
  stored coefficient when the coefficient vector has size 1 and the sample at \<open>(q, e)\<close>
  when it has size \<open>NQ * NE\<close>.  The quotient is the one of the reals, on both sides.
\<close>

theorem setup2D_entries:
  assumes "e < NE" and "q < Q1D * Q1D" and "length op = Q1D * Q1D * 3 * NE"
    and "length c = 1 \<and> C1 = c ! 0 \<or>
         length c = Q1D * Q1D * NE \<and> C1 = c ! at2 (Q1D * Q1D) q e"
    and "J11 = j ! at4 (Q1D * Q1D) 2 2 q 0 0 e"
    and "J21 = j ! at4 (Q1D * Q1D) 2 2 q 1 0 e"
    and "J12 = j ! at4 (Q1D * Q1D) 2 2 q 0 1 e"
    and "J22 = j ! at4 (Q1D * Q1D) 2 2 q 1 1 e"
    and "c_detJ = w ! q * C1 / (J11 * J22 - J21 * J12)"
    and "D = PAVectorDiffusionSetup2D Q1D NE w j c op"
  shows "D ! at3 (Q1D * Q1D) 3 q 0 e = c_detJ * (J12\<^sup>2 + J22\<^sup>2) \<and>
         D ! at3 (Q1D * Q1D) 3 q 1 e = - c_detJ * (J12 * J11 + J22 * J21) \<and>
         D ! at3 (Q1D * Q1D) 3 q 2 e = c_detJ * (J11\<^sup>2 + J21\<^sup>2)"
proof -
  have C1: "coeff_at (Q1D * Q1D) c q e = C1"
    using assms(2,1,4) by (rule coeff_at_cases)
  show ?thesis
    using Setup2D_nth [OF assms(2,1) _ assms(3), of 0 w j c]
      Setup2D_nth [OF assms(2,1) _ assms(3), of 1 w j c]
      Setup2D_nth [OF assms(2,1) _ assms(3), of 2 w j c]
    by (simp add: assms(5-10) C1 Let_def)
qed

theorem setup2D_entries_witness:
  "PAVectorDiffusionSetup2D 1 2 [2] [2, 1, 1, 3, 1, 0, 0, 1] [5, 7] [0, 0, 0, 0, 0, 0] ! at3 1 3 0 0 1 = 14 \<and>
   PAVectorDiffusionSetup2D 1 2 [2] [2, 1, 1, 3, 1, 0, 0, 1] [5, 7] [0, 0, 0, 0, 0, 0] ! at3 1 3 0 1 1 = 0 \<and>
   PAVectorDiffusionSetup2D 1 2 [2] [2, 1, 1, 3, 1, 0, 0, 1] [5, 7] [0, 0, 0, 0, 0, 0] ! at3 1 3 0 2 1 = 14"
  using setup2D_entries [where e = 1 and NE = 2 and q = 0 and ?Q1D = 1 and op = "[0, 0, 0, 0, 0, 0]"
      and c = "[5, 7]" and ?C1.0 = 7 and j = "[2, 1, 1, 3, 1, 0, 0, 1]" and w = "[2]"
      and ?J11.0 = 1 and ?J21.0 = 0 and ?J12.0 = 0 and ?J22.0 = 1 and c_detJ = 14, OF _ _ _ _ _ _ _ _ _ refl]
  by (simp add: at4_def at3_def at2_def)


lemma less3_cases: "r < (3::nat) \<Longrightarrow> r = 0 \<or> r = 1 \<or> r = 2"
  by linarith

lemma adj3_entries:
  "adj3 Jm 0 0 = Jm 1 1 * Jm 2 2 - Jm 1 2 * Jm 2 1"
  "adj3 Jm 0 1 = Jm 2 1 * Jm 0 2 - Jm 0 1 * Jm 2 2"
  "adj3 Jm 0 2 = Jm 0 1 * Jm 1 2 - Jm 1 1 * Jm 0 2"
  "adj3 Jm 1 0 = Jm 2 0 * Jm 1 2 - Jm 1 0 * Jm 2 2"
  "adj3 Jm 1 1 = Jm 0 0 * Jm 2 2 - Jm 0 2 * Jm 2 0"
  "adj3 Jm 1 2 = Jm 1 0 * Jm 0 2 - Jm 0 0 * Jm 1 2"
  "adj3 Jm 2 0 = Jm 1 0 * Jm 2 1 - Jm 2 0 * Jm 1 1"
  "adj3 Jm 2 1 = Jm 2 0 * Jm 0 1 - Jm 0 0 * Jm 2 1"
  "adj3 Jm 2 2 = Jm 0 0 * Jm 1 1 - Jm 0 1 * Jm 1 0"
  by (simp_all add: adj3_def minor3_def skip_def numeral_2_eq_2 algebra_simps)

lemma mat_AAt_expand: "mat_AAt A i k = A i 0 * A k 0 + A i 1 * A k 1 + A i 2 * A k 2"
  by (simp add: mat_AAt_def eval_nat_numeral)

lemma Setup3D_point_length:
  "length (PAVectorDiffusionSetup3D_point NQ W J c e q y) = length y"
  by (simp add: PAVectorDiffusionSetup3D_point_def Let_def)

lemma Setup3D_point_frame:
  assumes "q' < NQ" "q < NQ" "k < 6" "q' \<noteq> q \<or> e' \<noteq> e"
  shows "PAVectorDiffusionSetup3D_point NQ W J c e' q' y ! at3 NQ 6 q k e = y ! at3 NQ 6 q k e"
  using assms by (auto simp: PAVectorDiffusionSetup3D_point_def Let_def at3_eq_iff)

lemma Setup3D_point_val:
  assumes "q < NQ" "at3 NQ 6 q k e < length y" "k < 6"
    and "Jm = (\<lambda>r c. J ! at4 NQ 3 3 q r c e)"
  shows "PAVectorDiffusionSetup3D_point NQ W J c e q y ! at3 NQ 6 q k e =
     W ! q * coeff_at NQ c q e / det3 Jm *
     [mat_AAt (adj3 Jm) 0 0, mat_AAt (adj3 Jm) 1 0, mat_AAt (adj3 Jm) 2 0,
      mat_AAt (adj3 Jm) 1 1, mat_AAt (adj3 Jm) 2 1, mat_AAt (adj3 Jm) 2 2] ! k"
proof -
  have det: "Jm 0 0 * (Jm 1 1 * Jm 2 2 - Jm 2 1 * Jm 1 2) -
             Jm 1 0 * (Jm 0 1 * Jm 2 2 - Jm 2 1 * Jm 0 2) +
             Jm 2 0 * (Jm 0 1 * Jm 1 2 - Jm 1 1 * Jm 0 2) = det3 Jm"
    by (simp add: det3_def algebra_simps)
  note adj = adj3_entries [of Jm] and AAt = mat_AAt_expand
  from \<open>k < 6\<close> consider "k = 0" | "k = 1" | "k = 2" | "k = 3" | "k = 4" | "k = 5" by linarith
  then show ?thesis
  proof cases
    case 1
    with assms(1,2) show ?thesis
      unfolding AAt adj det [symmetric]
      by (simp add: PAVectorDiffusionSetup3D_point_def Let_def at3_eq_iff assms(4))
  next
    case 2
    with assms(1,2) show ?thesis
      unfolding AAt adj det [symmetric]
      by (simp add: PAVectorDiffusionSetup3D_point_def Let_def at3_eq_iff assms(4) mult.commute)
  next
    case 3
    with assms(1,2) show ?thesis
      unfolding AAt adj det [symmetric]
      by (simp add: PAVectorDiffusionSetup3D_point_def Let_def at3_eq_iff assms(4) mult.commute)
  next
    case 4
    with assms(1,2) show ?thesis
      unfolding AAt adj det [symmetric]
      by (simp add: PAVectorDiffusionSetup3D_point_def Let_def at3_eq_iff assms(4))
  next
    case 5
    with assms(1,2) show ?thesis
      unfolding AAt adj det [symmetric]
      by (simp add: PAVectorDiffusionSetup3D_point_def Let_def at3_eq_iff assms(4) mult.commute)
  next
    case 6
    with assms(1,2) show ?thesis
      unfolding AAt adj det [symmetric]
      by (simp add: PAVectorDiffusionSetup3D_point_def Let_def at3_eq_iff assms(4))
  qed
qed


lemma Setup3D_nth:
  assumes "q < Q1D * Q1D * Q1D" "e < NE" "k < 6" "length op = Q1D * Q1D * Q1D * 6 * NE"
    and "Jm = (\<lambda>r s. J ! at4 (Q1D * Q1D * Q1D) 3 3 q r s e)"
  shows "PAVectorDiffusionSetup3D Q1D NE W J c op ! at3 (Q1D * Q1D * Q1D) 6 q k e =
     W ! q * coeff_at (Q1D * Q1D * Q1D) c q e / det3 Jm *
     [mat_AAt (adj3 Jm) 0 0, mat_AAt (adj3 Jm) 1 0, mat_AAt (adj3 Jm) 2 0,
      mat_AAt (adj3 Jm) 1 1, mat_AAt (adj3 Jm) 2 1, mat_AAt (adj3 Jm) 2 2] ! k"
    (is "_ = ?rhs")
proof -
  define NQ where "NQ = Q1D * Q1D * Q1D"
  have k: "at3 NQ 6 q k e < length op"
    using at3_less [of q NQ k 6 e NE] assms by (simp add: NQ_def)
  have "PAVectorDiffusionSetup3D Q1D NE W J c op ! at3 NQ 6 q k e =
        PAVectorDiffusionSetup3D_point NQ W J c e q op ! at3 NQ 6 q k e"
    unfolding PAVectorDiffusionSetup3D_def Let_def NQ_def [symmetric]
  proof (rule forall_for_loop_nth_written [where e = e and q = q and NE = NE
        and NQ = NQ and P = "PAVectorDiffusionSetup3D_point NQ W J c"])
    fix e' q' :: nat and y :: "real list"
    show "length (PAVectorDiffusionSetup3D_point NQ W J c e' q' y) = length y"
      by (rule Setup3D_point_length)
    assume "q' < NQ" "q' \<noteq> q \<or> e' \<noteq> e"
    then show "PAVectorDiffusionSetup3D_point NQ W J c e' q' y ! at3 NQ 6 q k e =
          y ! at3 NQ 6 q k e"
      using assms by (intro Setup3D_point_frame) (simp_all add: NQ_def)
  next
    fix y :: "real list"
    assume "at3 NQ 6 q k e < length y"
    then show "PAVectorDiffusionSetup3D_point NQ W J c e q y ! at3 NQ 6 q k e =
       PAVectorDiffusionSetup3D_point NQ W J c e q op ! at3 NQ 6 q k e"
      using assms(1,3) k
      by (simp add: Setup3D_point_val [where Jm = "\<lambda>r s. J ! at4 NQ 3 3 q r s e"] NQ_def)
  qed (use assms k in \<open>simp_all add: NQ_def\<close>)
  also have "\<dots> = ?rhs"
    using assms(1,3) k
    by (simp add: Setup3D_point_val [where Jm = Jm] assms(5) NQ_def)
  finally show ?thesis by (simp add: NQ_def)
qed

text \<open>
  C2.  For every element \<open>e\<close> and quadrature point \<open>q < Q1D\<^sup>3\<close> the 3D setup kernel
  leaves in \<open>D(q, 0..5, e)\<close> the entries \<open>(1,1), (2,1), (3,1), (2,2), (3,2), (3,3)\<close> of
  \<open>A A\<^sup>T\<close> times \<open>c_detJ\<close>, where \<open>A\<close> is the adjugate of the Jacobian at \<open>(q, e)\<close>
  and \<open>c_detJ = W[q] * C1 / detJ\<close> with \<open>detJ\<close> its determinant.  For the Jacobian
  \<open>diag(2, 2, 2)\<close> and the coefficient 1 this gives \<open>detJ = 8\<close>, \<open>A = diag(4, 4, 4)\<close>
  and \<open>D(q, \<cdot>, e) = (2w, 0, 0, 2w, 0, 2w)\<close> with \<open>w = W[q]\<close>.
\<close>

theorem setup3D_entries:
  assumes "e < NE" and "q < Q1D * Q1D * Q1D" and "length op = Q1D * Q1D * Q1D * 6 * NE"
    and "length c = 1 \<and> C1 = c ! 0 \<or>
         length c = Q1D * Q1D * Q1D * NE \<and> C1 = c ! at2 (Q1D * Q1D * Q1D) q e"
    and "Jm = (\<lambda>r s. j ! at4 (Q1D * Q1D * Q1D) 3 3 q r s e)"
    and "A = adj3 Jm" and "detJ = det3 Jm"
    and "c_detJ = w ! q * C1 / detJ"
    and "D = PAVectorDiffusionSetup3D Q1D NE w j c op"
  shows "D ! at3 (Q1D * Q1D * Q1D) 6 q 0 e = c_detJ * mat_AAt A 0 0 \<and>
         D ! at3 (Q1D * Q1D * Q1D) 6 q 1 e = c_detJ * mat_AAt A 1 0 \<and>
         D ! at3 (Q1D * Q1D * Q1D) 6 q 2 e = c_detJ * mat_AAt A 2 0 \<and>
         D ! at3 (Q1D * Q1D * Q1D) 6 q 3 e = c_detJ * mat_AAt A 1 1 \<and>
         D ! at3 (Q1D * Q1D * Q1D) 6 q 4 e = c_detJ * mat_AAt A 2 1 \<and>
         D ! at3 (Q1D * Q1D * Q1D) 6 q 5 e = c_detJ * mat_AAt A 2 2 \<and>
         ((\<forall>r<3. \<forall>s<3. Jm r s = (if r = s then 2 else 0)) \<and> C1 = 1 \<longrightarrow>
            detJ = 8 \<and> (\<forall>r<3. \<forall>s<3. A r s = (if r = s then 4 else 0)) \<and>
            [D ! at3 (Q1D * Q1D * Q1D) 6 q 0 e, D ! at3 (Q1D * Q1D * Q1D) 6 q 1 e,
             D ! at3 (Q1D * Q1D * Q1D) 6 q 2 e, D ! at3 (Q1D * Q1D * Q1D) 6 q 3 e,
             D ! at3 (Q1D * Q1D * Q1D) 6 q 4 e, D ! at3 (Q1D * Q1D * Q1D) 6 q 5 e] =
              [2 * w ! q, 0, 0, 2 * w ! q, 0, 2 * w ! q])"
proof -
  have C1: "coeff_at (Q1D * Q1D * Q1D) c q e = C1"
    using assms(2,1,4) by (rule coeff_at_cases)
  have entry: "D ! at3 (Q1D * Q1D * Q1D) 6 q k e =
      c_detJ * [mat_AAt A 0 0, mat_AAt A 1 0, mat_AAt A 2 0,
                mat_AAt A 1 1, mat_AAt A 2 1, mat_AAt A 2 2] ! k" if "k < 6" for k
    using Setup3D_nth [OF assms(2,1) that assms(3,5), of w c]
    by (simp add: assms(6-9) C1)
  have general: "D ! at3 (Q1D * Q1D * Q1D) 6 q 0 e = c_detJ * mat_AAt A 0 0 \<and>
         D ! at3 (Q1D * Q1D * Q1D) 6 q 1 e = c_detJ * mat_AAt A 1 0 \<and>
         D ! at3 (Q1D * Q1D * Q1D) 6 q 2 e = c_detJ * mat_AAt A 2 0 \<and>
         D ! at3 (Q1D * Q1D * Q1D) 6 q 3 e = c_detJ * mat_AAt A 1 1 \<and>
         D ! at3 (Q1D * Q1D * Q1D) 6 q 4 e = c_detJ * mat_AAt A 2 1 \<and>
         D ! at3 (Q1D * Q1D * Q1D) 6 q 5 e = c_detJ * mat_AAt A 2 2"
    using entry [of 0] entry [of 1] entry [of 2] entry [of 3] entry [of 4] entry [of 5]
    by simp
  have scenario: "detJ = 8 \<and> (\<forall>r<3. \<forall>s<3. A r s = (if r = s then 4 else 0)) \<and>
            [D ! at3 (Q1D * Q1D * Q1D) 6 q 0 e, D ! at3 (Q1D * Q1D * Q1D) 6 q 1 e,
             D ! at3 (Q1D * Q1D * Q1D) 6 q 2 e, D ! at3 (Q1D * Q1D * Q1D) 6 q 3 e,
             D ! at3 (Q1D * Q1D * Q1D) 6 q 4 e, D ! at3 (Q1D * Q1D * Q1D) 6 q 5 e] =
              [2 * w ! q, 0, 0, 2 * w ! q, 0, 2 * w ! q]"
    if diag: "\<forall>r<3. \<forall>s<3. Jm r s = (if r = s then 2 else 0)" and one: "C1 = 1"
  proof -
    have J: "Jm 0 0 = 2" "Jm 0 1 = 0" "Jm 0 2 = 0" "Jm 1 0 = 0" "Jm 1 1 = 2" "Jm 1 2 = 0"
      "Jm 2 0 = 0" "Jm 2 1 = 0" "Jm 2 2 = 2"
      using diag by simp_all
    have det: "detJ = 8"
      unfolding assms(7) det3_def J by simp
    have A: "A r s = (if r = s then 4 else 0)" if "r < 3" "s < 3" for r s
      using less3_cases [OF that(1)] less3_cases [OF that(2)]
      unfolding assms(6) by (elim disjE; hypsubst; simp only: adj3_entries J; simp)
    note AAt = mat_AAt_expand
    have "[D ! at3 (Q1D * Q1D * Q1D) 6 q 0 e, D ! at3 (Q1D * Q1D * Q1D) 6 q 1 e,
             D ! at3 (Q1D * Q1D * Q1D) 6 q 2 e, D ! at3 (Q1D * Q1D * Q1D) 6 q 3 e,
             D ! at3 (Q1D * Q1D * Q1D) 6 q 4 e, D ! at3 (Q1D * Q1D * Q1D) 6 q 5 e] =
          [2 * w ! q, 0, 0, 2 * w ! q, 0, 2 * w ! q]"
      using general by (simp add: AAt A assms(8) det one)
    then show ?thesis using det A by simp
  qed
  from general scenario show ?thesis by blast
qed

theorem setup3D_entries_witness:
  "(let D = PAVectorDiffusionSetup3D 1 1 [5] [2, 0, 0, 0, 2, 0, 0, 0, 2] [1] [0, 0, 0, 0, 0, 0]
    in [D ! at3 1 6 0 0 0, D ! at3 1 6 0 1 0, D ! at3 1 6 0 2 0,
        D ! at3 1 6 0 3 0, D ! at3 1 6 0 4 0, D ! at3 1 6 0 5 0] = [10, 0, 0, 10, 0, 10])"
proof -
  define D where "D = PAVectorDiffusionSetup3D 1 1 [5] [2, 0, 0, 0, 2, 0, 0, 0, 2] [1] [0, 0, 0, 0, 0, 0]"
  define Jm :: "nat \<Rightarrow> nat \<Rightarrow> real"
    where "Jm = (\<lambda>r s. [2, 0, 0, 0, 2, 0, 0, 0, 2] ! at4 (1 * 1 * 1) 3 3 0 r s 0)"
  have diag: "Jm r s = (if r = s then 2 else 0)" if "r < 3" "s < 3" for r s
    using less3_cases [OF that(1)] less3_cases [OF that(2)]
    by (elim disjE; hypsubst; simp add: Jm_def at4_def)
  have diag': "\<forall>r<3. \<forall>s<3. Jm r s = (if r = s then 2 else 0)"
    using diag by simp
  have "[D ! at3 (1 * 1 * 1) 6 0 0 0, D ! at3 (1 * 1 * 1) 6 0 1 0, D ! at3 (1 * 1 * 1) 6 0 2 0,
         D ! at3 (1 * 1 * 1) 6 0 3 0, D ! at3 (1 * 1 * 1) 6 0 4 0, D ! at3 (1 * 1 * 1) 6 0 5 0] =
        [2 * [5] ! 0, 0, 0, 2 * [5] ! 0, 0, 2 * [5] ! 0]"
    using setup3D_entries [where e = 0 and NE = 1 and q = 0 and ?Q1D = 1 and c = "[1]"
        and ?C1.0 = 1 and op = "[0, 0, 0, 0, 0, 0]" and j = "[2, 0, 0, 0, 2, 0, 0, 0, 2]"
        and w = "[5]" and Jm = Jm and D = D, OF _ _ _ _ Jm_def refl refl refl D_def] diag'
    by (simp add: mat_AAt_expand del: One_nat_def)
  then show ?thesis
    by (simp add: D_def del: One_nat_def)
qed


lemma dot3_expand: "dot3 u v = u 0 * v 0 + u 1 * v 1 + u 2 * v 2"
  by (simp add: dot3_def eval_nat_numeral)

lemma surface_point_length:
  "length (AssemblePA_surface_point NQ W J c e q y) = length y"
  by (simp add: AssemblePA_surface_point_def Let_def)

lemma surface_point_frame:
  assumes "q' < NQ" "q < NQ" "k < 3" "q' \<noteq> q \<or> e' \<noteq> e"
  shows "AssemblePA_surface_point NQ W J c e' q' y ! at3 NQ 3 q k e = y ! at3 NQ 3 q k e"
  using assms by (auto simp: AssemblePA_surface_point_def Let_def at3_eq_iff)

lemma surface_point_val:
  assumes "q < NQ" "at3 NQ 3 q k e < length y" "k < 3"
    and "J1 = (\<lambda>r. J ! at4 NQ 3 2 q r 0 e)" and "J2 = (\<lambda>r. J ! at4 NQ 3 2 q r 1 e)"
  shows "AssemblePA_surface_point NQ W J c e q y ! at3 NQ 3 q k e =
     (let alpha = W ! q * coeff_at NQ c q e / sqrt (dot3 J1 J1 * dot3 J2 J2 - (dot3 J1 J2)\<^sup>2)
      in [alpha * dot3 J2 J2, - alpha * dot3 J1 J2, alpha * dot3 J1 J1] ! k)"
proof -
  from \<open>k < 3\<close> consider "k = 0" | "k = 1" | "k = 2" by linarith
  then show ?thesis
    using assms(1,2) unfolding dot3_expand assms(4,5)
    by cases (simp_all add: AssemblePA_surface_point_def Let_def at3_eq_iff power2_eq_square
        divide_inverse)
qed

lemma surface_nth:
  assumes "q < NQ" "e < NE" "k < 3" "length d = NQ * 3 * NE"
    and "J1 = (\<lambda>r. J ! at4 NQ 3 2 q r 0 e)" and "J2 = (\<lambda>r. J ! at4 NQ 3 2 q r 1 e)"
  shows "mfem_forall NE (\<lambda>e. for_loop NQ (AssemblePA_surface_point NQ W J c e)) d ! at3 NQ 3 q k e =
     (let alpha = W ! q * coeff_at NQ c q e / sqrt (dot3 J1 J1 * dot3 J2 J2 - (dot3 J1 J2)\<^sup>2)
      in [alpha * dot3 J2 J2, - alpha * dot3 J1 J2, alpha * dot3 J1 J1] ! k)"
    (is "_ = ?rhs")
proof -
  have k: "at3 NQ 3 q k e < length d"
    using at3_less [of q NQ k 3 e NE] assms by simp
  have "mfem_forall NE (\<lambda>e. for_loop NQ (AssemblePA_surface_point NQ W J c e)) d ! at3 NQ 3 q k e =
        AssemblePA_surface_point NQ W J c e q d ! at3 NQ 3 q k e"
  proof (rule forall_for_loop_nth_written [where e = e and q = q and NE = NE
        and NQ = NQ and P = "AssemblePA_surface_point NQ W J c"])
    fix e' q' :: nat and y :: "real list"
    show "length (AssemblePA_surface_point NQ W J c e' q' y) = length y"
      by (rule surface_point_length)
    assume "q' < NQ" "q' \<noteq> q \<or> e' \<noteq> e"
    then show "AssemblePA_surface_point NQ W J c e' q' y ! at3 NQ 3 q k e = y ! at3 NQ 3 q k e"
      using assms by (intro surface_point_frame) simp_all
  next
    fix y :: "real list"
    assume "at3 NQ 3 q k e < length y"
    then show "AssemblePA_surface_point NQ W J c e q y ! at3 NQ 3 q k e =
       AssemblePA_surface_point NQ W J c e q d ! at3 NQ 3 q k e"
      using assms(1,3) k by (simp add: surface_point_val [OF _ _ _ refl refl])
  qed (use assms k in simp_all)
  also have "\<dots> = ?rhs"
    using assms(1,3) k by (simp add: surface_point_val [OF _ _ _ assms(5,6)])
  finally show ?thesis .
qed

text \<open>
  C3.  In the surface case (\<open>dim = 2\<close>, \<open>sdim = 3\<close>) the setup in
  \<^verbatim>\<open>AssemblePA\<close> leaves, for every element \<open>e\<close> and quadrature point \<open>q\<close>, the values
  \<open>(\<alpha> G, - \<alpha> F, \<alpha> E)\<close> in \<open>D(q, 0..2, e)\<close>: \<open>E\<close> and \<open>G\<close> are the squared Euclidean
  norms of the first and the second column of the \<open>3 \<times> 2\<close> Jacobian at \<open>(q, e)\<close>, \<open>F\<close> is
  the dot product of the two columns, and \<open>\<alpha> = W[q] * C1 / sqrt (E G - F\<^sup>2)\<close>.
\<close>

theorem surface_setup_entries:
  assumes "e < ne" and "q < quad1D * quad1D" and "length d = quad1D * quad1D * 3 * ne"
    and "length coeff = 1 \<and> C1 = coeff ! 0 \<or>
         length coeff = quad1D * quad1D * ne \<and> C1 = coeff ! at2 (quad1D * quad1D) q e"
    and "J1 = (\<lambda>r. j ! at4 (quad1D * quad1D) 3 2 q r 0 e)"
    and "J2 = (\<lambda>r. j ! at4 (quad1D * quad1D) 3 2 q r 1 e)"
    and "E = dot3 J1 J1" and "G = dot3 J2 J2" and "F = dot3 J1 J2"
    and "alpha = w ! q * C1 / sqrt (E * G - F\<^sup>2)"
  shows "\<exists>D. AssemblePA False False 2 3 quad1D ne w j coeff d = Inr D \<and>
           D ! at3 (quad1D * quad1D) 3 q 0 e = alpha * G \<and>
           D ! at3 (quad1D * quad1D) 3 q 1 e = - alpha * F \<and>
           D ! at3 (quad1D * quad1D) 3 q 2 e = alpha * E"
proof -
  have C1: "coeff_at (quad1D * quad1D) coeff q e = C1"
    using assms(2,1,4) by (rule coeff_at_cases)
  show ?thesis
    using surface_nth [OF assms(2,1) _ assms(3,5,6), of 0 w coeff]
      surface_nth [OF assms(2,1) _ assms(3,5,6), of 1 w coeff]
      surface_nth [OF assms(2,1) _ assms(3,5,6), of 2 w coeff]
    by (simp add: AssemblePA_def assms(7-10) C1 Let_def)
qed

theorem surface_setup_entries_witness:
  "\<exists>D. AssemblePA False False 2 3 1 1 [2] [1, 0, 0, 0, 2, 0] [3] [0, 0, 0] = Inr D \<and>
       D ! at3 1 3 0 0 0 = 12 \<and> D ! at3 1 3 0 1 0 = 0 \<and> D ! at3 1 3 0 2 0 = 3"
  using surface_setup_entries [where e = 0 and ne = 1 and q = 0 and ?quad1D = 1
      and d = "[0, 0, 0]" and coeff = "[3]" and ?C1.0 = 3 and j = "[1, 0, 0, 0, 2, 0]"
      and w = "[2]", OF _ _ _ _ refl refl refl refl refl refl]
  by (simp add: dot3_expand at4_def del: One_nat_def)

lemma at2_less: "i < n \<Longrightarrow> r < N \<Longrightarrow> at2 n i r < n * N"
proof -
  assume a: "i < n" "r < N"
  have "i + n * r < n + n * r" using a by simp
  also have "\<dots> = n * Suc r" by simp
  also have "\<dots> \<le> n * N" using a by (intro mult_le_mono2) simp
  finally show ?thesis by (simp add: at2_def)
qed

lemma coeff_at_replicate:
  assumes "q < NQ" "e < NE"
  shows "coeff_at NQ (replicate (NQ * NE) k) q e = coeff_at NQ [k] q e"
  using assms at2_less [OF assms]
  by (auto simp: coeff_at_def at2_def)

lemma Setup2D_point_coeff_cong:
  "coeff_at NQ c q e = coeff_at NQ c' q e \<Longrightarrow>
   PAVectorDiffusionSetup2D_point NQ W J c e q y = PAVectorDiffusionSetup2D_point NQ W J c' e q y"
  unfolding PAVectorDiffusionSetup2D_point_def by (simp only:)

lemma Setup3D_point_coeff_cong:
  "coeff_at NQ c q e = coeff_at NQ c' q e \<Longrightarrow>
   PAVectorDiffusionSetup3D_point NQ W J c e q y = PAVectorDiffusionSetup3D_point NQ W J c' e q y"
  unfolding PAVectorDiffusionSetup3D_point_def by (simp only:)

lemma surface_point_coeff_cong:
  "coeff_at NQ c q e = coeff_at NQ c' q e \<Longrightarrow>
   AssemblePA_surface_point NQ W J c e q y = AssemblePA_surface_point NQ W J c' e q y"
  unfolding AssemblePA_surface_point_def by (simp only:)

text \<open>
  C6.  The setup kernels give the same operator data for a full coefficient array of
  size \<open>NQ * NE\<close> whose entries all equal \<open>k\<close> and for the compressed array of size 1
  that holds \<open>k\<close>: the 2D kernel, the 3D kernel and the surface case of
  \<^verbatim>\<open>AssemblePA\<close>.
\<close>

theorem setup_constant_coefficient:
  "PAVectorDiffusionSetup2D Q1D NE w j (replicate (Q1D * Q1D * NE) k) op =
     PAVectorDiffusionSetup2D Q1D NE w j [k] op \<and>
   PAVectorDiffusionSetup3D Q1D NE w j (replicate (Q1D * Q1D * Q1D * NE) k) op =
     PAVectorDiffusionSetup3D Q1D NE w j [k] op \<and>
   AssemblePA False False 2 3 Q1D NE w j (replicate (Q1D * Q1D * NE) k) op =
     AssemblePA False False 2 3 Q1D NE w j [k] op"
proof (intro conjI)
  have loops: "mfem_forall NE (\<lambda>e. for_loop NQ (P (replicate (NQ * NE) k) e)) op =
               mfem_forall NE (\<lambda>e. for_loop NQ (P [k] e)) op"
    if "\<And>c c' e q y. coeff_at NQ c q e = coeff_at NQ c' q e \<Longrightarrow> P c e q y = P c' e q y"
    for P :: "real list \<Rightarrow> nat \<Rightarrow> nat \<Rightarrow> real list \<Rightarrow> real list" and NQ
    unfolding mfem_forall_def
  proof (rule for_loop_cong)
    fix e s assume e: "e < NE"
    show "for_loop NQ (P (replicate (NQ * NE) k) e) s = for_loop NQ (P [k] e) s"
    proof (rule for_loop_cong)
      fix q s assume "q < NQ"
      then show "P (replicate (NQ * NE) k) e q s = P [k] e q s"
        using e by (intro that coeff_at_replicate)
    qed
  qed
  show "PAVectorDiffusionSetup2D Q1D NE w j (replicate (Q1D * Q1D * NE) k) op =
     PAVectorDiffusionSetup2D Q1D NE w j [k] op"
    unfolding PAVectorDiffusionSetup2D_def Let_def
    by (rule loops) (rule Setup2D_point_coeff_cong)
  show "PAVectorDiffusionSetup3D Q1D NE w j (replicate (Q1D * Q1D * Q1D * NE) k) op =
     PAVectorDiffusionSetup3D Q1D NE w j [k] op"
    unfolding PAVectorDiffusionSetup3D_def Let_def
    by (rule loops) (rule Setup3D_point_coeff_cong)
  have "mfem_forall NE (\<lambda>e. for_loop (Q1D * Q1D)
          (AssemblePA_surface_point (Q1D * Q1D) w j (replicate (Q1D * Q1D * NE) k) e)) op =
        mfem_forall NE (\<lambda>e. for_loop (Q1D * Q1D)
          (AssemblePA_surface_point (Q1D * Q1D) w j [k] e)) op"
    by (rule loops) (rule surface_point_coeff_cong)
  then show "AssemblePA False False 2 3 Q1D NE w j (replicate (Q1D * Q1D * NE) k) op =
     AssemblePA False False 2 3 Q1D NE w j [k] op"
    by (simp add: AssemblePA_def)
qed

section \<open>Dispatch and size checks\<close>

text \<open>
  C9.  For a dimension other than 2 and 3 the setup dispatch and the diagonal dispatch end
  in \<^verbatim>\<open>MFEM_ABORT\<close> and produce no output; for the dimensions 2 and 3 they pass this
  check and run the 2D, respectively the 3D, kernel.
\<close>

theorem dispatch_dimension:
  "(dim' \<noteq> 2 \<and> dim' \<noteq> 3 \<longrightarrow>
      PAVectorDiffusionSetup dim' Q1D NE W J C op = Inl (MFEM_ABORT ''Dimension not supported.'') \<and>
      PAVectorDiffusionAssembleDiagonal MAX_D1D MAX_Q1D dim' D1D Q1D NE B G pa y =
        Inl (MFEM_ABORT ''Dimension not implemented.'')) \<and>
   (dim' = 2 \<longrightarrow>
      PAVectorDiffusionSetup dim' Q1D NE W J C op = Inr (PAVectorDiffusionSetup2D Q1D NE W J C op) \<and>
      PAVectorDiffusionAssembleDiagonal MAX_D1D MAX_Q1D dim' D1D Q1D NE B G pa y =
        PAVectorDiffusionDiagonal2D MAX_D1D MAX_Q1D 0 0 NE B G pa y D1D Q1D) \<and>
   (dim' = 3 \<longrightarrow>
      PAVectorDiffusionSetup dim' Q1D NE W J C op = Inr (PAVectorDiffusionSetup3D Q1D NE W J C op) \<and>
      PAVectorDiffusionAssembleDiagonal MAX_D1D MAX_Q1D dim' D1D Q1D NE B G pa y =
        PAVectorDiffusionDiagonal3D MAX_D1D MAX_Q1D 0 0 NE B G pa y D1D Q1D)"
  by (simp add: PAVectorDiffusionSetup_def PAVectorDiffusionAssembleDiagonal_def Let_def)


theorem dispatch_dimension_witness:
  "PAVectorDiffusionSetup 1 1 1 [1] [1, 0, 0, 1] [1] [0, 0, 0] =
     Inl (MFEM_ABORT ''Dimension not supported.'') \<and>
   PAVectorDiffusionAssembleDiagonal 14 14 1 1 1 1 [1] [1] [1, 0, 1] [0, 0] =
     Inl (MFEM_ABORT ''Dimension not implemented.'') \<and>
   PAVectorDiffusionSetup 2 1 1 [1] [1, 0, 0, 1] [1] [0, 0, 0] = Inr [1, 0, 1] \<and>
   PAVectorDiffusionAssembleDiagonal 14 14 2 1 1 1 [1] [1] [1, 0, 1] [0, 0] = Inr [2, 2]"
  using dispatch_dimension [where dim' = 1 and ?Q1D = 1 and NE = 1 and W = "[1]"
      and J = "[1, 0, 0, 1]" and C = "[1]" and op = "[0, 0, 0]" and ?MAX_D1D = 14
      and ?MAX_Q1D = 14 and ?D1D = 1 and B = "[1]" and G = "[1]" and pa = "[1, 0, 1]"
      and y = "[0, 0]"]
    dispatch_dimension [where dim' = 2 and ?Q1D = 1 and NE = 1 and W = "[1]"
      and J = "[1, 0, 0, 1]" and C = "[1]" and op = "[0, 0, 0]" and ?MAX_D1D = 14
      and ?MAX_Q1D = 14 and ?D1D = 1 and B = "[1]" and G = "[1]" and pa = "[1, 0, 1]"
      and y = "[0, 0]"]
  by (simp add: PAVectorDiffusionSetup2D_def PAVectorDiffusionSetup2D_point_def coeff_at_def
      PAVectorDiffusionDiagonal2D_def PAVectorDiffusionDiagonal2D_element_def
      Diagonal2D_QD_cell_def Diagonal2D_temp_def stack_array_def
      mfem_forall_def for_loop_def at2_def at3_def at4_def Let_def)

text \<open>
  C10.  Called with run-time sizes, the apply and the diagonal kernels fail their
  \<^verbatim>\<open>MFEM_VERIFY\<close> before any computation when \<open>D1D\<close> exceeds \<open>MAX_D1D\<close> or \<open>Q1D\<close>
  exceeds \<open>MAX_Q1D\<close>; when both are within the limits the checks pass and the kernel runs
  over the elements.
\<close>

theorem kernel_size_limits:
  "(MAX_D1D < D1D \<or> MAX_Q1D < Q1D \<longrightarrow>
      PAVectorDiffusionDiagonal2D MAX_D1D MAX_Q1D 0 0 NE b g d y D1D Q1D = Inl (MFEM_VERIFY []) \<and>
      PAVectorDiffusionDiagonal3D MAX_D1D MAX_Q1D 0 0 NE b g d y D1D Q1D = Inl (MFEM_VERIFY []) \<and>
      PAVectorDiffusionApply2D MAX_D1D MAX_Q1D 0 0 0 NE b g bt gt d x y D1D Q1D VDIM =
        Inl (MFEM_VERIFY []) \<and>
      PAVectorDiffusionApply3D MAX_D1D MAX_Q1D 0 0 NE b g bt gt d x y D1D Q1D =
        Inl (MFEM_VERIFY [])) \<and>
   (D1D \<le> MAX_D1D \<and> Q1D \<le> MAX_Q1D \<longrightarrow>
      PAVectorDiffusionDiagonal2D MAX_D1D MAX_Q1D 0 0 NE b g d y D1D Q1D =
        Inr (mfem_forall NE (PAVectorDiffusionDiagonal2D_element D1D Q1D b g d) y) \<and>
      PAVectorDiffusionDiagonal3D MAX_D1D MAX_Q1D 0 0 NE b g d y D1D Q1D =
        Inr (mfem_forall NE (PAVectorDiffusionDiagonal3D_element D1D Q1D b g d) y) \<and>
      PAVectorDiffusionApply2D MAX_D1D MAX_Q1D 0 0 0 NE b g bt gt d x y D1D Q1D VDIM =
        Inr (mfem_forall NE (PAVectorDiffusionApply2D_element D1D Q1D VDIM b g bt gt d x) y) \<and>
      PAVectorDiffusionApply3D MAX_D1D MAX_Q1D 0 0 NE b g bt gt d x y D1D Q1D =
        Inr (mfem_forall NE (PAVectorDiffusionApply3D_element D1D Q1D b g bt gt d x) y))"
  by (auto simp: PAVectorDiffusionDiagonal2D_def PAVectorDiffusionDiagonal3D_def
      PAVectorDiffusionApply2D_def PAVectorDiffusionApply3D_def Let_def)


theorem kernel_size_limits_witness:
  "PAVectorDiffusionDiagonal2D 2 3 0 0 1 [1] [1] [1, 0, 1] [0, 0] 3 1 = Inl (MFEM_VERIFY []) \<and>
   PAVectorDiffusionApply2D 2 3 0 0 0 1 [1] [1] [1] [1] [1, 0, 1] [3] [0] 1 4 1 =
     Inl (MFEM_VERIFY []) \<and>
   PAVectorDiffusionDiagonal2D 2 3 0 0 1 [1] [1] [1, 0, 1] [0, 0] 1 1 = Inr [2, 2] \<and>
   PAVectorDiffusionApply2D 2 3 0 0 0 1 [1] [1] [1] [1] [1, 0, 1] [3] [0] 1 1 1 = Inr [6]"
  using kernel_size_limits [where ?MAX_D1D = 2 and ?MAX_Q1D = 3 and ?D1D = 3 and ?Q1D = 1
      and NE = 1 and b = "[1]" and g = "[1]" and bt = "[1]" and gt = "[1]" and d = "[1, 0, 1]"
      and x = "[3]" and y = "[0, 0]" and VDIM = 1]
    kernel_size_limits [where ?MAX_D1D = 2 and ?MAX_Q1D = 3 and ?D1D = 1 and ?Q1D = 4
      and NE = 1 and b = "[1]" and g = "[1]" and bt = "[1]" and gt = "[1]" and d = "[1, 0, 1]"
      and x = "[3]" and y = "[0]" and VDIM = 1]
    kernel_size_limits [where ?MAX_D1D = 2 and ?MAX_Q1D = 3 and ?D1D = 1 and ?Q1D = 1
      and NE = 1 and b = "[1]" and g = "[1]" and bt = "[1]" and gt = "[1]" and d = "[1, 0, 1]"
      and x = "[3]" and y = "[0, 0]" and VDIM = 1]
    kernel_size_limits [where ?MAX_D1D = 2 and ?MAX_Q1D = 3 and ?D1D = 1 and ?Q1D = 1
      and NE = 1 and b = "[1]" and g = "[1]" and bt = "[1]" and gt = "[1]" and d = "[1, 0, 1]"
      and x = "[3]" and y = "[0]" and VDIM = 1]
  by (simp add: PAVectorDiffusionDiagonal2D_element_def
      Diagonal2D_QD_cell_def Diagonal2D_temp_def stack_array_def
      PAVectorDiffusionApply2D_element_def Apply2D_grad_clear_def Apply2D_grad_def
      Apply2D_gradX_def Apply2D_pointwise_def Apply2D_gradX_back_def Apply2D_y_def
      mfem_forall_def for_loop_def at2_def at3_def at4_def Let_def)

section \<open>The accumulating kernels in closed form\<close>

lemma adds_toI:
  "(\<And>y. length (F y) = length y) \<Longrightarrow> (\<And>y k. k < length y \<Longrightarrow> F y ! k = y ! k + c k) \<Longrightarrow>
   adds_to F c"
  by (simp add: adds_to_def)

lemma adds_to_length: "adds_to F c \<Longrightarrow> length (F y) = length y"
  by (simp add: adds_to_def)

lemma adds_to_nth: "adds_to F c \<Longrightarrow> k < length y \<Longrightarrow> F y ! k = y ! k + c k"
  by (simp add: adds_to_def)

lemma adds_to_update: "adds_to (\<lambda>y. y[i := y ! i + v]) (\<lambda>k. if k = i then v else 0)"
  by (rule adds_toI) (simp_all add: nth_list_update)

lemma adds_to_comp:
  "adds_to F c \<Longrightarrow> adds_to G d \<Longrightarrow> adds_to (\<lambda>y. G (F y)) (\<lambda>k. c k + d k)"
  by (rule adds_toI) (simp_all add: adds_to_length adds_to_nth)

lemma adds_to_cong: "adds_to F c \<Longrightarrow> (\<And>k. c k = c' k) \<Longrightarrow> adds_to F c'"
  by (simp add: adds_to_def)

lemma adds_to_for_loop:
  assumes "\<And>i. i < n \<Longrightarrow> adds_to (F i) (c i)"
  shows "adds_to (for_loop n F) (\<lambda>k. \<Sum>i<n. c i k)"
  using assms
proof (induction n)
  case 0
  show ?case by (rule adds_toI) (simp_all add: for_loop_0)
next
  case (Suc n)
  have a: "adds_to (for_loop n F) (\<lambda>k. \<Sum>i<n. c i k)"
    by (rule Suc.IH) (simp add: Suc.prems)
  have b: "adds_to (F n) (c n)"
    by (rule Suc.prems) simp
  have "adds_to (\<lambda>y. F n (for_loop n F y)) (\<lambda>k. (\<Sum>i<n. c i k) + c n k)"
    using a b by (rule adds_to_comp)
  then show ?case
    by (simp add: adds_to_def for_loop_Suc)
qed

lemma for_loop_sum: "for_loop n (\<lambda>i (t::real). t + f i) t0 = t0 + (\<Sum>i<n. f i)"
  by (induction n) (simp_all add: for_loop_0 for_loop_Suc)

lemma for_loop_accum:
  fixes obs :: "'s \<Rightarrow> real"
  assumes "\<And>i s. i < n \<Longrightarrow> obs (F i s) = obs s + c i"
  shows "obs (for_loop n F s) = obs s + (\<Sum>i<n. c i)"
  using assms by (induction n) (simp_all add: for_loop_0 for_loop_Suc)

lemma for_loop_obs_frame:
  assumes "\<And>i s. i < n \<Longrightarrow> obs (F i s) = obs s"
  shows "obs (for_loop n F s) = obs s"
  using assms by (induction n) (simp_all add: for_loop_0 for_loop_Suc)

lemma for_loop_obs_written:
  assumes frame: "\<And>i' s. i' < n \<Longrightarrow> i' \<noteq> i \<Longrightarrow> obs (F i' s) = obs s"
    and val: "\<And>s. obs (F i s) = a" and i: "i < n"
  shows "obs (for_loop n F s) = a"
  using frame i
proof (induction n)
  case 0
  then show ?case by simp
next
  case (Suc n)
  show ?case
  proof (cases "i = n")
    case True
    then show ?thesis using val by (simp add: for_loop_Suc)
  next
    case False
    with Suc.prems have "i < n" by simp
    then have "obs (for_loop n F s) = a"
      by (intro Suc.IH) (simp_all add: Suc.prems)
    moreover have "obs (F n (for_loop n F s)) = obs (for_loop n F s)"
      using False by (intro Suc.prems(1)) simp_all
    ultimately show ?thesis by (simp add: for_loop_Suc)
  qed
qed

lemma sum_if_const:
  "(\<Sum>i\<in>S. if P then t i else (0::real)) = (if P then \<Sum>i\<in>S. t i else 0)"
  by simp

lemma sum_delta_conj:
  "finite S \<Longrightarrow> (\<Sum>i\<in>S. if a = i \<and> P then t i else (0::real)) = (if a \<in> S \<and> P then t a else 0)"
  by (cases P) (simp_all add: sum.delta')

lemma pair_sum:
  "(\<Sum>k\<in>K. (\<Sum>i\<in>I. C i k) * w k) = (\<Sum>i\<in>I. \<Sum>k\<in>K. C i k * (w k :: real))"
  by (simp add: sum_distrib_right sum.swap [of _ I K])

lemma pair_add:
  "(\<Sum>k\<in>K. (a k + b k) * w k) = (\<Sum>k\<in>K. a k * w k) + (\<Sum>k\<in>K. b k * (w k :: real))"
  by (simp add: distrib_right sum.distrib)

lemma pair_delta:
  "finite K \<Longrightarrow> (\<Sum>k\<in>K. (if k = j then t else 0) * w k) = (if j \<in> K then t * (w j :: real) else 0)"
proof -
  assume "finite K"
  have "(\<Sum>k\<in>K. (if k = j then t else 0) * w k) = (\<Sum>k\<in>K. if k = j then t * w k else 0)"
    by (rule sum.cong) simp_all
  also have "\<dots> = (if j \<in> K then t * w j else 0)"
    using \<open>finite K\<close> by (simp add: sum.delta)
  finally show ?thesis .
qed

lemma at4_eq_iff:
  "i < n \<Longrightarrow> i' < n \<Longrightarrow> k < m \<Longrightarrow> k' < m \<Longrightarrow> c < v \<Longrightarrow> c' < v \<Longrightarrow>
   at4 n m v i k c r = at4 n m v i' k' c' r' \<longleftrightarrow> i = i' \<and> k = k' \<and> c = c' \<and> r = r'"
  using at2_eq_iff [of i n i' "at3 m v k c r" "at3 m v k' c' r'"] at3_eq_iff [of k m k' c v c' r r']
  by (simp add: at4_def at3_def at2_def)

lemma at4_less:
  "i < n \<Longrightarrow> k < m \<Longrightarrow> c < v \<Longrightarrow> r < N \<Longrightarrow> at4 n m v i k c r < n * m * v * N"
  using at2_less [of i n "at3 m v k c r" "m * v * N"] at3_less [of k m c v r N]
  by (simp add: at4_def at3_def at2_def mult.assoc)

lemma triple_accum:
  "for_loop n (\<lambda>i (a, b, c). (a(k := a k + f i), b(k := b k + g i), c(k := c k + h i)))
     (a, b, c) =
   (a(k := a k + (\<Sum>i<n. f i)), b(k := b k + (\<Sum>i<n. g i)), c(k := c k + (\<Sum>i<n. h i :: real)))"
  by (induction n) (simp_all add: for_loop_0 for_loop_Suc add.assoc fun_eq_iff)

lemma Diagonal2D_QD_cell_eq:
  "Diagonal2D_QD_cell Q1D b g d e qx dy (A0, A1, A2) =
     (A0((qx, dy) := \<Sum>qy<Q1D. b ! at2 Q1D qy dy * b ! at2 Q1D qy dy *
                        d ! at3 (Q1D * Q1D) 3 (qx + qy * Q1D) 0 e),
      A1((qx, dy) := \<Sum>qy<Q1D. b ! at2 Q1D qy dy * g ! at2 Q1D qy dy *
                        d ! at3 (Q1D * Q1D) 3 (qx + qy * Q1D) 1 e),
      A2((qx, dy) := \<Sum>qy<Q1D. g ! at2 Q1D qy dy * g ! at2 Q1D qy dy *
                        d ! at3 (Q1D * Q1D) 3 (qx + qy * Q1D) 2 e))"
  by (simp add: Diagonal2D_QD_cell_def Let_def triple_accum)

lemma Diagonal2D_QD_loops:
  assumes "qx < Q1D" "dy < D1D"
  shows "QD_at (qx, dy)
           (for_loop Q1D (\<lambda>qx. for_loop D1D (\<lambda>dy. Diagonal2D_QD_cell Q1D b g d e qx dy)) s) =
     (\<Sum>qy<Q1D. b ! at2 Q1D qy dy * b ! at2 Q1D qy dy * d ! at3 (Q1D * Q1D) 3 (qx + qy * Q1D) 0 e,
      \<Sum>qy<Q1D. b ! at2 Q1D qy dy * g ! at2 Q1D qy dy * d ! at3 (Q1D * Q1D) 3 (qx + qy * Q1D) 1 e,
      \<Sum>qy<Q1D. g ! at2 Q1D qy dy * g ! at2 Q1D qy dy * d ! at3 (Q1D * Q1D) 3 (qx + qy * Q1D) 2 e)"
proof (rule for_loop_obs_written [where i = qx])
  fix qx' and s :: "arr2 \<times> arr2 \<times> arr2"
  assume "qx' \<noteq> qx"
  show "QD_at (qx, dy) (for_loop D1D (Diagonal2D_QD_cell Q1D b g d e qx') s) = QD_at (qx, dy) s"
  proof (rule for_loop_obs_frame)
    fix dy' and s :: "arr2 \<times> arr2 \<times> arr2"
    show "QD_at (qx, dy) (Diagonal2D_QD_cell Q1D b g d e qx' dy' s) = QD_at (qx, dy) s"
      using \<open>qx' \<noteq> qx\<close> by (cases s) (simp add: Diagonal2D_QD_cell_eq QD_at_def)
  qed
next
  fix s :: "arr2 \<times> arr2 \<times> arr2"
  show "QD_at (qx, dy) (for_loop D1D (Diagonal2D_QD_cell Q1D b g d e qx) s) =
     (\<Sum>qy<Q1D. b ! at2 Q1D qy dy * b ! at2 Q1D qy dy * d ! at3 (Q1D * Q1D) 3 (qx + qy * Q1D) 0 e,
      \<Sum>qy<Q1D. b ! at2 Q1D qy dy * g ! at2 Q1D qy dy * d ! at3 (Q1D * Q1D) 3 (qx + qy * Q1D) 1 e,
      \<Sum>qy<Q1D. g ! at2 Q1D qy dy * g ! at2 Q1D qy dy * d ! at3 (Q1D * Q1D) 3 (qx + qy * Q1D) 2 e)"
  proof (rule for_loop_obs_written [where i = dy])
    fix dy' and s :: "arr2 \<times> arr2 \<times> arr2"
    assume "dy' \<noteq> dy"
    then show "QD_at (qx, dy) (Diagonal2D_QD_cell Q1D b g d e qx dy' s) = QD_at (qx, dy) s"
      by (cases s) (simp add: Diagonal2D_QD_cell_eq QD_at_def)
  next
    fix s :: "arr2 \<times> arr2 \<times> arr2"
    show "QD_at (qx, dy) (Diagonal2D_QD_cell Q1D b g d e qx dy s) =
     (\<Sum>qy<Q1D. b ! at2 Q1D qy dy * b ! at2 Q1D qy dy * d ! at3 (Q1D * Q1D) 3 (qx + qy * Q1D) 0 e,
      \<Sum>qy<Q1D. b ! at2 Q1D qy dy * g ! at2 Q1D qy dy * d ! at3 (Q1D * Q1D) 3 (qx + qy * Q1D) 1 e,
      \<Sum>qy<Q1D. g ! at2 Q1D qy dy * g ! at2 Q1D qy dy * d ! at3 (Q1D * Q1D) 3 (qx + qy * Q1D) 2 e)"
      by (cases s) (simp add: Diagonal2D_QD_cell_eq QD_at_def)
  qed (rule assms)
qed (rule assms)

lemma Diagonal2D_temp_eq:
  assumes "dy < D1D"
  shows "Diagonal2D_temp Q1D b g
           (for_loop Q1D (\<lambda>qx. for_loop D1D (\<lambda>dy. Diagonal2D_QD_cell Q1D b g d e qx dy)) s) dx dy =
         Diagonal2D_value Q1D b g d e dx dy"
proof -
  obtain A0 A1 A2 where A:
    "for_loop Q1D (\<lambda>qx. for_loop D1D (\<lambda>dy. Diagonal2D_QD_cell Q1D b g d e qx dy)) s = (A0, A1, A2)"
    by (metis prod_cases3)
  have cells: "A0 (qx, dy) = (\<Sum>qy<Q1D. b ! at2 Q1D qy dy * b ! at2 Q1D qy dy *
                        d ! at3 (Q1D * Q1D) 3 (qx + qy * Q1D) 0 e)"
      "A1 (qx, dy) = (\<Sum>qy<Q1D. b ! at2 Q1D qy dy * g ! at2 Q1D qy dy *
                        d ! at3 (Q1D * Q1D) 3 (qx + qy * Q1D) 1 e)"
      "A2 (qx, dy) = (\<Sum>qy<Q1D. g ! at2 Q1D qy dy * g ! at2 Q1D qy dy *
                        d ! at3 (Q1D * Q1D) 3 (qx + qy * Q1D) 2 e)"
    if "qx < Q1D" for qx
    using Diagonal2D_QD_loops [OF that assms, of b g d e s] by (simp_all add: A QD_at_def)
  have "Diagonal2D_temp Q1D b g (A0, A1, A2) dx dy =
        (\<Sum>qx<Q1D. g ! at2 Q1D qx dx * g ! at2 Q1D qx dx * A0 (qx, dy) +
                   g ! at2 Q1D qx dx * b ! at2 Q1D qx dx * A1 (qx, dy) +
                   b ! at2 Q1D qx dx * g ! at2 Q1D qx dx * A1 (qx, dy) +
                   b ! at2 Q1D qx dx * b ! at2 Q1D qx dx * A2 (qx, dy))"
    using for_loop_sum [of Q1D "\<lambda>qx. g ! at2 Q1D qx dx * g ! at2 Q1D qx dx * A0 (qx, dy) +
                   g ! at2 Q1D qx dx * b ! at2 Q1D qx dx * A1 (qx, dy) +
                   b ! at2 Q1D qx dx * g ! at2 Q1D qx dx * A1 (qx, dy) +
                   b ! at2 Q1D qx dx * b ! at2 Q1D qx dx * A2 (qx, dy)" 0]
    by (simp add: Diagonal2D_temp_def Let_def add.assoc)
  also have "\<dots> = Diagonal2D_value Q1D b g d e dx dy"
    unfolding Diagonal2D_value_def by (rule sum.cong) (simp_all add: cells)
  finally show ?thesis by (simp add: A)
qed

lemma Diagonal2D_element_adds:
  "adds_to (PAVectorDiffusionDiagonal2D_element D1D Q1D b g d e)
     (\<lambda>k. \<Sum>dy<D1D. \<Sum>dx<D1D.
        (if k = at4 D1D D1D 2 dx dy 0 e then Diagonal2D_value Q1D b g d e dx dy else 0) +
        (if k = at4 D1D D1D 2 dx dy 1 e then Diagonal2D_value Q1D b g d e dx dy else 0))"
  unfolding PAVectorDiffusionDiagonal2D_element_def Let_def
proof (rule adds_to_for_loop)
  fix dy assume dy: "dy < D1D"
  show "adds_to (for_loop D1D (\<lambda>dx Y. Y
          [at4 D1D D1D 2 dx dy 0 e := Y ! at4 D1D D1D 2 dx dy 0 e +
             Diagonal2D_temp Q1D b g (for_loop Q1D (\<lambda>qx. for_loop D1D
               (Diagonal2D_QD_cell Q1D b g d e qx)) (stack_array, stack_array, stack_array)) dx dy,
           at4 D1D D1D 2 dx dy 1 e := Y[at4 D1D D1D 2 dx dy 0 e := Y ! at4 D1D D1D 2 dx dy 0 e +
             Diagonal2D_temp Q1D b g (for_loop Q1D (\<lambda>qx. for_loop D1D
               (Diagonal2D_QD_cell Q1D b g d e qx)) (stack_array, stack_array, stack_array)) dx dy] !
               at4 D1D D1D 2 dx dy 1 e +
             Diagonal2D_temp Q1D b g (for_loop Q1D (\<lambda>qx. for_loop D1D
               (Diagonal2D_QD_cell Q1D b g d e qx)) (stack_array, stack_array, stack_array)) dx dy]))
     (\<lambda>k. \<Sum>dx<D1D.
        (if k = at4 D1D D1D 2 dx dy 0 e then Diagonal2D_value Q1D b g d e dx dy else 0) +
        (if k = at4 D1D D1D 2 dx dy 1 e then Diagonal2D_value Q1D b g d e dx dy else 0))"
  proof (rule adds_to_for_loop)
    fix dx
    show "adds_to (\<lambda>Y. Y
          [at4 D1D D1D 2 dx dy 0 e := Y ! at4 D1D D1D 2 dx dy 0 e +
             Diagonal2D_temp Q1D b g (for_loop Q1D (\<lambda>qx. for_loop D1D
               (Diagonal2D_QD_cell Q1D b g d e qx)) (stack_array, stack_array, stack_array)) dx dy,
           at4 D1D D1D 2 dx dy 1 e := Y[at4 D1D D1D 2 dx dy 0 e := Y ! at4 D1D D1D 2 dx dy 0 e +
             Diagonal2D_temp Q1D b g (for_loop Q1D (\<lambda>qx. for_loop D1D
               (Diagonal2D_QD_cell Q1D b g d e qx)) (stack_array, stack_array, stack_array)) dx dy] !
               at4 D1D D1D 2 dx dy 1 e +
             Diagonal2D_temp Q1D b g (for_loop Q1D (\<lambda>qx. for_loop D1D
               (Diagonal2D_QD_cell Q1D b g d e qx)) (stack_array, stack_array, stack_array)) dx dy])
       (\<lambda>k. (if k = at4 D1D D1D 2 dx dy 0 e then Diagonal2D_value Q1D b g d e dx dy else 0) +
        (if k = at4 D1D D1D 2 dx dy 1 e then Diagonal2D_value Q1D b g d e dx dy else 0))"
      unfolding Diagonal2D_temp_eq [OF dy]
      by (rule adds_to_comp [OF adds_to_update adds_to_update])
  qed
qed

lemma fadds_upd: "fadds (\<lambda>a. a(p := a p + v)) (\<lambda>q. if q = p then v else 0)"
  by (simp add: fadds_def)

lemma fadds_comp: "fadds F c \<Longrightarrow> fadds G d \<Longrightarrow> fadds (\<lambda>a. G (F a)) (\<lambda>q. c q + d q)"
  by (simp add: fadds_def)

lemma fadds_for_loop:
  assumes "\<And>i. i < n \<Longrightarrow> fadds (F i) (c i)"
  shows "fadds (for_loop n F) (\<lambda>q. \<Sum>i<n. c i q)"
  using assms by (induction n) (simp_all add: fadds_def for_loop_0 for_loop_Suc add.assoc)

lemma fadds_for_loop_eq:
  assumes "\<And>i. i < n \<Longrightarrow> fadds (F i) (c i)"
  shows "for_loop n F a = (\<lambda>q. a q + (\<Sum>i<n. c i q))"
  using fadds_for_loop [OF assms] by (simp add: fadds_def fun_eq_iff)

lemma sum_delta_conjs:
  "finite S \<Longrightarrow> (\<Sum>i\<in>S. if P \<and> i = a then t i else (0::real)) = (if P \<and> a \<in> S then t a else 0)"
  "finite S \<Longrightarrow> (\<Sum>i\<in>S. if P \<and> a = i then t i else (0::real)) = (if P \<and> a \<in> S then t a else 0)"
  "finite S \<Longrightarrow> (\<Sum>i\<in>S. if i = a \<and> P then t i else (0::real)) = (if a \<in> S \<and> P then t a else 0)"
  "finite S \<Longrightarrow> (\<Sum>i\<in>S. if a = i \<and> P then t i else (0::real)) = (if a \<in> S \<and> P then t a else 0)"
  by (cases P; simp add: sum.delta sum.delta')+

lemma for_loop_stack_array:
  assumes "\<And>i. i < n \<Longrightarrow> F i stack_array = stack_array"
  shows "for_loop n F stack_array = stack_array"
  using assms by (induction n) (simp_all add: for_loop_0 for_loop_Suc)

lemma stack_array_upd: "stack_array(p := 0) = stack_array"
  by (simp add: stack_array_def fun_eq_iff)

lemma stack_array_apply: "stack_array p = 0"
  by (simp add: stack_array_def)

lemma for_loop_obs_once:
  assumes frame: "\<And>i' s. i' < n \<Longrightarrow> i' \<noteq> i \<Longrightarrow> obs (F i' s) = obs s"
    and val: "\<And>s. obs (F i s) = h (obs s)" and i: "i < n"
  shows "obs (for_loop n F s) = h (obs s)"
  using frame i
proof (induction n)
  case 0
  then show ?case by simp
next
  case (Suc n)
  show ?case
  proof (cases "i = n")
    case True
    have "obs (for_loop n F s) = obs s"
      by (rule for_loop_obs_frame) (use True Suc.prems in simp)
    with True val [of "for_loop n F s"] show ?thesis by (simp add: for_loop_Suc)
  next
    case False
    with Suc.prems have "i < n" by simp
    then have "obs (for_loop n F s) = h (obs s)"
      by (intro Suc.IH) (simp_all add: Suc.prems)
    moreover have "obs (F n (for_loop n F s)) = obs (for_loop n F s)"
      using False by (intro Suc.prems(1)) simp_all
    ultimately show ?thesis by (simp add: for_loop_Suc)
  qed
qed

lemma Apply2D_gradX_eq:
  "Apply2D_gradX D1D Q1D VDIM b g x e c dy =
     (\<lambda>p. \<Sum>dx<D1D. \<Sum>qx<Q1D.
        (if p = (qx, 0) then x ! at4 D1D D1D VDIM dx dy c e * b ! at2 Q1D qx dx else 0) +
        (if p = (qx, 1) then x ! at4 D1D D1D VDIM dx dy c e * g ! at2 Q1D qx dx else 0))"
proof -
  have clear: "for_loop Q1D (\<lambda>qx gradX. (gradX((qx, 0) := 0))((qx, 1) := 0)) stack_array =
               (stack_array :: arr2)"
    by (rule for_loop_stack_array) (simp add: stack_array_upd)
  have "Apply2D_gradX D1D Q1D VDIM b g x e c dy =
     (\<lambda>p. (stack_array :: arr2) p + (\<Sum>dx<D1D. \<Sum>qx<Q1D.
        (if p = (qx, 0) then x ! at4 D1D D1D VDIM dx dy c e * b ! at2 Q1D qx dx else 0) +
        (if p = (qx, 1) then x ! at4 D1D D1D VDIM dx dy c e * g ! at2 Q1D qx dx else 0)))"
    unfolding Apply2D_gradX_def Let_def clear
    by (intro fadds_for_loop_eq fadds_for_loop fadds_comp [OF fadds_upd fadds_upd])
  then show ?thesis by (simp add: stack_array_apply)
qed

lemma Apply2D_gradX_cells:
  assumes "qx < Q1D"
  shows "Apply2D_gradX D1D Q1D VDIM b g x e c dy (qx, 0) =
           (\<Sum>dx<D1D. x ! at4 D1D D1D VDIM dx dy c e * b ! at2 Q1D qx dx)"
    and "Apply2D_gradX D1D Q1D VDIM b g x e c dy (qx, 1) =
           (\<Sum>dx<D1D. x ! at4 D1D D1D VDIM dx dy c e * g ! at2 Q1D qx dx)"
  using assms by (simp_all add: Apply2D_gradX_eq sum.delta')

lemma Apply2D_grad_cells:
  assumes "qy < Q1D" "qx < Q1D"
  shows "Apply2D_grad D1D Q1D VDIM b g x e c grad (qy, qx, 0) =
           grad (qy, qx, 0) + Apply2D_fwd D1D Q1D VDIM g b x e c qy qx"
    and "Apply2D_grad D1D Q1D VDIM b g x e c grad (qy, qx, 1) =
           grad (qy, qx, 1) + Apply2D_fwd D1D Q1D VDIM b g x e c qy qx"
proof -
  have eq: "Apply2D_grad D1D Q1D VDIM b g x e c grad =
     (\<lambda>p. grad p + (\<Sum>dy<D1D. \<Sum>qy<Q1D. \<Sum>qx<Q1D.
        (if p = (qy, qx, 0)
         then Apply2D_gradX D1D Q1D VDIM b g x e c dy (qx, 1) * b ! at2 Q1D qy dy else 0) +
        (if p = (qy, qx, 1)
         then Apply2D_gradX D1D Q1D VDIM b g x e c dy (qx, 0) * g ! at2 Q1D qy dy else 0)))"
    unfolding Apply2D_grad_def Let_def
    by (intro fadds_for_loop_eq fadds_for_loop fadds_comp [OF fadds_upd fadds_upd])
  show "Apply2D_grad D1D Q1D VDIM b g x e c grad (qy, qx, 0) =
           grad (qy, qx, 0) + Apply2D_fwd D1D Q1D VDIM g b x e c qy qx"
    using assms
    by (simp add: eq sum.delta' sum_delta_conjs Apply2D_gradX_cells Apply2D_fwd_def
        del: One_nat_def)
  show "Apply2D_grad D1D Q1D VDIM b g x e c grad (qy, qx, 1) =
           grad (qy, qx, 1) + Apply2D_fwd D1D Q1D VDIM b g x e c qy qx"
    using assms
    by (simp add: eq sum.delta' sum_delta_conjs Apply2D_gradX_cells Apply2D_fwd_def
        del: One_nat_def)
qed

lemma for_loop2_obs_once:
  assumes frame: "\<And>i' j' s. i' < n \<Longrightarrow> j' < m \<Longrightarrow> i' \<noteq> i \<or> j' \<noteq> j \<Longrightarrow> obs (F i' j' s) = obs s"
    and val: "\<And>s. obs (F i j s) = h (obs s)" and i: "i < n" and j: "j < m"
  shows "obs (for_loop n (\<lambda>i. for_loop m (F i)) s) = h (obs s)"
proof (rule for_loop_obs_once [where i = i])
  show "obs (for_loop m (F i') s) = obs s" if "i' < n" "i' \<noteq> i" for i' s
    by (rule for_loop_obs_frame) (use that in \<open>simp add: frame\<close>)
  show "obs (for_loop m (F i) s) = h (obs s)" for s
    by (rule for_loop_obs_once [where i = j]) (use i j in \<open>simp_all add: frame val\<close>)
  show "i < n" by fact
qed

lemma Apply2D_grad_clear_cells:
  assumes "qy < Q1D" "qx < Q1D" "k < 2"
  shows "Apply2D_grad_clear Q1D grad (qy, qx, k) = 0"
  unfolding Apply2D_grad_clear_def Let_def
proof (rule for_loop2_obs_once [where obs = "\<lambda>a. a (qy, qx, k)" and h = "\<lambda>_. 0" and i = qy and j = qx])
  show "(s((qy, qx, 0) := 0, (qy, qx, 1) := 0)) (qy, qx, k) = 0" for s :: arr3
    using \<open>k < 2\<close> by (cases "k = 0") auto
qed (use assms in auto)

lemma Apply2D_pointwise_cells:
  assumes "qy < Q1D" "qx < Q1D"
  shows "Apply2D_pointwise Q1D d e grad (qy, qx, 0) =
           d ! at3 (Q1D * Q1D) 3 (qx + qy * Q1D) 0 e * grad (qy, qx, 0) +
           d ! at3 (Q1D * Q1D) 3 (qx + qy * Q1D) 1 e * grad (qy, qx, 1)"
    and "Apply2D_pointwise Q1D d e grad (qy, qx, 1) =
           d ! at3 (Q1D * Q1D) 3 (qx + qy * Q1D) 1 e * grad (qy, qx, 0) +
           d ! at3 (Q1D * Q1D) 3 (qx + qy * Q1D) 2 e * grad (qy, qx, 1)"
proof -
  have "(\<lambda>a. (a (qy, qx, 0), a (qy, qx, 1 :: nat))) (Apply2D_pointwise Q1D d e grad) =
        (\<lambda>(g0, g1). (d ! at3 (Q1D * Q1D) 3 (qx + qy * Q1D) 0 e * g0 +
                       d ! at3 (Q1D * Q1D) 3 (qx + qy * Q1D) 1 e * g1,
                       d ! at3 (Q1D * Q1D) 3 (qx + qy * Q1D) 1 e * g0 +
                       d ! at3 (Q1D * Q1D) 3 (qx + qy * Q1D) 2 e * g1))
          ((\<lambda>a. (a (qy, qx, 0), a (qy, qx, 1 :: nat))) grad)"
    unfolding Apply2D_pointwise_def Let_def
    by (rule for_loop2_obs_once [where i = qy and j = qx
          and obs = "\<lambda>a. (a (qy, qx, 0), a (qy, qx, 1 :: nat))"
          and h = "\<lambda>(g0, g1). (d ! at3 (Q1D * Q1D) 3 (qx + qy * Q1D) 0 e * g0 +
                       d ! at3 (Q1D * Q1D) 3 (qx + qy * Q1D) 1 e * g1,
                       d ! at3 (Q1D * Q1D) 3 (qx + qy * Q1D) 1 e * g0 +
                       d ! at3 (Q1D * Q1D) 3 (qx + qy * Q1D) 2 e * g1)"])
      (use assms in auto)
  then show "Apply2D_pointwise Q1D d e grad (qy, qx, 0) =
           d ! at3 (Q1D * Q1D) 3 (qx + qy * Q1D) 0 e * grad (qy, qx, 0) +
           d ! at3 (Q1D * Q1D) 3 (qx + qy * Q1D) 1 e * grad (qy, qx, 1)"
    and "Apply2D_pointwise Q1D d e grad (qy, qx, 1) =
           d ! at3 (Q1D * Q1D) 3 (qx + qy * Q1D) 1 e * grad (qy, qx, 0) +
           d ! at3 (Q1D * Q1D) 3 (qx + qy * Q1D) 2 e * grad (qy, qx, 1)"
    by simp_all
qed

lemma Apply2D_gradX_back_cells:
  assumes "dx < D1D"
  shows "Apply2D_gradX_back D1D Q1D bt gt grad qy (dx, 0) =
           (\<Sum>qx<Q1D. grad (qy, qx, 0) * gt ! at2 D1D dx qx)"
    and "Apply2D_gradX_back D1D Q1D bt gt grad qy (dx, 1) =
           (\<Sum>qx<Q1D. grad (qy, qx, 1) * bt ! at2 D1D dx qx)"
proof -
  have clear: "for_loop D1D (\<lambda>dx gradX. (gradX((dx, 0) := 0))((dx, 1) := 0)) stack_array =
               (stack_array :: arr2)"
    by (rule for_loop_stack_array) (simp add: stack_array_upd)
  have "Apply2D_gradX_back D1D Q1D bt gt grad qy =
     (\<lambda>p. (stack_array :: arr2) p + (\<Sum>qx<Q1D. \<Sum>dx<D1D.
        (if p = (dx, 0) then grad (qy, qx, 0) * gt ! at2 D1D dx qx else 0) +
        (if p = (dx, 1) then grad (qy, qx, 1) * bt ! at2 D1D dx qx else 0)))"
    unfolding Apply2D_gradX_back_def Let_def clear
    by (intro fadds_for_loop_eq fadds_for_loop fadds_comp [OF fadds_upd fadds_upd])
  then show "Apply2D_gradX_back D1D Q1D bt gt grad qy (dx, 0) =
           (\<Sum>qx<Q1D. grad (qy, qx, 0) * gt ! at2 D1D dx qx)"
    and "Apply2D_gradX_back D1D Q1D bt gt grad qy (dx, 1) =
           (\<Sum>qx<Q1D. grad (qy, qx, 1) * bt ! at2 D1D dx qx)"
    using assms by (simp_all add: stack_array_apply sum.delta')
qed

lemma Apply2D_y_adds:
  "adds_to (Apply2D_y D1D Q1D VDIM bt gt grad e c)
     (\<lambda>k. \<Sum>qy<Q1D. \<Sum>dy<D1D. \<Sum>dx<D1D.
        if k = at4 D1D D1D VDIM dx dy c e
        then Apply2D_gradX_back D1D Q1D bt gt grad qy (dx, 0) * bt ! at2 D1D dy qy +
             Apply2D_gradX_back D1D Q1D bt gt grad qy (dx, 1) * gt ! at2 D1D dy qy
        else 0)"
  unfolding Apply2D_y_def Let_def
  by (rule adds_to_for_loop, rule adds_to_for_loop, rule adds_to_for_loop, rule adds_to_update)

lemma sum_scatter_swap2:
  "(\<Sum>q\<in>Q. \<Sum>a\<in>A. \<Sum>b\<in>B. if P a b then t q a b else (0::real)) =
   (\<Sum>a\<in>A. \<Sum>b\<in>B. if P a b then (\<Sum>q\<in>Q. t q a b) else 0)"
proof -
  have "(\<Sum>q\<in>Q. \<Sum>a\<in>A. \<Sum>b\<in>B. if P a b then t q a b else 0) =
        (\<Sum>a\<in>A. \<Sum>q\<in>Q. \<Sum>b\<in>B. if P a b then t q a b else 0)"
    by (rule sum.swap)
  also have "\<dots> = (\<Sum>a\<in>A. \<Sum>b\<in>B. \<Sum>q\<in>Q. if P a b then t q a b else 0)"
    by (intro sum.cong refl sum.swap)
  also have "\<dots> = (\<Sum>a\<in>A. \<Sum>b\<in>B. if P a b then (\<Sum>q\<in>Q. t q a b) else 0)"
    by (intro sum.cong refl) simp
  finally show ?thesis .
qed

lemma Apply2D_component_adds:
  "adds_to (Apply2D_y D1D Q1D VDIM bt gt
       (Apply2D_pointwise Q1D d e
         (Apply2D_grad D1D Q1D VDIM b g x e c (Apply2D_grad_clear Q1D grad))) e c)
     (\<lambda>k. \<Sum>dy<D1D. \<Sum>dx<D1D.
        if k = at4 D1D D1D VDIM dx dy c e
        then Apply2D_value D1D Q1D VDIM b g bt gt d x e c dx dy else 0)"
proof (rule adds_to_cong [OF Apply2D_y_adds])
  fix k
  define G3 where "G3 = Apply2D_pointwise Q1D d e
         (Apply2D_grad D1D Q1D VDIM b g x e c (Apply2D_grad_clear Q1D grad))"
  have cells: "G3 (qy, qx, 0) = Apply2D_flux0 D1D Q1D VDIM b g d x e c qy qx"
    "G3 (qy, qx, 1) = Apply2D_flux1 D1D Q1D VDIM b g d x e c qy qx"
    if "qy < Q1D" "qx < Q1D" for qy qx
    using that
    by (simp_all add: G3_def Apply2D_pointwise_cells Apply2D_grad_cells Apply2D_grad_clear_cells
        Apply2D_flux0_def Apply2D_flux1_def del: One_nat_def)
  have "(\<Sum>qy<Q1D. \<Sum>dy<D1D. \<Sum>dx<D1D.
        if k = at4 D1D D1D VDIM dx dy c e
        then Apply2D_gradX_back D1D Q1D bt gt G3 qy (dx, 0) * bt ! at2 D1D dy qy +
             Apply2D_gradX_back D1D Q1D bt gt G3 qy (dx, 1) * gt ! at2 D1D dy qy
        else 0) =
     (\<Sum>dy<D1D. \<Sum>dx<D1D. if k = at4 D1D D1D VDIM dx dy c e
        then (\<Sum>qy<Q1D. Apply2D_gradX_back D1D Q1D bt gt G3 qy (dx, 0) * bt ! at2 D1D dy qy +
             Apply2D_gradX_back D1D Q1D bt gt G3 qy (dx, 1) * gt ! at2 D1D dy qy) else 0)"
    by (rule sum_scatter_swap2)
  also have "\<dots> = (\<Sum>dy<D1D. \<Sum>dx<D1D.
        if k = at4 D1D D1D VDIM dx dy c e
        then Apply2D_value D1D Q1D VDIM b g bt gt d x e c dx dy else 0)"
    unfolding Apply2D_value_def
    by (intro sum.cong refl if_cong)
      (simp_all add: Apply2D_gradX_back_cells cells del: One_nat_def)
  finally show "(\<Sum>qy<Q1D. \<Sum>dy<D1D. \<Sum>dx<D1D.
        if k = at4 D1D D1D VDIM dx dy c e
        then Apply2D_gradX_back D1D Q1D bt gt
               (Apply2D_pointwise Q1D d e
                 (Apply2D_grad D1D Q1D VDIM b g x e c (Apply2D_grad_clear Q1D grad))) qy (dx, 0) *
             bt ! at2 D1D dy qy +
             Apply2D_gradX_back D1D Q1D bt gt
               (Apply2D_pointwise Q1D d e
                 (Apply2D_grad D1D Q1D VDIM b g x e c (Apply2D_grad_clear Q1D grad))) qy (dx, 1) *
             gt ! at2 D1D dy qy
        else 0) =
     (\<Sum>dy<D1D. \<Sum>dx<D1D.
        if k = at4 D1D D1D VDIM dx dy c e
        then Apply2D_value D1D Q1D VDIM b g bt gt d x e c dx dy else 0)"
    unfolding G3_def .
qed

lemma pair_loop_adds:
  assumes "\<And>c g. c < n \<Longrightarrow> adds_to (\<lambda>y. snd (F c (g, y))) (C c)"
  shows "adds_to (\<lambda>y. snd (for_loop n F (g0, y))) (\<lambda>k. \<Sum>c<n. C c k)"
  using assms
proof (induction n)
  case 0
  show ?case by (rule adds_toI) (simp_all add: for_loop_0)
next
  case (Suc n)
  have IH: "adds_to (\<lambda>y. snd (for_loop n F (g0, y))) (\<lambda>k. \<Sum>c<n. C c k)"
    by (rule Suc.IH) (simp add: Suc.prems)
  show ?case
  proof (rule adds_toI)
    fix y :: "real list"
    obtain g1 y1 where s: "for_loop n F (g0, y) = (g1, y1)" by (cases "for_loop n F (g0, y)")
    have y1: "length y1 = length y" "\<And>k. k < length y \<Longrightarrow> y1 ! k = y ! k + (\<Sum>c<n. C c k)"
      using adds_to_length [OF IH, of y] adds_to_nth [OF IH, of _ y] by (simp_all add: s)
    have st: "adds_to (\<lambda>y. snd (F n (g1, y))) (C n)"
      by (rule Suc.prems) simp
    show "length (snd (for_loop (Suc n) F (g0, y))) = length y"
      using adds_to_length [OF st, of y1] by (simp add: for_loop_Suc s y1)
    show "snd (for_loop (Suc n) F (g0, y)) ! k = y ! k + (\<Sum>c<Suc n. C c k)" if "k < length y" for k
      using adds_to_nth [OF st, of k y1] that by (simp add: for_loop_Suc s y1)
  qed
qed

lemma Apply2D_element_adds:
  "adds_to (PAVectorDiffusionApply2D_element D1D Q1D VDIM b g bt gt d x e)
     (\<lambda>k. \<Sum>c<VDIM. \<Sum>dy<D1D. \<Sum>dx<D1D.
        if k = at4 D1D D1D VDIM dx dy c e
        then Apply2D_value D1D Q1D VDIM b g bt gt d x e c dx dy else 0)"
  unfolding PAVectorDiffusionApply2D_element_def
  by (rule pair_loop_adds) (simp add: Let_def Apply2D_component_adds)

lemma Apply2D_kernel_adds:
  "adds_to (mfem_forall NE (PAVectorDiffusionApply2D_element D1D Q1D VDIM b g bt gt d x))
     (scatter4 D1D VDIM NE (Apply2D_value D1D Q1D VDIM b g bt gt d x))"
  unfolding mfem_forall_def scatter4_def
  by (rule adds_to_for_loop, rule Apply2D_element_adds)

lemma scatter4_at:
  assumes "dx < D1D" "dy < D1D" "c < VDIM" "e < NE"
  shows "scatter4 D1D VDIM NE val (at4 D1D D1D VDIM dx dy c e) = val e c dx dy"
proof -
  have "scatter4 D1D VDIM NE val (at4 D1D D1D VDIM dx dy c e) =
        (\<Sum>e'<NE. \<Sum>c'<VDIM. \<Sum>dy'<D1D. \<Sum>dx'<D1D.
           if dx = dx' \<and> dy = dy' \<and> c = c' \<and> e = e' then val e' c' dx' dy' else 0)"
    unfolding scatter4_def
    by (intro sum.cong refl) (use assms in \<open>simp add: at4_eq_iff\<close>)
  also have "\<dots> = val e c dx dy"
    using assms by (simp add: sum_delta_conjs sum.delta')
  finally show ?thesis .
qed

lemma scatter4_dot:
  "(\<Sum>k<D1D * D1D * VDIM * NE. scatter4 D1D VDIM NE val k * w k) =
   (\<Sum>e<NE. \<Sum>c<VDIM. \<Sum>dy<D1D. \<Sum>dx<D1D. val e c dx dy * w (at4 D1D D1D VDIM dx dy c e))"
proof -
  have "(\<Sum>k<D1D * D1D * VDIM * NE. scatter4 D1D VDIM NE val k * w k) =
        (\<Sum>e<NE. \<Sum>c<VDIM. \<Sum>dy<D1D. \<Sum>dx<D1D.
           if at4 D1D D1D VDIM dx dy c e \<in> {..<D1D * D1D * VDIM * NE}
           then val e c dx dy * w (at4 D1D D1D VDIM dx dy c e) else 0)"
    unfolding scatter4_def by (simp only: pair_sum pair_delta finite_lessThan)
  also have "\<dots> = (\<Sum>e<NE. \<Sum>c<VDIM. \<Sum>dy<D1D. \<Sum>dx<D1D.
                       val e c dx dy * w (at4 D1D D1D VDIM dx dy c e))"
    by (intro sum.cong refl) (simp add: at4_less)
  finally show ?thesis .
qed

lemma Diagonal2D_kernel_adds:
  "adds_to (mfem_forall NE (PAVectorDiffusionDiagonal2D_element D1D Q1D b g d))
     (scatter4 D1D 2 NE (\<lambda>e c dx dy. Diagonal2D_value Q1D b g d e dx dy))"
proof -
  have "adds_to (mfem_forall NE (PAVectorDiffusionDiagonal2D_element D1D Q1D b g d))
     (\<lambda>k. \<Sum>e<NE. \<Sum>dy<D1D. \<Sum>dx<D1D.
        (if k = at4 D1D D1D 2 dx dy 0 e then Diagonal2D_value Q1D b g d e dx dy else 0) +
        (if k = at4 D1D D1D 2 dx dy 1 e then Diagonal2D_value Q1D b g d e dx dy else 0))"
    unfolding mfem_forall_def
    by (rule adds_to_for_loop, rule Diagonal2D_element_adds)
  then show ?thesis
  proof (rule adds_to_cong)
    fix k
    show "(\<Sum>e<NE. \<Sum>dy<D1D. \<Sum>dx<D1D.
        (if k = at4 D1D D1D 2 dx dy 0 e then Diagonal2D_value Q1D b g d e dx dy else 0) +
        (if k = at4 D1D D1D 2 dx dy 1 e then Diagonal2D_value Q1D b g d e dx dy else 0)) =
      scatter4 D1D 2 NE (\<lambda>e c dx dy. Diagonal2D_value Q1D b g d e dx dy) k"
      unfolding scatter4_def
      by (rule sum.cong [OF refl]) (simp add: numeral_2_eq_2 sum.distrib)
  qed
qed

lemma div_less_of_less_mult: "(i::nat) < n * m \<Longrightarrow> i div n < m"
  by (metis less_mult_imp_div_less mult.commute)

lemma at4_decode:
  assumes "i < n * m * v * N"
  obtains a b c r where "a < n" "b < m" "c < v" "r < N" "i = at4 n m v a b c r"
proof -
  from assms have n: "0 < n" and m: "0 < m" and v: "0 < v"
    by (auto intro: Nat.gr0I)
  define r1 where "r1 = i div n"
  define r2 where "r2 = r1 div m"
  define r3 where "r3 = r2 div v"
  have "i < n * (m * v * N)" using assms by (simp add: mult.assoc)
  then have "r1 < m * v * N" unfolding r1_def by (rule div_less_of_less_mult)
  then have "r1 < m * (v * N)" by (simp add: mult.assoc)
  then have "r2 < v * N" unfolding r2_def by (rule div_less_of_less_mult)
  then have r3: "r3 < N" unfolding r3_def by (rule div_less_of_less_mult)
  have "i = i mod n + n * r1" by (simp add: r1_def)
  moreover have "r1 = r1 mod m + m * r2" by (simp add: r2_def)
  moreover have "r2 = r2 mod v + v * r3" by (simp add: r3_def)
  ultimately have "i = at4 n m v (i mod n) (r1 mod m) (r2 mod v) r3"
    by (simp add: at4_def)
  moreover have "i mod n < n" "r1 mod m < m" "r2 mod v < v" using n m v by simp_all
  ultimately show ?thesis using r3 that by blast
qed

lemma unit_vec_at4:
  assumes "dx < D1D" "dy < D1D" "c < VDIM" "e < NE" "dx0 < D1D" "dy0 < D1D" "c0 < VDIM" "e0 < NE"
  shows "unit_vec (D1D * D1D * VDIM * NE) (at4 D1D D1D VDIM dx0 dy0 c0 e0) !
           at4 D1D D1D VDIM dx dy c e =
         (if dx = dx0 \<and> dy = dy0 \<and> c = c0 \<and> e = e0 then 1 else 0)"
  using assms at4_less [of dx D1D dy D1D c VDIM e NE] at4_less [of dx0 D1D dy0 D1D c0 VDIM e0 NE]
  by (auto simp: unit_vec_def nth_list_update at4_eq_iff)

lemma if_mult_left: "(if P then a else 0) * t = (if P then a * t else (0::real))"
  by simp

lemma Apply2D_fwd_unit:
  assumes "dx0 < D1D" "dy0 < D1D" "c0 < VDIM" "e0 < NE"
  shows "Apply2D_fwd D1D Q1D VDIM tx ty
           (unit_vec (D1D * D1D * VDIM * NE) (at4 D1D D1D VDIM dx0 dy0 c0 e0)) e0 c0 qy qx =
         tx ! at2 Q1D qx dx0 * ty ! at2 Q1D qy dy0"
proof -
  have "Apply2D_fwd D1D Q1D VDIM tx ty
           (unit_vec (D1D * D1D * VDIM * NE) (at4 D1D D1D VDIM dx0 dy0 c0 e0)) e0 c0 qy qx =
        (\<Sum>dy<D1D. (\<Sum>dx<D1D. (if dx = dx0 \<and> dy = dy0 then 1 else 0) * tx ! at2 Q1D qx dx) *
           ty ! at2 Q1D qy dy)"
    unfolding Apply2D_fwd_def
    by (intro sum.cong refl arg_cong2 [where f = "(*)"]) (use assms in \<open>simp add: unit_vec_at4\<close>)
  also have "\<dots> = tx ! at2 Q1D qx dx0 * ty ! at2 Q1D qy dy0"
    using assms by (simp add: if_mult_left sum_delta_conjs sum.delta)
  finally show ?thesis .
qed

lemma Apply2D_value_unit:
  assumes "dx0 < D1D" "dy0 < D1D" "c0 < VDIM" "e0 < NE"
    and bt: "\<And>dd q. dd < D1D \<Longrightarrow> q < Q1D \<Longrightarrow> bt ! at2 D1D dd q = b ! at2 Q1D q dd"
    and gt: "\<And>dd q. dd < D1D \<Longrightarrow> q < Q1D \<Longrightarrow> gt ! at2 D1D dd q = g ! at2 Q1D q dd"
  shows "Apply2D_value D1D Q1D VDIM b g bt gt d
           (unit_vec (D1D * D1D * VDIM * NE) (at4 D1D D1D VDIM dx0 dy0 c0 e0)) e0 c0 dx0 dy0 =
         Diagonal2D_value Q1D b g d e0 dx0 dy0"
proof -
  define T where "T qx qy =
      (d ! at3 (Q1D * Q1D) 3 (qx + qy * Q1D) 0 e0 * (g ! at2 Q1D qx dx0 * b ! at2 Q1D qy dy0) +
       d ! at3 (Q1D * Q1D) 3 (qx + qy * Q1D) 1 e0 * (b ! at2 Q1D qx dx0 * g ! at2 Q1D qy dy0)) *
        g ! at2 Q1D qx dx0 * b ! at2 Q1D qy dy0 +
      (d ! at3 (Q1D * Q1D) 3 (qx + qy * Q1D) 1 e0 * (g ! at2 Q1D qx dx0 * b ! at2 Q1D qy dy0) +
       d ! at3 (Q1D * Q1D) 3 (qx + qy * Q1D) 2 e0 * (b ! at2 Q1D qx dx0 * g ! at2 Q1D qy dy0)) *
        b ! at2 Q1D qx dx0 * g ! at2 Q1D qy dy0" for qx qy
  have "Apply2D_value D1D Q1D VDIM b g bt gt d
           (unit_vec (D1D * D1D * VDIM * NE) (at4 D1D D1D VDIM dx0 dy0 c0 e0)) e0 c0 dx0 dy0 =
        (\<Sum>qy<Q1D. \<Sum>qx<Q1D. T qx qy)"
    unfolding Apply2D_value_def Apply2D_flux0_def Apply2D_flux1_def Apply2D_fwd_unit [OF assms(1-4)]
  proof (rule sum.cong [OF refl])
    fix qy assume "qy \<in> {..<Q1D}"
    then have qy: "qy < Q1D" by simp
    have "(\<Sum>qx<Q1D.
            (d ! at3 (Q1D * Q1D) 3 (qx + qy * Q1D) 0 e0 * (g ! at2 Q1D qx dx0 * b ! at2 Q1D qy dy0) +
             d ! at3 (Q1D * Q1D) 3 (qx + qy * Q1D) 1 e0 * (b ! at2 Q1D qx dx0 * g ! at2 Q1D qy dy0)) *
            gt ! at2 D1D dx0 qx) * bt ! at2 D1D dy0 qy +
          (\<Sum>qx<Q1D.
            (d ! at3 (Q1D * Q1D) 3 (qx + qy * Q1D) 1 e0 * (g ! at2 Q1D qx dx0 * b ! at2 Q1D qy dy0) +
             d ! at3 (Q1D * Q1D) 3 (qx + qy * Q1D) 2 e0 * (b ! at2 Q1D qx dx0 * g ! at2 Q1D qy dy0)) *
            bt ! at2 D1D dx0 qx) * gt ! at2 D1D dy0 qy =
          (\<Sum>qx<Q1D.
            (d ! at3 (Q1D * Q1D) 3 (qx + qy * Q1D) 0 e0 * (g ! at2 Q1D qx dx0 * b ! at2 Q1D qy dy0) +
             d ! at3 (Q1D * Q1D) 3 (qx + qy * Q1D) 1 e0 * (b ! at2 Q1D qx dx0 * g ! at2 Q1D qy dy0)) *
            g ! at2 Q1D qx dx0) * b ! at2 Q1D qy dy0 +
          (\<Sum>qx<Q1D.
            (d ! at3 (Q1D * Q1D) 3 (qx + qy * Q1D) 1 e0 * (g ! at2 Q1D qx dx0 * b ! at2 Q1D qy dy0) +
             d ! at3 (Q1D * Q1D) 3 (qx + qy * Q1D) 2 e0 * (b ! at2 Q1D qx dx0 * g ! at2 Q1D qy dy0)) *
            b ! at2 Q1D qx dx0) * g ! at2 Q1D qy dy0"
      using assms(1,2) qy by (simp add: bt gt)
    also have "\<dots> = (\<Sum>qx<Q1D. T qx qy)"
      unfolding T_def by (simp add: sum_distrib_right sum.distrib)
    finally show "(\<Sum>qx<Q1D.
            (d ! at3 (Q1D * Q1D) 3 (qx + qy * Q1D) 0 e0 * (g ! at2 Q1D qx dx0 * b ! at2 Q1D qy dy0) +
             d ! at3 (Q1D * Q1D) 3 (qx + qy * Q1D) 1 e0 * (b ! at2 Q1D qx dx0 * g ! at2 Q1D qy dy0)) *
            gt ! at2 D1D dx0 qx) * bt ! at2 D1D dy0 qy +
          (\<Sum>qx<Q1D.
            (d ! at3 (Q1D * Q1D) 3 (qx + qy * Q1D) 1 e0 * (g ! at2 Q1D qx dx0 * b ! at2 Q1D qy dy0) +
             d ! at3 (Q1D * Q1D) 3 (qx + qy * Q1D) 2 e0 * (b ! at2 Q1D qx dx0 * g ! at2 Q1D qy dy0)) *
            bt ! at2 D1D dx0 qx) * gt ! at2 D1D dy0 qy = (\<Sum>qx<Q1D. T qx qy)" .
  qed
  also have "\<dots> = (\<Sum>qx<Q1D. \<Sum>qy<Q1D. T qx qy)"
    by (rule sum.swap)
  also have "\<dots> = Diagonal2D_value Q1D b g d e0 dx0 dy0"
    unfolding Diagonal2D_value_def T_def
    by (intro sum.cong refl) (simp add: sum_distrib_left sum.distrib algebra_simps)
  finally show ?thesis .
qed

lemma sum_swap22:
  "(\<Sum>a\<in>A. \<Sum>b\<in>B. \<Sum>c\<in>C. \<Sum>d\<in>D. f a b c d) =
   (\<Sum>c\<in>C. \<Sum>d\<in>D. \<Sum>a\<in>A. \<Sum>b\<in>B. (f a b c d :: real))"
proof -
  have "(\<Sum>a\<in>A. \<Sum>b\<in>B. \<Sum>c\<in>C. \<Sum>d\<in>D. f a b c d) =
        (\<Sum>a\<in>A. \<Sum>c\<in>C. \<Sum>b\<in>B. \<Sum>d\<in>D. f a b c d)"
    by (rule sum.cong [OF refl]) (rule sum.swap)
  also have "\<dots> = (\<Sum>c\<in>C. \<Sum>a\<in>A. \<Sum>b\<in>B. \<Sum>d\<in>D. f a b c d)"
    by (rule sum.swap)
  also have "\<dots> = (\<Sum>c\<in>C. \<Sum>a\<in>A. \<Sum>d\<in>D. \<Sum>b\<in>B. f a b c d)"
    by (rule sum.cong [OF refl], rule sum.cong [OF refl]) (rule sum.swap)
  also have "\<dots> = (\<Sum>c\<in>C. \<Sum>d\<in>D. \<Sum>a\<in>A. \<Sum>b\<in>B. f a b c d)"
    by (rule sum.cong [OF refl]) (rule sum.swap)
  finally show ?thesis .
qed

lemma Apply2D_dual:
  assumes bt: "\<And>dd q. dd < D1D \<Longrightarrow> q < Q1D \<Longrightarrow> bt ! at2 D1D dd q = b ! at2 Q1D q dd"
    and gt: "\<And>dd q. dd < D1D \<Longrightarrow> q < Q1D \<Longrightarrow> gt ! at2 D1D dd q = g ! at2 Q1D q dd"
  shows "(\<Sum>dy<D1D. \<Sum>dx<D1D. Apply2D_value D1D Q1D VDIM b g bt gt d x e c dx dy *
            w ! at4 D1D D1D VDIM dx dy c e) =
         (\<Sum>qy<Q1D. \<Sum>qx<Q1D.
            Apply2D_flux0 D1D Q1D VDIM b g d x e c qy qx * Apply2D_fwd D1D Q1D VDIM g b w e c qy qx +
            Apply2D_flux1 D1D Q1D VDIM b g d x e c qy qx * Apply2D_fwd D1D Q1D VDIM b g w e c qy qx)"
proof -
  define F0 where "F0 = Apply2D_flux0 D1D Q1D VDIM b g d x e c"
  define F1 where "F1 = Apply2D_flux1 D1D Q1D VDIM b g d x e c"
  define W where "W dx dy = w ! at4 D1D D1D VDIM dx dy c e" for dx dy
  define Gx where "Gx qx dx = g ! at2 Q1D qx dx" for qx dx
  define Bx where "Bx qx dx = b ! at2 Q1D qx dx" for qx dx
  define U where "U dy dx qy qx =
     F0 qy qx * Gx qx dx * Bx qy dy * W dx dy + F1 qy qx * Bx qx dx * Gx qy dy * W dx dy"
    for dy dx qy qx
  have "(\<Sum>dy<D1D. \<Sum>dx<D1D. Apply2D_value D1D Q1D VDIM b g bt gt d x e c dx dy * W dx dy) =
        (\<Sum>dy<D1D. \<Sum>dx<D1D. \<Sum>qy<Q1D. \<Sum>qx<Q1D. U dy dx qy qx)"
  proof (rule sum.cong [OF refl], rule sum.cong [OF refl])
    fix dy dx assume "dy \<in> {..<D1D}" "dx \<in> {..<D1D}"
    then have d: "dy < D1D" "dx < D1D" by simp_all
    have "Apply2D_value D1D Q1D VDIM b g bt gt d x e c dx dy =
          (\<Sum>qy<Q1D. (\<Sum>qx<Q1D. F0 qy qx * Gx qx dx) * Bx qy dy +
                      (\<Sum>qx<Q1D. F1 qy qx * Bx qx dx) * Gx qy dy)"
      unfolding Apply2D_value_def F0_def F1_def Gx_def Bx_def
      by (intro sum.cong refl arg_cong2 [where f = "(+)"] arg_cong2 [where f = "(*)"])
        (use d in \<open>simp_all add: bt gt\<close>)
    also have "\<dots> * W dx dy = (\<Sum>qy<Q1D. \<Sum>qx<Q1D. U dy dx qy qx)"
      unfolding U_def by (simp add: sum_distrib_right sum.distrib distrib_right)
    finally show "Apply2D_value D1D Q1D VDIM b g bt gt d x e c dx dy * W dx dy =
                  (\<Sum>qy<Q1D. \<Sum>qx<Q1D. U dy dx qy qx)"
      by simp
  qed
  also have "\<dots> = (\<Sum>qy<Q1D. \<Sum>qx<Q1D. \<Sum>dy<D1D. \<Sum>dx<D1D. U dy dx qy qx)"
    by (rule sum_swap22)
  also have "\<dots> = (\<Sum>qy<Q1D. \<Sum>qx<Q1D.
            F0 qy qx * Apply2D_fwd D1D Q1D VDIM g b w e c qy qx +
            F1 qy qx * Apply2D_fwd D1D Q1D VDIM b g w e c qy qx)"
  proof (rule sum.cong [OF refl], rule sum.cong [OF refl])
    fix qy qx
    have "F0 qy qx * Apply2D_fwd D1D Q1D VDIM g b w e c qy qx +
          F1 qy qx * Apply2D_fwd D1D Q1D VDIM b g w e c qy qx =
          (\<Sum>dy<D1D. \<Sum>dx<D1D. F0 qy qx * (W dx dy * Gx qx dx * Bx qy dy) +
                                 F1 qy qx * (W dx dy * Bx qx dx * Gx qy dy))"
      unfolding Apply2D_fwd_def W_def Gx_def Bx_def
      by (simp add: sum_distrib_left sum_distrib_right sum.distrib)
    also have "\<dots> = (\<Sum>dy<D1D. \<Sum>dx<D1D. U dy dx qy qx)"
      unfolding U_def by (rule sum.cong [OF refl], rule sum.cong [OF refl]) (simp add: mult_ac)
    finally show "(\<Sum>dy<D1D. \<Sum>dx<D1D. U dy dx qy qx) =
          F0 qy qx * Apply2D_fwd D1D Q1D VDIM g b w e c qy qx +
          F1 qy qx * Apply2D_fwd D1D Q1D VDIM b g w e c qy qx"
      by simp
  qed
  finally show ?thesis by (simp add: F0_def F1_def W_def)
qed

lemma Apply2D_form_sym:
  "Apply2D_flux0 D1D Q1D VDIM b g d x e c qy qx * Apply2D_fwd D1D Q1D VDIM g b w e c qy qx +
   Apply2D_flux1 D1D Q1D VDIM b g d x e c qy qx * Apply2D_fwd D1D Q1D VDIM b g w e c qy qx =
   Apply2D_flux0 D1D Q1D VDIM b g d w e c qy qx * Apply2D_fwd D1D Q1D VDIM g b x e c qy qx +
   Apply2D_flux1 D1D Q1D VDIM b g d w e c qy qx * Apply2D_fwd D1D Q1D VDIM b g x e c qy qx"
  by (simp add: Apply2D_flux0_def Apply2D_flux1_def algebra_simps)

lemma Apply2D_symmetric:
  assumes bt: "\<And>dd q. dd < D1D \<Longrightarrow> q < Q1D \<Longrightarrow> bt ! at2 D1D dd q = b ! at2 Q1D q dd"
    and gt: "\<And>dd q. dd < D1D \<Longrightarrow> q < Q1D \<Longrightarrow> gt ! at2 D1D dd q = g ! at2 Q1D q dd"
    and len: "length x = D1D * D1D * VDIM * NE" "length y = D1D * D1D * VDIM * NE"
  shows "dot (mfem_forall NE (PAVectorDiffusionApply2D_element D1D Q1D VDIM b g bt gt d x)
                (replicate (D1D * D1D * VDIM * NE) 0)) y =
         dot x (mfem_forall NE (PAVectorDiffusionApply2D_element D1D Q1D VDIM b g bt gt d y)
                (replicate (D1D * D1D * VDIM * NE) 0))"
proof -
  define N where "N = D1D * D1D * VDIM * NE"
  have l: "length (mfem_forall NE (PAVectorDiffusionApply2D_element D1D Q1D VDIM b g bt gt d v)
               (replicate N 0)) = N" for v
    by (simp add: adds_to_length [OF Apply2D_kernel_adds])
  have app: "mfem_forall NE (PAVectorDiffusionApply2D_element D1D Q1D VDIM b g bt gt d v)
               (replicate N 0) ! k =
             scatter4 D1D VDIM NE (Apply2D_value D1D Q1D VDIM b g bt gt d v) k" if "k < N" for v k
    using adds_to_nth [OF Apply2D_kernel_adds, of k "replicate N 0"] that by simp
  have form: "(\<Sum>k<N. scatter4 D1D VDIM NE (Apply2D_value D1D Q1D VDIM b g bt gt d v) k * u ! k) =
      (\<Sum>e<NE. \<Sum>c<VDIM. \<Sum>qy<Q1D. \<Sum>qx<Q1D.
            Apply2D_flux0 D1D Q1D VDIM b g d v e c qy qx * Apply2D_fwd D1D Q1D VDIM g b u e c qy qx +
            Apply2D_flux1 D1D Q1D VDIM b g d v e c qy qx * Apply2D_fwd D1D Q1D VDIM b g u e c qy qx)"
    for u v
    unfolding N_def scatter4_dot
    by (rule sum.cong [OF refl], rule sum.cong [OF refl], rule Apply2D_dual [OF bt gt])
  have "dot (mfem_forall NE (PAVectorDiffusionApply2D_element D1D Q1D VDIM b g bt gt d x)
              (replicate N 0)) y =
        (\<Sum>k<N. scatter4 D1D VDIM NE (Apply2D_value D1D Q1D VDIM b g bt gt d x) k * y ! k)"
    unfolding dot_def l by (rule sum.cong) (simp_all add: app)
  also have "\<dots> = (\<Sum>k<N. scatter4 D1D VDIM NE (Apply2D_value D1D Q1D VDIM b g bt gt d y) k * x ! k)"
    unfolding form
    by (rule sum.cong [OF refl], rule sum.cong [OF refl], rule sum.cong [OF refl],
        rule sum.cong [OF refl], rule Apply2D_form_sym)
  also have "\<dots> = dot x (mfem_forall NE (PAVectorDiffusionApply2D_element D1D Q1D VDIM b g bt gt d y)
              (replicate N 0))"
    unfolding dot_def len N_def [symmetric] by (rule sum.cong) (simp_all add: app mult.commute)
  finally show ?thesis by (simp add: N_def)
qed

lemma for_loop3_obs_once:
  assumes frame: "\<And>i' j' l' s. i' < n \<Longrightarrow> j' < m \<Longrightarrow> l' < r \<Longrightarrow>
                    i' \<noteq> i \<or> j' \<noteq> j \<or> l' \<noteq> l \<Longrightarrow> obs (F i' j' l' s) = obs s"
    and val: "\<And>s. obs (F i j l s) = h (obs s)" and i: "i < n" and j: "j < m" and l: "l < r"
  shows "obs (for_loop n (\<lambda>i. for_loop m (\<lambda>j. for_loop r (F i j))) s) = h (obs s)"
proof (rule for_loop_obs_once [where i = i])
  show "obs (for_loop m (\<lambda>j. for_loop r (F i' j)) s) = obs s" if "i' < n" "i' \<noteq> i" for i' s
    by (rule for_loop_obs_frame, rule for_loop_obs_frame) (use that in \<open>simp add: frame\<close>)
  show "obs (for_loop m (\<lambda>j. for_loop r (F i j)) s) = h (obs s)" for s
    by (rule for_loop2_obs_once [where i = j and j = l]) (use i j l in \<open>auto simp: frame val\<close>)
  show "i < n" by fact
qed

lemma single_accum:
  "for_loop n (\<lambda>i a. a(k := a k + f i)) a = a(k := a k + (\<Sum>i<n. f i :: real))"
  by (induction n) (simp_all add: for_loop_0 for_loop_Suc add.assoc fun_eq_iff)

lemma Diagonal3D_QQD_cells:
  assumes "qx < Q1D" "qy < Q1D" "dz < D1D"
  shows "Diagonal3D_QQD D1D Q1D b g d e i j QQD (qx, qy, dz) =
     (\<Sum>qz<Q1D.
        (if i = 2 then g ! at2 Q1D qz dz else b ! at2 Q1D qz dz) *
        d ! at3 (Q1D * Q1D * Q1D) 6 (qx + (qy + qz * Q1D) * Q1D) (Diagonal3D_k i j) e *
        (if j = 2 then g ! at2 Q1D qz dz else b ! at2 Q1D qz dz))"
  unfolding Diagonal3D_QQD_def Let_def single_accum
  by (rule for_loop3_obs_once [where obs = "\<lambda>a. a (qx, qy, dz)" and i = qx and j = qy and l = dz
        and h = "\<lambda>_. \<Sum>qz<Q1D.
        (if i = 2 then g ! at2 Q1D qz dz else b ! at2 Q1D qz dz) *
        d ! at3 (Q1D * Q1D * Q1D) 6 (qx + (qy + qz * Q1D) * Q1D) (Diagonal3D_k i j) e *
        (if j = 2 then g ! at2 Q1D qz dz else b ! at2 Q1D qz dz)"])
    (use assms in auto)

lemma Diagonal3D_QDD_cells:
  assumes "qx < Q1D" "dy < D1D" "dz < D1D"
  shows "Diagonal3D_QDD D1D Q1D b g i j QQD QDD (qx, dy, dz) =
     (\<Sum>qy<Q1D.
        (if i = 1 then g ! at2 Q1D qy dy else b ! at2 Q1D qy dy) * QQD (qx, qy, dz) *
        (if j = 1 then g ! at2 Q1D qy dy else b ! at2 Q1D qy dy))"
  unfolding Diagonal3D_QDD_def Let_def single_accum
  by (rule for_loop3_obs_once [where obs = "\<lambda>a. a (qx, dy, dz)" and i = qx and j = dz and l = dy
        and h = "\<lambda>_. \<Sum>qy<Q1D.
        (if i = 1 then g ! at2 Q1D qy dy else b ! at2 Q1D qy dy) * QQD (qx, qy, dz) *
        (if j = 1 then g ! at2 Q1D qy dy else b ! at2 Q1D qy dy)"])
    (use assms in auto)

lemma Diagonal3D_temp_eq:
  "Diagonal3D_temp Q1D b g i j QDD dx dy dz =
     (\<Sum>qx<Q1D. (if i = 0 then g ! at2 Q1D qx dx else b ! at2 Q1D qx dx) * QDD (qx, dy, dz) *
                (if j = 0 then g ! at2 Q1D qx dx else b ! at2 Q1D qx dx))"
  unfolding Diagonal3D_temp_def Let_def by (simp add: for_loop_sum)

lemma Diagonal3D_temp_term:
  assumes "dy < D1D" "dz < D1D"
  shows "Diagonal3D_temp Q1D b g i j
           (Diagonal3D_QDD D1D Q1D b g i j (Diagonal3D_QQD D1D Q1D b g d e i j QQD) QDD) dx dy dz =
         Diagonal3D_term Q1D b g d e i j dx dy dz"
  unfolding Diagonal3D_temp_eq Diagonal3D_term_def
proof (rule sum.cong [OF refl])
  fix qx assume "qx \<in> {..<Q1D}"
  then have qx: "qx < Q1D" by simp
  have "Diagonal3D_QDD D1D Q1D b g i j (Diagonal3D_QQD D1D Q1D b g d e i j QQD) QDD (qx, dy, dz) =
        (\<Sum>qy<Q1D.
           (if i = 1 then g ! at2 Q1D qy dy else b ! at2 Q1D qy dy) *
           (\<Sum>qz<Q1D.
              (if i = 2 then g ! at2 Q1D qz dz else b ! at2 Q1D qz dz) *
              d ! at3 (Q1D * Q1D * Q1D) 6 (qx + (qy + qz * Q1D) * Q1D) (Diagonal3D_k i j) e *
              (if j = 2 then g ! at2 Q1D qz dz else b ! at2 Q1D qz dz)) *
           (if j = 1 then g ! at2 Q1D qy dy else b ! at2 Q1D qy dy))"
    unfolding Diagonal3D_QDD_cells [OF qx assms]
    by (rule sum.cong [OF refl]) (use qx assms in \<open>simp only: Diagonal3D_QQD_cells lessThan_iff\<close>)
  then show "(if i = 0 then g ! at2 Q1D qx dx else b ! at2 Q1D qx dx) *
        Diagonal3D_QDD D1D Q1D b g i j (Diagonal3D_QQD D1D Q1D b g d e i j QQD) QDD (qx, dy, dz) *
        (if j = 0 then g ! at2 Q1D qx dx else b ! at2 Q1D qx dx) =
        (if i = 0 then g ! at2 Q1D qx dx else b ! at2 Q1D qx dx) *
        (\<Sum>qy<Q1D.
           (if i = 1 then g ! at2 Q1D qy dy else b ! at2 Q1D qy dy) *
           (\<Sum>qz<Q1D.
              (if i = 2 then g ! at2 Q1D qz dz else b ! at2 Q1D qz dz) *
              d ! at3 (Q1D * Q1D * Q1D) 6 (qx + (qy + qz * Q1D) * Q1D) (Diagonal3D_k i j) e *
              (if j = 2 then g ! at2 Q1D qz dz else b ! at2 Q1D qz dz)) *
           (if j = 1 then g ! at2 Q1D qy dy else b ! at2 Q1D qy dy)) *
        (if j = 0 then g ! at2 Q1D qx dx else b ! at2 Q1D qx dx)"
    by (simp only:)
qed

lemma Diagonal3D_Y_adds:
  "adds_to (Diagonal3D_Y D1D Q1D b g e i j QDD)
     (\<lambda>k. \<Sum>dz<D1D. \<Sum>dy<D1D. \<Sum>dx<D1D.
        (if k = at5 D1D D1D D1D 3 dx dy dz 0 e then Diagonal3D_temp Q1D b g i j QDD dx dy dz else 0) +
        (if k = at5 D1D D1D D1D 3 dx dy dz 1 e then Diagonal3D_temp Q1D b g i j QDD dx dy dz else 0) +
        (if k = at5 D1D D1D D1D 3 dx dy dz 2 e then Diagonal3D_temp Q1D b g i j QDD dx dy dz else 0))"
  unfolding Diagonal3D_Y_def Let_def
  by (rule adds_to_for_loop, rule adds_to_for_loop, rule adds_to_for_loop,
      rule adds_to_comp [OF adds_to_comp [OF adds_to_update adds_to_update] adds_to_update])

lemma triple_loop_adds:
  assumes "\<And>c g1 g2. c < n \<Longrightarrow> adds_to (\<lambda>y. snd (snd (F c (g1, g2, y)))) (C c)"
  shows "adds_to (\<lambda>y. snd (snd (for_loop n F (g1, g2, y)))) (\<lambda>k. \<Sum>c<n. C c k)"
  using assms
proof (induction n)
  case 0
  show ?case by (rule adds_toI) (simp_all add: for_loop_0)
next
  case (Suc n)
  have IH: "adds_to (\<lambda>y. snd (snd (for_loop n F (g1, g2, y)))) (\<lambda>k. \<Sum>c<n. C c k)"
    by (rule Suc.IH) (simp add: Suc.prems)
  show ?case
  proof (rule adds_toI)
    fix y :: "real list"
    obtain h1 h2 y1 where s: "for_loop n F (g1, g2, y) = (h1, h2, y1)"
      by (cases "for_loop n F (g1, g2, y)")
    have y1: "length y1 = length y" "\<And>k. k < length y \<Longrightarrow> y1 ! k = y ! k + (\<Sum>c<n. C c k)"
      using adds_to_length [OF IH, of y] adds_to_nth [OF IH, of _ y] by (simp_all add: s)
    have st: "adds_to (\<lambda>y. snd (snd (F n (h1, h2, y)))) (C n)"
      by (rule Suc.prems) simp
    show "length (snd (snd (for_loop (Suc n) F (g1, g2, y)))) = length y"
      using adds_to_length [OF st, of y1] by (simp add: for_loop_Suc s y1)
    show "snd (snd (for_loop (Suc n) F (g1, g2, y))) ! k = y ! k + (\<Sum>c<Suc n. C c k)"
      if "k < length y" for k
      using adds_to_nth [OF st, of k y1] that by (simp add: for_loop_Suc s y1)
  qed
qed

lemma sum_scatter_swap3:
  "(\<Sum>q\<in>Q. \<Sum>a\<in>A. \<Sum>b\<in>B. \<Sum>c\<in>C. if P a b c then t q a b c else (0::real)) =
   (\<Sum>a\<in>A. \<Sum>b\<in>B. \<Sum>c\<in>C. if P a b c then (\<Sum>q\<in>Q. t q a b c) else 0)"
proof -
  have "(\<Sum>q\<in>Q. \<Sum>a\<in>A. \<Sum>b\<in>B. \<Sum>c\<in>C. if P a b c then t q a b c else 0) =
        (\<Sum>a\<in>A. \<Sum>q\<in>Q. \<Sum>b\<in>B. \<Sum>c\<in>C. if P a b c then t q a b c else 0)"
    by (rule sum.swap)
  also have "\<dots> = (\<Sum>a\<in>A. \<Sum>b\<in>B. \<Sum>c\<in>C. if P a b c then (\<Sum>q\<in>Q. t q a b c) else 0)"
    by (rule sum.cong [OF refl]) (rule sum_scatter_swap2)
  finally show ?thesis .
qed

lemma sum_lessThan3: "(\<Sum>c<3. F c) = F (0::nat) + F 1 + (F 2 :: real)"
  by (simp add: eval_nat_numeral)

lemma Diagonal3D_step_adds:
  "adds_to (\<lambda>y. Diagonal3D_Y D1D Q1D b g e i j
        (Diagonal3D_QDD D1D Q1D b g i j (Diagonal3D_QQD D1D Q1D b g d e i j QQD) QDD) y)
     (\<lambda>k. \<Sum>c<3. \<Sum>dz<D1D. \<Sum>dy<D1D. \<Sum>dx<D1D.
        if k = at5 D1D D1D D1D 3 dx dy dz c e then Diagonal3D_term Q1D b g d e i j dx dy dz else 0)"
proof (rule adds_to_cong [OF Diagonal3D_Y_adds])
  fix k
  let ?QDD = "Diagonal3D_QDD D1D Q1D b g i j (Diagonal3D_QQD D1D Q1D b g d e i j QQD) QDD"
  have "(\<Sum>dz<D1D. \<Sum>dy<D1D. \<Sum>dx<D1D.
        (if k = at5 D1D D1D D1D 3 dx dy dz 0 e then Diagonal3D_temp Q1D b g i j ?QDD dx dy dz else 0) +
        (if k = at5 D1D D1D D1D 3 dx dy dz 1 e then Diagonal3D_temp Q1D b g i j ?QDD dx dy dz else 0) +
        (if k = at5 D1D D1D D1D 3 dx dy dz 2 e then Diagonal3D_temp Q1D b g i j ?QDD dx dy dz else 0)) =
      (\<Sum>dz<D1D. \<Sum>dy<D1D. \<Sum>dx<D1D.
        (if k = at5 D1D D1D D1D 3 dx dy dz 0 e then Diagonal3D_term Q1D b g d e i j dx dy dz else 0) +
        (if k = at5 D1D D1D D1D 3 dx dy dz 1 e then Diagonal3D_term Q1D b g d e i j dx dy dz else 0) +
        (if k = at5 D1D D1D D1D 3 dx dy dz 2 e then Diagonal3D_term Q1D b g d e i j dx dy dz else 0))"
    by (rule sum.cong [OF refl], rule sum.cong [OF refl], rule sum.cong [OF refl])
       (simp only: Diagonal3D_temp_term lessThan_iff)
  also have "\<dots> = (\<Sum>c<3. \<Sum>dz<D1D. \<Sum>dy<D1D. \<Sum>dx<D1D.
        if k = at5 D1D D1D D1D 3 dx dy dz c e then Diagonal3D_term Q1D b g d e i j dx dy dz else 0)"
    unfolding sum_lessThan3 by (simp only: sum.distrib)
  finally show "(\<Sum>dz<D1D. \<Sum>dy<D1D. \<Sum>dx<D1D.
        (if k = at5 D1D D1D D1D 3 dx dy dz 0 e then Diagonal3D_temp Q1D b g i j ?QDD dx dy dz else 0) +
        (if k = at5 D1D D1D D1D 3 dx dy dz 1 e then Diagonal3D_temp Q1D b g i j ?QDD dx dy dz else 0) +
        (if k = at5 D1D D1D D1D 3 dx dy dz 2 e then Diagonal3D_temp Q1D b g i j ?QDD dx dy dz else 0)) =
     (\<Sum>c<3. \<Sum>dz<D1D. \<Sum>dy<D1D. \<Sum>dx<D1D.
        if k = at5 D1D D1D D1D 3 dx dy dz c e then Diagonal3D_term Q1D b g d e i j dx dy dz else 0)" .
qed

lemma Diagonal3D_element_adds:
  "adds_to (PAVectorDiffusionDiagonal3D_element D1D Q1D b g d e)
     (\<lambda>k. \<Sum>c<3. \<Sum>dz<D1D. \<Sum>dy<D1D. \<Sum>dx<D1D.
        if k = at5 D1D D1D D1D 3 dx dy dz c e then Diagonal3D_value Q1D b g d e dx dy dz else 0)"
proof -
  have "adds_to (PAVectorDiffusionDiagonal3D_element D1D Q1D b g d e)
     (\<lambda>k. \<Sum>i<3. \<Sum>j<3. \<Sum>c<3. \<Sum>dz<D1D. \<Sum>dy<D1D. \<Sum>dx<D1D.
        if k = at5 D1D D1D D1D 3 dx dy dz c e then Diagonal3D_term Q1D b g d e i j dx dy dz else 0)"
    unfolding PAVectorDiffusionDiagonal3D_element_def Let_def
    by (rule triple_loop_adds, rule triple_loop_adds) (simp add: Diagonal3D_step_adds)
  then show ?thesis
  proof (rule adds_to_cong)
    fix k
    have "(\<Sum>i<3. \<Sum>j<3. \<Sum>c<3. \<Sum>dz<D1D. \<Sum>dy<D1D. \<Sum>dx<D1D.
        if k = at5 D1D D1D D1D 3 dx dy dz c e then Diagonal3D_term Q1D b g d e i j dx dy dz else 0) =
      (\<Sum>i<3. \<Sum>c<3. \<Sum>dz<D1D. \<Sum>dy<D1D. \<Sum>dx<D1D.
        if k = at5 D1D D1D D1D 3 dx dy dz c e
        then (\<Sum>j<3. Diagonal3D_term Q1D b g d e i j dx dy dz) else 0)"
      by (rule sum.cong [OF refl], rule sum.swap [THEN trans], rule sum.cong [OF refl])
         (rule sum_scatter_swap3)
    also have "\<dots> = (\<Sum>c<3. \<Sum>dz<D1D. \<Sum>dy<D1D. \<Sum>dx<D1D.
        if k = at5 D1D D1D D1D 3 dx dy dz c e
        then (\<Sum>i<3. \<Sum>j<3. Diagonal3D_term Q1D b g d e i j dx dy dz) else 0)"
      by (rule sum.swap [THEN trans], rule sum.cong [OF refl]) (rule sum_scatter_swap3)
    finally show "(\<Sum>i<3. \<Sum>j<3. \<Sum>c<3. \<Sum>dz<D1D. \<Sum>dy<D1D. \<Sum>dx<D1D.
        if k = at5 D1D D1D D1D 3 dx dy dz c e then Diagonal3D_term Q1D b g d e i j dx dy dz else 0) =
      (\<Sum>c<3. \<Sum>dz<D1D. \<Sum>dy<D1D. \<Sum>dx<D1D.
        if k = at5 D1D D1D D1D 3 dx dy dz c e then Diagonal3D_value Q1D b g d e dx dy dz else 0)"
      unfolding Diagonal3D_value_def .
  qed
qed

lemma Diagonal3D_kernel_adds:
  "adds_to (mfem_forall NE (PAVectorDiffusionDiagonal3D_element D1D Q1D b g d))
     (scatter5 D1D 3 NE (\<lambda>e c dx dy dz. Diagonal3D_value Q1D b g d e dx dy dz))"
  unfolding mfem_forall_def scatter5_def
  by (rule adds_to_for_loop, rule Diagonal3D_element_adds)

lemma sum_delta_conjs3:
  "finite S \<Longrightarrow> (\<Sum>i\<in>S. if P \<and> Q \<and> i = a then t i else (0::real)) =
     (if P \<and> Q \<and> a \<in> S then t a else 0)"
  "finite S \<Longrightarrow> (\<Sum>i\<in>S. if P \<and> Q \<and> a = i then t i else (0::real)) =
     (if P \<and> Q \<and> a \<in> S then t a else 0)"
  by (cases P; cases Q; simp add: sum.delta sum.delta')+

lemma Apply3D_gradX_cells:
  assumes "qx < Q1D"
  shows "Apply3D_gradX D1D Q1D b g x e c dz dy (qx, 0) =
           (\<Sum>dx<D1D. x ! at5 D1D D1D D1D 3 dx dy dz c e * b ! at2 Q1D qx dx)"
    and "Apply3D_gradX D1D Q1D b g x e c dz dy (qx, 1) =
           (\<Sum>dx<D1D. x ! at5 D1D D1D D1D 3 dx dy dz c e * g ! at2 Q1D qx dx)"
proof -
  have clear: "for_loop Q1D (\<lambda>qx gradX. (gradX((qx, 0) := 0))((qx, 1) := 0)) stack_array =
               (stack_array :: arr2)"
    by (rule for_loop_stack_array) (simp add: stack_array_upd)
  have "Apply3D_gradX D1D Q1D b g x e c dz dy =
     (\<lambda>p. (stack_array :: arr2) p + (\<Sum>dx<D1D. \<Sum>qx<Q1D.
        (if p = (qx, 0) then x ! at5 D1D D1D D1D 3 dx dy dz c e * b ! at2 Q1D qx dx else 0) +
        (if p = (qx, 1) then x ! at5 D1D D1D D1D 3 dx dy dz c e * g ! at2 Q1D qx dx else 0)))"
    unfolding Apply3D_gradX_def Let_def clear
    by (intro fadds_for_loop_eq fadds_for_loop fadds_comp [OF fadds_upd fadds_upd])
  then show "Apply3D_gradX D1D Q1D b g x e c dz dy (qx, 0) =
           (\<Sum>dx<D1D. x ! at5 D1D D1D D1D 3 dx dy dz c e * b ! at2 Q1D qx dx)"
    and "Apply3D_gradX D1D Q1D b g x e c dz dy (qx, 1) =
           (\<Sum>dx<D1D. x ! at5 D1D D1D D1D 3 dx dy dz c e * g ! at2 Q1D qx dx)"
    using assms by (simp_all add: stack_array_apply sum.delta')
qed

lemma Apply3D_gradXY_cells:
  assumes "qy < Q1D" "qx < Q1D"
  shows "Apply3D_gradXY D1D Q1D b g x e c dz (qy, qx, 0) =
           (\<Sum>dy<D1D. Apply3D_gradX D1D Q1D b g x e c dz dy (qx, 1) * b ! at2 Q1D qy dy)"
    and "Apply3D_gradXY D1D Q1D b g x e c dz (qy, qx, 1) =
           (\<Sum>dy<D1D. Apply3D_gradX D1D Q1D b g x e c dz dy (qx, 0) * g ! at2 Q1D qy dy)"
    and "Apply3D_gradXY D1D Q1D b g x e c dz (qy, qx, 2) =
           (\<Sum>dy<D1D. Apply3D_gradX D1D Q1D b g x e c dz dy (qx, 0) * b ! at2 Q1D qy dy)"
proof -
  have clear: "for_loop Q1D (\<lambda>qy. for_loop Q1D (\<lambda>qx gradXY.
            gradXY((qy, qx, 0) := 0, (qy, qx, 1) := 0, (qy, qx, 2) := 0))) stack_array =
               (stack_array :: arr3)"
    by (rule for_loop_stack_array, rule for_loop_stack_array) (simp add: stack_array_upd)
  have eq: "Apply3D_gradXY D1D Q1D b g x e c dz =
     (\<lambda>p. (stack_array :: arr3) p + (\<Sum>dy<D1D. \<Sum>qy<Q1D. \<Sum>qx<Q1D.
        (if p = (qy, qx, 0)
         then Apply3D_gradX D1D Q1D b g x e c dz dy (qx, 1) * b ! at2 Q1D qy dy else 0) +
        (if p = (qy, qx, 1)
         then Apply3D_gradX D1D Q1D b g x e c dz dy (qx, 0) * g ! at2 Q1D qy dy else 0) +
        (if p = (qy, qx, 2)
         then Apply3D_gradX D1D Q1D b g x e c dz dy (qx, 0) * b ! at2 Q1D qy dy else 0)))"
    unfolding Apply3D_gradXY_def Let_def clear
    by (intro fadds_for_loop_eq fadds_for_loop
        fadds_comp [OF fadds_comp [OF fadds_upd fadds_upd] fadds_upd])
  show "Apply3D_gradXY D1D Q1D b g x e c dz (qy, qx, 0) =
           (\<Sum>dy<D1D. Apply3D_gradX D1D Q1D b g x e c dz dy (qx, 1) * b ! at2 Q1D qy dy)"
    using assms by (simp add: eq stack_array_apply sum.delta' sum_delta_conjs del: One_nat_def)
  show "Apply3D_gradXY D1D Q1D b g x e c dz (qy, qx, 1) =
           (\<Sum>dy<D1D. Apply3D_gradX D1D Q1D b g x e c dz dy (qx, 0) * g ! at2 Q1D qy dy)"
    using assms by (simp add: eq stack_array_apply sum.delta' sum_delta_conjs del: One_nat_def)
  show "Apply3D_gradXY D1D Q1D b g x e c dz (qy, qx, 2) =
           (\<Sum>dy<D1D. Apply3D_gradX D1D Q1D b g x e c dz dy (qx, 0) * b ! at2 Q1D qy dy)"
    using assms by (simp add: eq stack_array_apply sum.delta' sum_delta_conjs del: One_nat_def)
qed

lemma Apply3D_grad_cells:
  assumes "qz < Q1D" "qy < Q1D" "qx < Q1D"
  shows "Apply3D_grad D1D Q1D b g x e c grad (qz, qy, qx, 0) =
           grad (qz, qy, qx, 0) + Apply3D_fwd D1D Q1D g b b x e c qz qy qx"
    and "Apply3D_grad D1D Q1D b g x e c grad (qz, qy, qx, 1) =
           grad (qz, qy, qx, 1) + Apply3D_fwd D1D Q1D b g b x e c qz qy qx"
    and "Apply3D_grad D1D Q1D b g x e c grad (qz, qy, qx, 2) =
           grad (qz, qy, qx, 2) + Apply3D_fwd D1D Q1D b b g x e c qz qy qx"
proof -
  have eq: "Apply3D_grad D1D Q1D b g x e c grad =
     (\<lambda>p. grad p + (\<Sum>dz<D1D. \<Sum>qz<Q1D. \<Sum>qy<Q1D. \<Sum>qx<Q1D.
        (if p = (qz, qy, qx, 0)
         then Apply3D_gradXY D1D Q1D b g x e c dz (qy, qx, 0) * b ! at2 Q1D qz dz else 0) +
        (if p = (qz, qy, qx, 1)
         then Apply3D_gradXY D1D Q1D b g x e c dz (qy, qx, 1) * b ! at2 Q1D qz dz else 0) +
        (if p = (qz, qy, qx, 2)
         then Apply3D_gradXY D1D Q1D b g x e c dz (qy, qx, 2) * g ! at2 Q1D qz dz else 0)))"
    unfolding Apply3D_grad_def Let_def
    by (intro fadds_for_loop_eq fadds_for_loop
        fadds_comp [OF fadds_comp [OF fadds_upd fadds_upd] fadds_upd])
  show "Apply3D_grad D1D Q1D b g x e c grad (qz, qy, qx, 0) =
           grad (qz, qy, qx, 0) + Apply3D_fwd D1D Q1D g b b x e c qz qy qx"
    using assms
    by (simp add: eq sum.delta' sum_delta_conjs sum_delta_conjs3 Apply3D_gradXY_cells
        Apply3D_gradX_cells Apply3D_fwd_def del: One_nat_def)
  show "Apply3D_grad D1D Q1D b g x e c grad (qz, qy, qx, 1) =
           grad (qz, qy, qx, 1) + Apply3D_fwd D1D Q1D b g b x e c qz qy qx"
    using assms
    by (simp add: eq sum.delta' sum_delta_conjs sum_delta_conjs3 Apply3D_gradXY_cells
        Apply3D_gradX_cells Apply3D_fwd_def del: One_nat_def)
  show "Apply3D_grad D1D Q1D b g x e c grad (qz, qy, qx, 2) =
           grad (qz, qy, qx, 2) + Apply3D_fwd D1D Q1D b b g x e c qz qy qx"
    using assms
    by (simp add: eq sum.delta' sum_delta_conjs sum_delta_conjs3 Apply3D_gradXY_cells
        Apply3D_gradX_cells Apply3D_fwd_def del: One_nat_def)
qed

lemma Apply3D_grad_clear_stack: "Apply3D_grad_clear Q1D stack_array = stack_array"
  unfolding Apply3D_grad_clear_def Let_def
  by (rule for_loop_stack_array, rule for_loop_stack_array, rule for_loop_stack_array)
     (simp add: stack_array_upd)

lemma Apply3D_pointwise_cells:
  assumes "qz < Q1D" "qy < Q1D" "qx < Q1D"
  shows "Apply3D_pointwise Q1D op e grad (qz, qy, qx, 0) =
           op ! at3 (Q1D * Q1D * Q1D) 6 (qx + (qy + qz * Q1D) * Q1D) 0 e * grad (qz, qy, qx, 0) +
           op ! at3 (Q1D * Q1D * Q1D) 6 (qx + (qy + qz * Q1D) * Q1D) 1 e * grad (qz, qy, qx, 1) +
           op ! at3 (Q1D * Q1D * Q1D) 6 (qx + (qy + qz * Q1D) * Q1D) 2 e * grad (qz, qy, qx, 2)"
    and "Apply3D_pointwise Q1D op e grad (qz, qy, qx, 1) =
           op ! at3 (Q1D * Q1D * Q1D) 6 (qx + (qy + qz * Q1D) * Q1D) 1 e * grad (qz, qy, qx, 0) +
           op ! at3 (Q1D * Q1D * Q1D) 6 (qx + (qy + qz * Q1D) * Q1D) 3 e * grad (qz, qy, qx, 1) +
           op ! at3 (Q1D * Q1D * Q1D) 6 (qx + (qy + qz * Q1D) * Q1D) 4 e * grad (qz, qy, qx, 2)"
    and "Apply3D_pointwise Q1D op e grad (qz, qy, qx, 2) =
           op ! at3 (Q1D * Q1D * Q1D) 6 (qx + (qy + qz * Q1D) * Q1D) 2 e * grad (qz, qy, qx, 0) +
           op ! at3 (Q1D * Q1D * Q1D) 6 (qx + (qy + qz * Q1D) * Q1D) 4 e * grad (qz, qy, qx, 1) +
           op ! at3 (Q1D * Q1D * Q1D) 6 (qx + (qy + qz * Q1D) * Q1D) 5 e * grad (qz, qy, qx, 2)"
proof -
  define q where "q = qx + (qy + qz * Q1D) * Q1D"
  have "(\<lambda>a. (a (qz, qy, qx, 0), a (qz, qy, qx, 1 :: nat), a (qz, qy, qx, 2)))
          (Apply3D_pointwise Q1D op e grad) =
        (\<lambda>(g0, g1, g2).
           (op ! at3 (Q1D * Q1D * Q1D) 6 q 0 e * g0 + op ! at3 (Q1D * Q1D * Q1D) 6 q 1 e * g1 +
            op ! at3 (Q1D * Q1D * Q1D) 6 q 2 e * g2,
            op ! at3 (Q1D * Q1D * Q1D) 6 q 1 e * g0 + op ! at3 (Q1D * Q1D * Q1D) 6 q 3 e * g1 +
            op ! at3 (Q1D * Q1D * Q1D) 6 q 4 e * g2,
            op ! at3 (Q1D * Q1D * Q1D) 6 q 2 e * g0 + op ! at3 (Q1D * Q1D * Q1D) 6 q 4 e * g1 +
            op ! at3 (Q1D * Q1D * Q1D) 6 q 5 e * g2))
          ((\<lambda>a. (a (qz, qy, qx, 0), a (qz, qy, qx, 1 :: nat), a (qz, qy, qx, 2))) grad)"
    unfolding Apply3D_pointwise_def Let_def
    by (rule for_loop3_obs_once [where i = qz and j = qy and l = qx
          and obs = "\<lambda>a. (a (qz, qy, qx, 0), a (qz, qy, qx, 1 :: nat), a (qz, qy, qx, 2))"
          and h = "\<lambda>(g0, g1, g2).
           (op ! at3 (Q1D * Q1D * Q1D) 6 q 0 e * g0 + op ! at3 (Q1D * Q1D * Q1D) 6 q 1 e * g1 +
            op ! at3 (Q1D * Q1D * Q1D) 6 q 2 e * g2,
            op ! at3 (Q1D * Q1D * Q1D) 6 q 1 e * g0 + op ! at3 (Q1D * Q1D * Q1D) 6 q 3 e * g1 +
            op ! at3 (Q1D * Q1D * Q1D) 6 q 4 e * g2,
            op ! at3 (Q1D * Q1D * Q1D) 6 q 2 e * g0 + op ! at3 (Q1D * Q1D * Q1D) 6 q 4 e * g1 +
            op ! at3 (Q1D * Q1D * Q1D) 6 q 5 e * g2)"])
      (use assms in \<open>auto simp: q_def\<close>)
  then show "Apply3D_pointwise Q1D op e grad (qz, qy, qx, 0) =
           op ! at3 (Q1D * Q1D * Q1D) 6 (qx + (qy + qz * Q1D) * Q1D) 0 e * grad (qz, qy, qx, 0) +
           op ! at3 (Q1D * Q1D * Q1D) 6 (qx + (qy + qz * Q1D) * Q1D) 1 e * grad (qz, qy, qx, 1) +
           op ! at3 (Q1D * Q1D * Q1D) 6 (qx + (qy + qz * Q1D) * Q1D) 2 e * grad (qz, qy, qx, 2)"
    and "Apply3D_pointwise Q1D op e grad (qz, qy, qx, 1) =
           op ! at3 (Q1D * Q1D * Q1D) 6 (qx + (qy + qz * Q1D) * Q1D) 1 e * grad (qz, qy, qx, 0) +
           op ! at3 (Q1D * Q1D * Q1D) 6 (qx + (qy + qz * Q1D) * Q1D) 3 e * grad (qz, qy, qx, 1) +
           op ! at3 (Q1D * Q1D * Q1D) 6 (qx + (qy + qz * Q1D) * Q1D) 4 e * grad (qz, qy, qx, 2)"
    and "Apply3D_pointwise Q1D op e grad (qz, qy, qx, 2) =
           op ! at3 (Q1D * Q1D * Q1D) 6 (qx + (qy + qz * Q1D) * Q1D) 2 e * grad (qz, qy, qx, 0) +
           op ! at3 (Q1D * Q1D * Q1D) 6 (qx + (qy + qz * Q1D) * Q1D) 4 e * grad (qz, qy, qx, 1) +
           op ! at3 (Q1D * Q1D * Q1D) 6 (qx + (qy + qz * Q1D) * Q1D) 5 e * grad (qz, qy, qx, 2)"
    by (simp_all add: q_def)
qed

lemma Apply3D_flux_cells:
  assumes "qz < Q1D" "qy < Q1D" "qx < Q1D"
  shows "Apply3D_pointwise Q1D op e
           (Apply3D_grad D1D Q1D b g x e c (Apply3D_grad_clear Q1D stack_array)) (qz, qy, qx, 0) =
         Apply3D_flux0 D1D Q1D b g op x e c qz qy qx"
    and "Apply3D_pointwise Q1D op e
           (Apply3D_grad D1D Q1D b g x e c (Apply3D_grad_clear Q1D stack_array)) (qz, qy, qx, 1) =
         Apply3D_flux1 D1D Q1D b g op x e c qz qy qx"
    and "Apply3D_pointwise Q1D op e
           (Apply3D_grad D1D Q1D b g x e c (Apply3D_grad_clear Q1D stack_array)) (qz, qy, qx, 2) =
         Apply3D_flux2 D1D Q1D b g op x e c qz qy qx"
  using assms
  by (simp_all add: Apply3D_pointwise_cells Apply3D_grad_cells Apply3D_grad_clear_stack
      stack_array_apply Apply3D_flux0_def Apply3D_flux1_def Apply3D_flux2_def del: One_nat_def)

lemma at5_eq_iff:
  "i < n \<Longrightarrow> i' < n \<Longrightarrow> k < m \<Longrightarrow> k' < m \<Longrightarrow> l < p \<Longrightarrow> l' < p \<Longrightarrow> c < v \<Longrightarrow> c' < v \<Longrightarrow>
   at5 n m p v i k l c r = at5 n m p v i' k' l' c' r' \<longleftrightarrow>
   i = i' \<and> k = k' \<and> l = l' \<and> c = c' \<and> r = r'"
  using at2_eq_iff [of i n i' "at4 m p v k l c r" "at4 m p v k' l' c' r'"]
    at4_eq_iff [of k m k' l p l' c v c' r r']
  by (simp add: at5_def at4_def at2_def)

lemma at5_less:
  "i < n \<Longrightarrow> k < m \<Longrightarrow> l < p \<Longrightarrow> c < v \<Longrightarrow> r < N \<Longrightarrow>
   at5 n m p v i k l c r < n * m * p * v * N"
  using at2_less [of i n "at4 m p v k l c r" "m * p * v * N"] at4_less [of k m l p c v r N]
  by (simp add: at5_def at4_def at2_def mult.assoc)

lemma at5_decode:
  assumes "i < n * m * p * v * N"
  obtains a b l c r where "a < n" "b < m" "l < p" "c < v" "r < N" "i = at5 n m p v a b l c r"
proof -
  from assms have n: "0 < n" by (auto intro: Nat.gr0I)
  define r1 where "r1 = i div n"
  have "i < n * (m * p * v * N)" using assms by (simp add: mult.assoc)
  then have "r1 < m * p * v * N" unfolding r1_def by (rule div_less_of_less_mult)
  then obtain b l c r where *: "b < m" "l < p" "c < v" "r < N" "r1 = at4 m p v b l c r"
    by (rule at4_decode)
  have "i = i mod n + n * r1" by (simp add: r1_def)
  with * have "i = at5 n m p v (i mod n) b l c r" by (simp add: at5_def at4_def)
  moreover have "i mod n < n" using n by simp
  ultimately show ?thesis using * that by blast
qed

lemma sum_delta_conjs4:
  "finite S \<Longrightarrow> (\<Sum>i\<in>S. if a = i \<and> P then t i else (0::real)) = (if P \<and> a \<in> S then t a else 0)"
  by (cases P; simp add: sum.delta sum.delta')

lemma scatter5_at:
  assumes "dx < D1D" "dy < D1D" "dz < D1D" "c < VDIM" "e < NE"
  shows "scatter5 D1D VDIM NE val (at5 D1D D1D D1D VDIM dx dy dz c e) = val e c dx dy dz"
proof -
  have "scatter5 D1D VDIM NE val (at5 D1D D1D D1D VDIM dx dy dz c e) =
        (\<Sum>e'<NE. \<Sum>c'<VDIM. \<Sum>dz'<D1D. \<Sum>dy'<D1D. \<Sum>dx'<D1D.
           if dx = dx' \<and> dy = dy' \<and> dz = dz' \<and> c = c' \<and> e = e' then val e' c' dx' dy' dz' else 0)"
    unfolding scatter5_def
    by (intro sum.cong refl) (use assms in \<open>simp add: at5_eq_iff\<close>)
  also have "\<dots> = val e c dx dy dz"
    using assms by (simp add: sum_delta_conjs sum.delta')
  finally show ?thesis .
qed

lemma scatter5_dot:
  "(\<Sum>k<D1D * D1D * D1D * VDIM * NE. scatter5 D1D VDIM NE val k * w k) =
   (\<Sum>e<NE. \<Sum>c<VDIM. \<Sum>dz<D1D. \<Sum>dy<D1D. \<Sum>dx<D1D.
      val e c dx dy dz * w (at5 D1D D1D D1D VDIM dx dy dz c e))"
proof -
  have "(\<Sum>k<D1D * D1D * D1D * VDIM * NE. scatter5 D1D VDIM NE val k * w k) =
        (\<Sum>e<NE. \<Sum>c<VDIM. \<Sum>dz<D1D. \<Sum>dy<D1D. \<Sum>dx<D1D.
           if at5 D1D D1D D1D VDIM dx dy dz c e \<in> {..<D1D * D1D * D1D * VDIM * NE}
           then val e c dx dy dz * w (at5 D1D D1D D1D VDIM dx dy dz c e) else 0)"
    unfolding scatter5_def by (simp only: pair_sum pair_delta finite_lessThan)
  also have "\<dots> = (\<Sum>e<NE. \<Sum>c<VDIM. \<Sum>dz<D1D. \<Sum>dy<D1D. \<Sum>dx<D1D.
                       val e c dx dy dz * w (at5 D1D D1D D1D VDIM dx dy dz c e))"
    by (intro sum.cong refl) (simp add: at5_less)
  finally show ?thesis .
qed

lemma Apply3D_gradX_back_cells:
  assumes "dx < D1D"
  shows "Apply3D_gradX_back D1D Q1D bt gt grad qz qy (dx, 0) =
           (\<Sum>qx<Q1D. grad (qz, qy, qx, 0) * gt ! at2 D1D dx qx)"
    and "Apply3D_gradX_back D1D Q1D bt gt grad qz qy (dx, 1) =
           (\<Sum>qx<Q1D. grad (qz, qy, qx, 1) * bt ! at2 D1D dx qx)"
    and "Apply3D_gradX_back D1D Q1D bt gt grad qz qy (dx, 2) =
           (\<Sum>qx<Q1D. grad (qz, qy, qx, 2) * bt ! at2 D1D dx qx)"
proof -
  have clear: "for_loop D1D (\<lambda>dx gradX. gradX((dx, 0) := 0, (dx, 1) := 0, (dx, 2) := 0))
                 stack_array = (stack_array :: arr2)"
    by (rule for_loop_stack_array) (simp add: stack_array_upd)
  have "Apply3D_gradX_back D1D Q1D bt gt grad qz qy =
     (\<lambda>p. (stack_array :: arr2) p + (\<Sum>qx<Q1D. \<Sum>dx<D1D.
        (if p = (dx, 0) then grad (qz, qy, qx, 0) * gt ! at2 D1D dx qx else 0) +
        (if p = (dx, 1) then grad (qz, qy, qx, 1) * bt ! at2 D1D dx qx else 0) +
        (if p = (dx, 2) then grad (qz, qy, qx, 2) * bt ! at2 D1D dx qx else 0)))"
    unfolding Apply3D_gradX_back_def Let_def clear
    by (intro fadds_for_loop_eq fadds_for_loop
        fadds_comp [OF fadds_comp [OF fadds_upd fadds_upd] fadds_upd])
  then show "Apply3D_gradX_back D1D Q1D bt gt grad qz qy (dx, 0) =
           (\<Sum>qx<Q1D. grad (qz, qy, qx, 0) * gt ! at2 D1D dx qx)"
    and "Apply3D_gradX_back D1D Q1D bt gt grad qz qy (dx, 1) =
           (\<Sum>qx<Q1D. grad (qz, qy, qx, 1) * bt ! at2 D1D dx qx)"
    and "Apply3D_gradX_back D1D Q1D bt gt grad qz qy (dx, 2) =
           (\<Sum>qx<Q1D. grad (qz, qy, qx, 2) * bt ! at2 D1D dx qx)"
    using assms by (simp_all add: stack_array_apply sum.delta')
qed

lemma Apply3D_gradXY_back_cells:
  assumes "dy < D1D" "dx < D1D"
  shows "Apply3D_gradXY_back D1D Q1D bt gt grad qz (dy, dx, 0) =
           (\<Sum>qy<Q1D. Apply3D_gradX_back D1D Q1D bt gt grad qz qy (dx, 0) * bt ! at2 D1D dy qy)"
    and "Apply3D_gradXY_back D1D Q1D bt gt grad qz (dy, dx, 1) =
           (\<Sum>qy<Q1D. Apply3D_gradX_back D1D Q1D bt gt grad qz qy (dx, 1) * gt ! at2 D1D dy qy)"
    and "Apply3D_gradXY_back D1D Q1D bt gt grad qz (dy, dx, 2) =
           (\<Sum>qy<Q1D. Apply3D_gradX_back D1D Q1D bt gt grad qz qy (dx, 2) * bt ! at2 D1D dy qy)"
proof -
  have clear: "for_loop D1D (\<lambda>dy. for_loop D1D (\<lambda>dx gradXY.
            gradXY((dy, dx, 0) := 0, (dy, dx, 1) := 0, (dy, dx, 2) := 0))) stack_array =
               (stack_array :: arr3)"
    by (rule for_loop_stack_array, rule for_loop_stack_array) (simp add: stack_array_upd)
  have eq: "Apply3D_gradXY_back D1D Q1D bt gt grad qz =
     (\<lambda>p. (stack_array :: arr3) p + (\<Sum>qy<Q1D. \<Sum>dy<D1D. \<Sum>dx<D1D.
        (if p = (dy, dx, 0)
         then Apply3D_gradX_back D1D Q1D bt gt grad qz qy (dx, 0) * bt ! at2 D1D dy qy else 0) +
        (if p = (dy, dx, 1)
         then Apply3D_gradX_back D1D Q1D bt gt grad qz qy (dx, 1) * gt ! at2 D1D dy qy else 0) +
        (if p = (dy, dx, 2)
         then Apply3D_gradX_back D1D Q1D bt gt grad qz qy (dx, 2) * bt ! at2 D1D dy qy else 0)))"
    unfolding Apply3D_gradXY_back_def Let_def clear
    by (intro fadds_for_loop_eq fadds_for_loop
        fadds_comp [OF fadds_comp [OF fadds_upd fadds_upd] fadds_upd])
  show "Apply3D_gradXY_back D1D Q1D bt gt grad qz (dy, dx, 0) =
           (\<Sum>qy<Q1D. Apply3D_gradX_back D1D Q1D bt gt grad qz qy (dx, 0) * bt ! at2 D1D dy qy)"
    using assms by (simp add: eq stack_array_apply sum.delta' sum_delta_conjs del: One_nat_def)
  show "Apply3D_gradXY_back D1D Q1D bt gt grad qz (dy, dx, 1) =
           (\<Sum>qy<Q1D. Apply3D_gradX_back D1D Q1D bt gt grad qz qy (dx, 1) * gt ! at2 D1D dy qy)"
    using assms by (simp add: eq stack_array_apply sum.delta' sum_delta_conjs del: One_nat_def)
  show "Apply3D_gradXY_back D1D Q1D bt gt grad qz (dy, dx, 2) =
           (\<Sum>qy<Q1D. Apply3D_gradX_back D1D Q1D bt gt grad qz qy (dx, 2) * bt ! at2 D1D dy qy)"
    using assms by (simp add: eq stack_array_apply sum.delta' sum_delta_conjs del: One_nat_def)
qed

lemma Apply3D_y_adds:
  "adds_to (Apply3D_y D1D Q1D bt gt grad e c)
     (\<lambda>k. \<Sum>qz<Q1D. \<Sum>dz<D1D. \<Sum>dy<D1D. \<Sum>dx<D1D.
        if k = at5 D1D D1D D1D 3 dx dy dz c e
        then Apply3D_gradXY_back D1D Q1D bt gt grad qz (dy, dx, 0) * bt ! at2 D1D dz qz +
             Apply3D_gradXY_back D1D Q1D bt gt grad qz (dy, dx, 1) * bt ! at2 D1D dz qz +
             Apply3D_gradXY_back D1D Q1D bt gt grad qz (dy, dx, 2) * gt ! at2 D1D dz qz
        else 0)"
  unfolding Apply3D_y_def Let_def
  by (rule adds_to_for_loop, rule adds_to_for_loop, rule adds_to_for_loop, rule adds_to_for_loop,
      rule adds_to_update)

lemma Apply3D_component_adds:
  "adds_to (Apply3D_y D1D Q1D bt gt
       (Apply3D_pointwise Q1D op e
         (Apply3D_grad D1D Q1D b g x e c (Apply3D_grad_clear Q1D stack_array))) e c)
     (\<lambda>k. \<Sum>dz<D1D. \<Sum>dy<D1D. \<Sum>dx<D1D.
        if k = at5 D1D D1D D1D 3 dx dy dz c e
        then Apply3D_value D1D Q1D b g bt gt op x e c dx dy dz else 0)"
proof (rule adds_to_cong [OF Apply3D_y_adds])
  fix k
  define G3 where "G3 = Apply3D_pointwise Q1D op e
         (Apply3D_grad D1D Q1D b g x e c (Apply3D_grad_clear Q1D stack_array))"
  have cells: "G3 (qz, qy, qx, 0) = Apply3D_flux0 D1D Q1D b g op x e c qz qy qx"
    "G3 (qz, qy, qx, 1) = Apply3D_flux1 D1D Q1D b g op x e c qz qy qx"
    "G3 (qz, qy, qx, 2) = Apply3D_flux2 D1D Q1D b g op x e c qz qy qx"
    if "qz < Q1D" "qy < Q1D" "qx < Q1D" for qz qy qx
    using that unfolding G3_def by (rule Apply3D_flux_cells)+
  have "(\<Sum>qz<Q1D. \<Sum>dz<D1D. \<Sum>dy<D1D. \<Sum>dx<D1D.
        if k = at5 D1D D1D D1D 3 dx dy dz c e
        then Apply3D_gradXY_back D1D Q1D bt gt G3 qz (dy, dx, 0) * bt ! at2 D1D dz qz +
             Apply3D_gradXY_back D1D Q1D bt gt G3 qz (dy, dx, 1) * bt ! at2 D1D dz qz +
             Apply3D_gradXY_back D1D Q1D bt gt G3 qz (dy, dx, 2) * gt ! at2 D1D dz qz
        else 0) =
     (\<Sum>dz<D1D. \<Sum>dy<D1D. \<Sum>dx<D1D. if k = at5 D1D D1D D1D 3 dx dy dz c e
        then (\<Sum>qz<Q1D.
             Apply3D_gradXY_back D1D Q1D bt gt G3 qz (dy, dx, 0) * bt ! at2 D1D dz qz +
             Apply3D_gradXY_back D1D Q1D bt gt G3 qz (dy, dx, 1) * bt ! at2 D1D dz qz +
             Apply3D_gradXY_back D1D Q1D bt gt G3 qz (dy, dx, 2) * gt ! at2 D1D dz qz) else 0)"
    by (rule sum_scatter_swap3)
  also have "\<dots> = (\<Sum>dz<D1D. \<Sum>dy<D1D. \<Sum>dx<D1D.
        if k = at5 D1D D1D D1D 3 dx dy dz c e
        then Apply3D_value D1D Q1D b g bt gt op x e c dx dy dz else 0)"
    unfolding Apply3D_value_def
    by (intro sum.cong refl if_cong)
      (simp_all add: Apply3D_gradXY_back_cells Apply3D_gradX_back_cells cells del: One_nat_def)
  finally show "(\<Sum>qz<Q1D. \<Sum>dz<D1D. \<Sum>dy<D1D. \<Sum>dx<D1D.
        if k = at5 D1D D1D D1D 3 dx dy dz c e
        then Apply3D_gradXY_back D1D Q1D bt gt
               (Apply3D_pointwise Q1D op e
                 (Apply3D_grad D1D Q1D b g x e c (Apply3D_grad_clear Q1D stack_array))) qz (dy, dx, 0) *
             bt ! at2 D1D dz qz +
             Apply3D_gradXY_back D1D Q1D bt gt
               (Apply3D_pointwise Q1D op e
                 (Apply3D_grad D1D Q1D b g x e c (Apply3D_grad_clear Q1D stack_array))) qz (dy, dx, 1) *
             bt ! at2 D1D dz qz +
             Apply3D_gradXY_back D1D Q1D bt gt
               (Apply3D_pointwise Q1D op e
                 (Apply3D_grad D1D Q1D b g x e c (Apply3D_grad_clear Q1D stack_array))) qz (dy, dx, 2) *
             gt ! at2 D1D dz qz
        else 0) =
     (\<Sum>dz<D1D. \<Sum>dy<D1D. \<Sum>dx<D1D.
        if k = at5 D1D D1D D1D 3 dx dy dz c e
        then Apply3D_value D1D Q1D b g bt gt op x e c dx dy dz else 0)"
    unfolding G3_def .
qed

lemma Apply3D_element_adds:
  "adds_to (PAVectorDiffusionApply3D_element D1D Q1D b g bt gt op x e)
     (\<lambda>k. \<Sum>c<3. \<Sum>dz<D1D. \<Sum>dy<D1D. \<Sum>dx<D1D.
        if k = at5 D1D D1D D1D 3 dx dy dz c e
        then Apply3D_value D1D Q1D b g bt gt op x e c dx dy dz else 0)"
  unfolding PAVectorDiffusionApply3D_element_def Let_def
  by (rule adds_to_for_loop, rule Apply3D_component_adds)

lemma Apply3D_kernel_adds:
  "adds_to (mfem_forall NE (PAVectorDiffusionApply3D_element D1D Q1D b g bt gt op x))
     (scatter5 D1D 3 NE (Apply3D_value D1D Q1D b g bt gt op x))"
  unfolding mfem_forall_def scatter5_def
  by (rule adds_to_for_loop, rule Apply3D_element_adds)

lemma sum_swap31:
  "(\<Sum>a\<in>A. \<Sum>b\<in>B. \<Sum>c\<in>C. \<Sum>d\<in>D. f a b c d) =
   (\<Sum>d\<in>D. \<Sum>a\<in>A. \<Sum>b\<in>B. \<Sum>c\<in>C. (f a b c d :: real))"
proof -
  have "(\<Sum>a\<in>A. \<Sum>b\<in>B. \<Sum>c\<in>C. \<Sum>d\<in>D. f a b c d) =
        (\<Sum>a\<in>A. \<Sum>b\<in>B. \<Sum>d\<in>D. \<Sum>c\<in>C. f a b c d)"
    by (rule sum.cong [OF refl], rule sum.cong [OF refl]) (rule sum.swap)
  also have "\<dots> = (\<Sum>a\<in>A. \<Sum>d\<in>D. \<Sum>b\<in>B. \<Sum>c\<in>C. f a b c d)"
    by (rule sum.cong [OF refl]) (rule sum.swap)
  also have "\<dots> = (\<Sum>d\<in>D. \<Sum>a\<in>A. \<Sum>b\<in>B. \<Sum>c\<in>C. f a b c d)"
    by (rule sum.swap)
  finally show ?thesis .
qed

lemma sum_swap33:
  "(\<Sum>a\<in>A. \<Sum>b\<in>B. \<Sum>c\<in>C. \<Sum>d\<in>D. \<Sum>e\<in>E. \<Sum>k\<in>K. f a b c d e k) =
   (\<Sum>d\<in>D. \<Sum>e\<in>E. \<Sum>k\<in>K. \<Sum>a\<in>A. \<Sum>b\<in>B. \<Sum>c\<in>C. (f a b c d e k :: real))"
proof -
  have "(\<Sum>a\<in>A. \<Sum>b\<in>B. \<Sum>c\<in>C. \<Sum>d\<in>D. \<Sum>e\<in>E. \<Sum>k\<in>K. f a b c d e k) =
        (\<Sum>d\<in>D. \<Sum>a\<in>A. \<Sum>b\<in>B. \<Sum>c\<in>C. \<Sum>e\<in>E. \<Sum>k\<in>K. f a b c d e k)"
    by (rule sum_swap31)
  also have "\<dots> = (\<Sum>d\<in>D. \<Sum>e\<in>E. \<Sum>a\<in>A. \<Sum>b\<in>B. \<Sum>c\<in>C. \<Sum>k\<in>K. f a b c d e k)"
    by (rule sum.cong [OF refl]) (rule sum_swap31)
  also have "\<dots> = (\<Sum>d\<in>D. \<Sum>e\<in>E. \<Sum>k\<in>K. \<Sum>a\<in>A. \<Sum>b\<in>B. \<Sum>c\<in>C. f a b c d e k)"
    by (rule sum.cong [OF refl], rule sum.cong [OF refl]) (rule sum_swap31)
  finally show ?thesis .
qed

lemma Apply3D_contract:
  "(\<Sum>dz<D1D. \<Sum>dy<D1D. \<Sum>dx<D1D.
      Apply3D_bwd Q1D tx ty tz F dx dy dz * w ! at5 D1D D1D D1D 3 dx dy dz c e) =
   (\<Sum>qz<Q1D. \<Sum>qy<Q1D. \<Sum>qx<Q1D. F qz qy qx * Apply3D_fwd D1D Q1D tx ty tz w e c qz qy qx)"
proof -
  define W where "W dx dy dz = w ! at5 D1D D1D D1D 3 dx dy dz c e" for dx dy dz
  define X where "X qx dx = tx ! at2 Q1D qx dx" for qx dx
  define Y where "Y qy dy = ty ! at2 Q1D qy dy" for qy dy
  define Z where "Z qz dz = tz ! at2 Q1D qz dz" for qz dz
  have "(\<Sum>dz<D1D. \<Sum>dy<D1D. \<Sum>dx<D1D.
          (\<Sum>qz<Q1D. (\<Sum>qy<Q1D. (\<Sum>qx<Q1D. F qz qy qx * X qx dx) * Y qy dy) * Z qz dz) *
          W dx dy dz) =
        (\<Sum>dz<D1D. \<Sum>dy<D1D. \<Sum>dx<D1D. \<Sum>qz<Q1D. \<Sum>qy<Q1D. \<Sum>qx<Q1D.
           F qz qy qx * X qx dx * Y qy dy * Z qz dz * W dx dy dz)"
    by (simp only: sum_distrib_right)
  also have "\<dots> = (\<Sum>qz<Q1D. \<Sum>qy<Q1D. \<Sum>qx<Q1D. \<Sum>dz<D1D. \<Sum>dy<D1D. \<Sum>dx<D1D.
           F qz qy qx * X qx dx * Y qy dy * Z qz dz * W dx dy dz)"
    by (rule sum_swap33)
  also have "\<dots> = (\<Sum>qz<Q1D. \<Sum>qy<Q1D. \<Sum>qx<Q1D.
      F qz qy qx * (\<Sum>dz<D1D. (\<Sum>dy<D1D. (\<Sum>dx<D1D. W dx dy dz * X qx dx) * Y qy dy) * Z qz dz))"
  proof (rule sum.cong [OF refl], rule sum.cong [OF refl], rule sum.cong [OF refl])
    fix qz qy qx
    have "F qz qy qx * (\<Sum>dz<D1D. (\<Sum>dy<D1D. (\<Sum>dx<D1D. W dx dy dz * X qx dx) * Y qy dy) * Z qz dz) =
          (\<Sum>dz<D1D. \<Sum>dy<D1D. \<Sum>dx<D1D. F qz qy qx * (W dx dy dz * X qx dx * Y qy dy * Z qz dz))"
      by (simp only: sum_distrib_right sum_distrib_left)
    also have "\<dots> = (\<Sum>dz<D1D. \<Sum>dy<D1D. \<Sum>dx<D1D.
           F qz qy qx * X qx dx * Y qy dy * Z qz dz * W dx dy dz)"
      by (rule sum.cong [OF refl], rule sum.cong [OF refl], rule sum.cong [OF refl])
         (simp add: mult_ac)
    finally show "(\<Sum>dz<D1D. \<Sum>dy<D1D. \<Sum>dx<D1D.
           F qz qy qx * X qx dx * Y qy dy * Z qz dz * W dx dy dz) =
        F qz qy qx * (\<Sum>dz<D1D. (\<Sum>dy<D1D. (\<Sum>dx<D1D. W dx dy dz * X qx dx) * Y qy dy) * Z qz dz)"
      by (rule sym)
  qed
  finally show ?thesis
    unfolding Apply3D_bwd_def Apply3D_fwd_def W_def X_def Y_def Z_def .
qed

lemma Apply3D_value_bwd:
  assumes bt: "\<And>dd q. dd < D1D \<Longrightarrow> q < Q1D \<Longrightarrow> bt ! at2 D1D dd q = b ! at2 Q1D q dd"
    and gt: "\<And>dd q. dd < D1D \<Longrightarrow> q < Q1D \<Longrightarrow> gt ! at2 D1D dd q = g ! at2 Q1D q dd"
    and d: "dx < D1D" "dy < D1D" "dz < D1D"
  shows "Apply3D_value D1D Q1D b g bt gt op x e c dx dy dz =
         Apply3D_bwd Q1D g b b (Apply3D_flux0 D1D Q1D b g op x e c) dx dy dz +
         Apply3D_bwd Q1D b g b (Apply3D_flux1 D1D Q1D b g op x e c) dx dy dz +
         Apply3D_bwd Q1D b b g (Apply3D_flux2 D1D Q1D b g op x e c) dx dy dz"
proof -
  have "Apply3D_value D1D Q1D b g bt gt op x e c dx dy dz =
     (\<Sum>qz<Q1D.
        (\<Sum>qy<Q1D.
           (\<Sum>qx<Q1D. Apply3D_flux0 D1D Q1D b g op x e c qz qy qx * g ! at2 Q1D qx dx) *
           b ! at2 Q1D qy dy) * b ! at2 Q1D qz dz +
        (\<Sum>qy<Q1D.
           (\<Sum>qx<Q1D. Apply3D_flux1 D1D Q1D b g op x e c qz qy qx * b ! at2 Q1D qx dx) *
           g ! at2 Q1D qy dy) * b ! at2 Q1D qz dz +
        (\<Sum>qy<Q1D.
           (\<Sum>qx<Q1D. Apply3D_flux2 D1D Q1D b g op x e c qz qy qx * b ! at2 Q1D qx dx) *
           b ! at2 Q1D qy dy) * g ! at2 Q1D qz dz)"
    unfolding Apply3D_value_def
    by (intro sum.cong refl arg_cong2 [where f = "(+)"] arg_cong2 [where f = "(*)"])
      (use d in \<open>simp_all add: bt gt\<close>)
  then show ?thesis
    unfolding Apply3D_bwd_def by (simp only: sum.distrib)
qed

lemma Apply3D_dual:
  assumes bt: "\<And>dd q. dd < D1D \<Longrightarrow> q < Q1D \<Longrightarrow> bt ! at2 D1D dd q = b ! at2 Q1D q dd"
    and gt: "\<And>dd q. dd < D1D \<Longrightarrow> q < Q1D \<Longrightarrow> gt ! at2 D1D dd q = g ! at2 Q1D q dd"
  shows "(\<Sum>dz<D1D. \<Sum>dy<D1D. \<Sum>dx<D1D. Apply3D_value D1D Q1D b g bt gt op x e c dx dy dz *
            w ! at5 D1D D1D D1D 3 dx dy dz c e) =
         (\<Sum>qz<Q1D. \<Sum>qy<Q1D. \<Sum>qx<Q1D.
            Apply3D_flux0 D1D Q1D b g op x e c qz qy qx * Apply3D_fwd D1D Q1D g b b w e c qz qy qx +
            Apply3D_flux1 D1D Q1D b g op x e c qz qy qx * Apply3D_fwd D1D Q1D b g b w e c qz qy qx +
            Apply3D_flux2 D1D Q1D b g op x e c qz qy qx * Apply3D_fwd D1D Q1D b b g w e c qz qy qx)"
proof -
  have "(\<Sum>dz<D1D. \<Sum>dy<D1D. \<Sum>dx<D1D. Apply3D_value D1D Q1D b g bt gt op x e c dx dy dz *
            w ! at5 D1D D1D D1D 3 dx dy dz c e) =
        (\<Sum>dz<D1D. \<Sum>dy<D1D. \<Sum>dx<D1D.
           Apply3D_bwd Q1D g b b (Apply3D_flux0 D1D Q1D b g op x e c) dx dy dz *
             w ! at5 D1D D1D D1D 3 dx dy dz c e +
           Apply3D_bwd Q1D b g b (Apply3D_flux1 D1D Q1D b g op x e c) dx dy dz *
             w ! at5 D1D D1D D1D 3 dx dy dz c e +
           Apply3D_bwd Q1D b b g (Apply3D_flux2 D1D Q1D b g op x e c) dx dy dz *
             w ! at5 D1D D1D D1D 3 dx dy dz c e)"
    by (rule sum.cong [OF refl], rule sum.cong [OF refl], rule sum.cong [OF refl])
       (simp add: Apply3D_value_bwd [OF bt gt] distrib_right)
  also have "\<dots> =
     (\<Sum>qz<Q1D. \<Sum>qy<Q1D. \<Sum>qx<Q1D.
        Apply3D_flux0 D1D Q1D b g op x e c qz qy qx * Apply3D_fwd D1D Q1D g b b w e c qz qy qx) +
     (\<Sum>qz<Q1D. \<Sum>qy<Q1D. \<Sum>qx<Q1D.
        Apply3D_flux1 D1D Q1D b g op x e c qz qy qx * Apply3D_fwd D1D Q1D b g b w e c qz qy qx) +
     (\<Sum>qz<Q1D. \<Sum>qy<Q1D. \<Sum>qx<Q1D.
        Apply3D_flux2 D1D Q1D b g op x e c qz qy qx * Apply3D_fwd D1D Q1D b b g w e c qz qy qx)"
    by (simp only: sum.distrib Apply3D_contract)
  finally show ?thesis by (simp only: sum.distrib)
qed

lemma Apply3D_form_sym:
  "Apply3D_flux0 D1D Q1D b g op x e c qz qy qx * Apply3D_fwd D1D Q1D g b b w e c qz qy qx +
   Apply3D_flux1 D1D Q1D b g op x e c qz qy qx * Apply3D_fwd D1D Q1D b g b w e c qz qy qx +
   Apply3D_flux2 D1D Q1D b g op x e c qz qy qx * Apply3D_fwd D1D Q1D b b g w e c qz qy qx =
   Apply3D_flux0 D1D Q1D b g op w e c qz qy qx * Apply3D_fwd D1D Q1D g b b x e c qz qy qx +
   Apply3D_flux1 D1D Q1D b g op w e c qz qy qx * Apply3D_fwd D1D Q1D b g b x e c qz qy qx +
   Apply3D_flux2 D1D Q1D b g op w e c qz qy qx * Apply3D_fwd D1D Q1D b b g x e c qz qy qx"
  by (simp add: Apply3D_flux0_def Apply3D_flux1_def Apply3D_flux2_def algebra_simps)

lemma Apply3D_symmetric:
  assumes bt: "\<And>dd q. dd < D1D \<Longrightarrow> q < Q1D \<Longrightarrow> bt ! at2 D1D dd q = b ! at2 Q1D q dd"
    and gt: "\<And>dd q. dd < D1D \<Longrightarrow> q < Q1D \<Longrightarrow> gt ! at2 D1D dd q = g ! at2 Q1D q dd"
    and len: "length x = D1D * D1D * D1D * 3 * NE" "length y = D1D * D1D * D1D * 3 * NE"
  shows "dot (mfem_forall NE (PAVectorDiffusionApply3D_element D1D Q1D b g bt gt op x)
                (replicate (D1D * D1D * D1D * 3 * NE) 0)) y =
         dot x (mfem_forall NE (PAVectorDiffusionApply3D_element D1D Q1D b g bt gt op y)
                (replicate (D1D * D1D * D1D * 3 * NE) 0))"
proof -
  define N where "N = D1D * D1D * D1D * 3 * NE"
  have l: "length (mfem_forall NE (PAVectorDiffusionApply3D_element D1D Q1D b g bt gt op v)
               (replicate N 0)) = N" for v
    by (simp add: adds_to_length [OF Apply3D_kernel_adds])
  have app: "mfem_forall NE (PAVectorDiffusionApply3D_element D1D Q1D b g bt gt op v)
               (replicate N 0) ! k =
             scatter5 D1D 3 NE (Apply3D_value D1D Q1D b g bt gt op v) k" if "k < N" for v k
    using adds_to_nth [OF Apply3D_kernel_adds, of k "replicate N 0"] that by simp
  have form: "(\<Sum>k<N. scatter5 D1D 3 NE (Apply3D_value D1D Q1D b g bt gt op v) k * u ! k) =
      (\<Sum>e<NE. \<Sum>c<3. \<Sum>qz<Q1D. \<Sum>qy<Q1D. \<Sum>qx<Q1D.
         Apply3D_flux0 D1D Q1D b g op v e c qz qy qx * Apply3D_fwd D1D Q1D g b b u e c qz qy qx +
         Apply3D_flux1 D1D Q1D b g op v e c qz qy qx * Apply3D_fwd D1D Q1D b g b u e c qz qy qx +
         Apply3D_flux2 D1D Q1D b g op v e c qz qy qx * Apply3D_fwd D1D Q1D b b g u e c qz qy qx)"
    for u v
    unfolding N_def scatter5_dot
    by (rule sum.cong [OF refl], rule sum.cong [OF refl], rule Apply3D_dual [OF bt gt])
  have "dot (mfem_forall NE (PAVectorDiffusionApply3D_element D1D Q1D b g bt gt op x)
              (replicate N 0)) y =
        (\<Sum>k<N. scatter5 D1D 3 NE (Apply3D_value D1D Q1D b g bt gt op x) k * y ! k)"
    unfolding dot_def l by (rule sum.cong) (simp_all add: app)
  also have "\<dots> = (\<Sum>k<N. scatter5 D1D 3 NE (Apply3D_value D1D Q1D b g bt gt op y) k * x ! k)"
    unfolding form
    by (rule sum.cong [OF refl], rule sum.cong [OF refl], rule sum.cong [OF refl],
        rule sum.cong [OF refl], rule sum.cong [OF refl], rule Apply3D_form_sym)
  also have "\<dots> = dot x (mfem_forall NE (PAVectorDiffusionApply3D_element D1D Q1D b g bt gt op y)
              (replicate N 0))"
    unfolding dot_def len N_def [symmetric] by (rule sum.cong) (simp_all add: app mult.commute)
  finally show ?thesis by (simp add: N_def)
qed

lemma unit_vec_at5:
  assumes "dx < D1D" "dy < D1D" "dz < D1D" "c < VDIM" "e < NE"
    "dx0 < D1D" "dy0 < D1D" "dz0 < D1D" "c0 < VDIM" "e0 < NE"
  shows "unit_vec (D1D * D1D * D1D * VDIM * NE) (at5 D1D D1D D1D VDIM dx0 dy0 dz0 c0 e0) !
           at5 D1D D1D D1D VDIM dx dy dz c e =
         (if dx = dx0 \<and> dy = dy0 \<and> dz = dz0 \<and> c = c0 \<and> e = e0 then 1 else 0)"
  using assms at5_less [of dx D1D dy D1D dz D1D c VDIM e NE]
    at5_less [of dx0 D1D dy0 D1D dz0 D1D c0 VDIM e0 NE]
  by (auto simp: unit_vec_def nth_list_update at5_eq_iff)

lemma Apply3D_fwd_unit:
  assumes "dx0 < D1D" "dy0 < D1D" "dz0 < D1D" "c0 < 3" "e0 < NE"
  shows "Apply3D_fwd D1D Q1D tx ty tz
           (unit_vec (D1D * D1D * D1D * 3 * NE) (at5 D1D D1D D1D 3 dx0 dy0 dz0 c0 e0))
           e0 c0 qz qy qx =
         tx ! at2 Q1D qx dx0 * ty ! at2 Q1D qy dy0 * tz ! at2 Q1D qz dz0"
proof -
  have "Apply3D_fwd D1D Q1D tx ty tz
           (unit_vec (D1D * D1D * D1D * 3 * NE) (at5 D1D D1D D1D 3 dx0 dy0 dz0 c0 e0))
           e0 c0 qz qy qx =
        (\<Sum>dz<D1D. (\<Sum>dy<D1D.
           (\<Sum>dx<D1D. (if dx = dx0 \<and> dy = dy0 \<and> dz = dz0 then 1 else 0) * tx ! at2 Q1D qx dx) *
           ty ! at2 Q1D qy dy) * tz ! at2 Q1D qz dz)"
    unfolding Apply3D_fwd_def
    by (intro sum.cong refl arg_cong2 [where f = "(*)"]) (use assms in \<open>simp add: unit_vec_at5\<close>)
  also have "\<dots> = tx ! at2 Q1D qx dx0 * ty ! at2 Q1D qy dy0 * tz ! at2 Q1D qz dz0"
    using assms by (simp add: if_mult_left sum_delta_conjs sum.delta)
  finally show ?thesis .
qed

lemma sum_swap3_rev:
  "(\<Sum>a\<in>A. \<Sum>b\<in>B. \<Sum>c\<in>C. f a b c) = (\<Sum>c\<in>C. \<Sum>b\<in>B. \<Sum>a\<in>A. (f a b c :: real))"
proof -
  have "(\<Sum>a\<in>A. \<Sum>b\<in>B. \<Sum>c\<in>C. f a b c) = (\<Sum>a\<in>A. \<Sum>c\<in>C. \<Sum>b\<in>B. f a b c)"
    by (rule sum.cong [OF refl]) (rule sum.swap)
  also have "\<dots> = (\<Sum>c\<in>C. \<Sum>a\<in>A. \<Sum>b\<in>B. f a b c)"
    by (rule sum.swap)
  also have "\<dots> = (\<Sum>c\<in>C. \<Sum>b\<in>B. \<Sum>a\<in>A. f a b c)"
    by (rule sum.cong [OF refl]) (rule sum.swap)
  finally show ?thesis .
qed

lemma Apply3D_bwd_flat:
  "Apply3D_bwd Q1D tx ty tz F dx dy dz =
     (\<Sum>qx<Q1D. \<Sum>qy<Q1D. \<Sum>qz<Q1D.
        F qz qy qx * (tx ! at2 Q1D qx dx * ty ! at2 Q1D qy dy * tz ! at2 Q1D qz dz))"
proof -
  have "Apply3D_bwd Q1D tx ty tz F dx dy dz =
     (\<Sum>qz<Q1D. \<Sum>qy<Q1D. \<Sum>qx<Q1D.
        F qz qy qx * tx ! at2 Q1D qx dx * ty ! at2 Q1D qy dy * tz ! at2 Q1D qz dz)"
    unfolding Apply3D_bwd_def by (simp only: sum_distrib_right)
  also have "\<dots> = (\<Sum>qx<Q1D. \<Sum>qy<Q1D. \<Sum>qz<Q1D.
        F qz qy qx * tx ! at2 Q1D qx dx * ty ! at2 Q1D qy dy * tz ! at2 Q1D qz dz)"
    by (rule sum_swap3_rev)
  finally show ?thesis by (simp only: mult.assoc)
qed

lemma Diagonal3D_term_flat:
  "Diagonal3D_term Q1D b g d e i j dx dy dz =
     (\<Sum>qx<Q1D. \<Sum>qy<Q1D. \<Sum>qz<Q1D.
        ((if i = 0 then g ! at2 Q1D qx dx else b ! at2 Q1D qx dx) *
         (if i = 1 then g ! at2 Q1D qy dy else b ! at2 Q1D qy dy) *
         (if i = 2 then g ! at2 Q1D qz dz else b ! at2 Q1D qz dz)) *
        d ! at3 (Q1D * Q1D * Q1D) 6 (qx + (qy + qz * Q1D) * Q1D) (Diagonal3D_k i j) e *
        ((if j = 0 then g ! at2 Q1D qx dx else b ! at2 Q1D qx dx) *
         (if j = 1 then g ! at2 Q1D qy dy else b ! at2 Q1D qy dy) *
         (if j = 2 then g ! at2 Q1D qz dz else b ! at2 Q1D qz dz)))"
proof -
  define X where "X i qx = (if i = 0 then g ! at2 Q1D qx dx else b ! at2 Q1D qx dx)" for i :: nat and qx
  define Y where "Y i qy = (if i = 1 then g ! at2 Q1D qy dy else b ! at2 Q1D qy dy)" for i :: nat and qy
  define Z where "Z i qz = (if i = 2 then g ! at2 Q1D qz dz else b ! at2 Q1D qz dz)" for i :: nat and qz
  define O' where "O' qx qy qz =
     d ! at3 (Q1D * Q1D * Q1D) 6 (qx + (qy + qz * Q1D) * Q1D) (Diagonal3D_k i j) e" for qx qy qz
  have "(\<Sum>qx<Q1D. X i qx * (\<Sum>qy<Q1D. Y i qy * (\<Sum>qz<Q1D. Z i qz * O' qx qy qz * Z j qz) * Y j qy) *
           X j qx) =
        (\<Sum>qx<Q1D. \<Sum>qy<Q1D. \<Sum>qz<Q1D.
           X i qx * (Y i qy * (Z i qz * O' qx qy qz * Z j qz) * Y j qy) * X j qx)"
    by (simp only: sum_distrib_left sum_distrib_right)
  also have "\<dots> = (\<Sum>qx<Q1D. \<Sum>qy<Q1D. \<Sum>qz<Q1D.
        (X i qx * Y i qy * Z i qz) * O' qx qy qz * (X j qx * Y j qy * Z j qz))"
    by (rule sum.cong [OF refl], rule sum.cong [OF refl], rule sum.cong [OF refl])
       (simp add: mult_ac)
  finally show ?thesis
    unfolding Diagonal3D_term_def X_def Y_def Z_def O'_def .
qed

lemma Diagonal3D_k_values:
  "Diagonal3D_k 0 0 = 0" "Diagonal3D_k 0 1 = 1" "Diagonal3D_k 0 2 = 2"
  "Diagonal3D_k 1 0 = 1" "Diagonal3D_k 1 1 = 3" "Diagonal3D_k 1 2 = 4"
  "Diagonal3D_k 2 0 = 2" "Diagonal3D_k 2 1 = 4" "Diagonal3D_k 2 2 = 5"
  by (simp_all add: Diagonal3D_k_def)

lemma Apply3D_value_unit:
  assumes "dx0 < D1D" "dy0 < D1D" "dz0 < D1D" "c0 < 3" "e0 < NE"
    and bt: "\<And>dd q. dd < D1D \<Longrightarrow> q < Q1D \<Longrightarrow> bt ! at2 D1D dd q = b ! at2 Q1D q dd"
    and gt: "\<And>dd q. dd < D1D \<Longrightarrow> q < Q1D \<Longrightarrow> gt ! at2 D1D dd q = g ! at2 Q1D q dd"
  shows "Apply3D_value D1D Q1D b g bt gt op
           (unit_vec (D1D * D1D * D1D * 3 * NE) (at5 D1D D1D D1D 3 dx0 dy0 dz0 c0 e0))
           e0 c0 dx0 dy0 dz0 =
         Diagonal3D_value Q1D b g op e0 dx0 dy0 dz0"
proof -
  define u where "u = unit_vec (D1D * D1D * D1D * 3 * NE) (at5 D1D D1D D1D 3 dx0 dy0 dz0 c0 e0)"
  define P0 where "P0 qx qy qz = g ! at2 Q1D qx dx0 * b ! at2 Q1D qy dy0 * b ! at2 Q1D qz dz0"
    for qx qy qz
  define P1 where "P1 qx qy qz = b ! at2 Q1D qx dx0 * g ! at2 Q1D qy dy0 * b ! at2 Q1D qz dz0"
    for qx qy qz
  define P2 where "P2 qx qy qz = b ! at2 Q1D qx dx0 * b ! at2 Q1D qy dy0 * g ! at2 Q1D qz dz0"
    for qx qy qz
  define O' where "O' k qx qy qz = op ! at3 (Q1D * Q1D * Q1D) 6 (qx + (qy + qz * Q1D) * Q1D) k e0"
    for k qx qy qz
  have fwd: "Apply3D_fwd D1D Q1D g b b u e0 c0 qz qy qx = P0 qx qy qz"
    "Apply3D_fwd D1D Q1D b g b u e0 c0 qz qy qx = P1 qx qy qz"
    "Apply3D_fwd D1D Q1D b b g u e0 c0 qz qy qx = P2 qx qy qz" for qz qy qx
    unfolding u_def P0_def P1_def P2_def by (rule Apply3D_fwd_unit [OF assms(1-5)])+
  have "Apply3D_value D1D Q1D b g bt gt op u e0 c0 dx0 dy0 dz0 =
        (\<Sum>qx<Q1D. \<Sum>qy<Q1D. \<Sum>qz<Q1D.
           (O' 0 qx qy qz * P0 qx qy qz + O' 1 qx qy qz * P1 qx qy qz + O' 2 qx qy qz * P2 qx qy qz) *
             P0 qx qy qz +
           (O' 1 qx qy qz * P0 qx qy qz + O' 3 qx qy qz * P1 qx qy qz + O' 4 qx qy qz * P2 qx qy qz) *
             P1 qx qy qz +
           (O' 2 qx qy qz * P0 qx qy qz + O' 4 qx qy qz * P1 qx qy qz + O' 5 qx qy qz * P2 qx qy qz) *
             P2 qx qy qz)"
    using Apply3D_value_bwd [OF bt gt assms(1-3), of op u e0 c0]
    unfolding Apply3D_bwd_flat Apply3D_flux0_def Apply3D_flux1_def Apply3D_flux2_def fwd
    unfolding P0_def [symmetric] P1_def [symmetric] P2_def [symmetric] O'_def [symmetric]
    by (simp only: sum.distrib)
  also have "\<dots> = (\<Sum>i<3. \<Sum>j<3. Diagonal3D_term Q1D b g op e0 i j dx0 dy0 dz0)"
    unfolding Diagonal3D_term_flat sum_lessThan3
    by (simp add: Diagonal3D_k_values P0_def P1_def P2_def O'_def sum.distrib [symmetric]
        algebra_simps del: One_nat_def)
  finally show ?thesis unfolding u_def Diagonal3D_value_def .
qed

section \<open>Accumulation, symmetry and the diagonal\<close>

lemma for_loop_3: "for_loop 3 f s = f 2 (f 1 (f 0 s))"
  by (simp add: eval_nat_numeral for_loop_Suc for_loop_0)

lemma Apply2D_Inr:
  assumes "PAVectorDiffusionApply2D MAX_D1D MAX_Q1D T_D1D T_Q1D T_VDIM NE b g bt gt d x y
             d1d q1d vdim = Inr r"
  shows "r = mfem_forall NE (PAVectorDiffusionApply2D_element
               (if T_D1D \<noteq> 0 then T_D1D else d1d) (if T_Q1D \<noteq> 0 then T_Q1D else q1d)
               (if T_VDIM \<noteq> 0 then T_VDIM else vdim) b g bt gt d x) y"
  using assms by (simp add: PAVectorDiffusionApply2D_def Let_def split: if_splits)

lemma Apply3D_Inr:
  assumes "PAVectorDiffusionApply3D MAX_D1D MAX_Q1D T_D1D T_Q1D NE b g bt gt d x y d1d q1d = Inr r"
  shows "r = mfem_forall NE (PAVectorDiffusionApply3D_element
               (if T_D1D \<noteq> 0 then T_D1D else d1d) (if T_Q1D \<noteq> 0 then T_Q1D else q1d)
               b g bt gt d x) y"
  using assms by (simp add: PAVectorDiffusionApply3D_def Let_def split: if_splits)

lemma Diagonal2D_Inr:
  assumes "PAVectorDiffusionDiagonal2D MAX_D1D MAX_Q1D T_D1D T_Q1D NE b g d y d1d q1d = Inr r"
  shows "r = mfem_forall NE (PAVectorDiffusionDiagonal2D_element
               (if T_D1D \<noteq> 0 then T_D1D else d1d) (if T_Q1D \<noteq> 0 then T_Q1D else q1d) b g d) y"
  using assms by (simp add: PAVectorDiffusionDiagonal2D_def Let_def split: if_splits)

lemma Diagonal3D_Inr:
  assumes "PAVectorDiffusionDiagonal3D MAX_D1D MAX_Q1D T_D1D T_Q1D NE b g d y d1d q1d = Inr r"
  shows "r = mfem_forall NE (PAVectorDiffusionDiagonal3D_element
               (if T_D1D \<noteq> 0 then T_D1D else d1d) (if T_Q1D \<noteq> 0 then T_Q1D else q1d) b g d) y"
  using assms by (simp add: PAVectorDiffusionDiagonal3D_def Let_def split: if_splits)

lemma Apply2D_Inr_any:
  assumes "PAVectorDiffusionApply2D MAX_D1D MAX_Q1D T_D1D T_Q1D T_VDIM NE b g bt gt d x y
             d1d q1d vdim = Inr r"
  shows "PAVectorDiffusionApply2D MAX_D1D MAX_Q1D T_D1D T_Q1D T_VDIM NE b g bt gt d x y'
             d1d q1d vdim =
         Inr (mfem_forall NE (PAVectorDiffusionApply2D_element
               (if T_D1D \<noteq> 0 then T_D1D else d1d) (if T_Q1D \<noteq> 0 then T_Q1D else q1d)
               (if T_VDIM \<noteq> 0 then T_VDIM else vdim) b g bt gt d x) y')"
  using assms by (simp add: PAVectorDiffusionApply2D_def Let_def split: if_splits)

lemma Apply3D_Inr_any:
  assumes "PAVectorDiffusionApply3D MAX_D1D MAX_Q1D T_D1D T_Q1D NE b g bt gt d x y d1d q1d = Inr r"
  shows "PAVectorDiffusionApply3D MAX_D1D MAX_Q1D T_D1D T_Q1D NE b g bt gt d x y' d1d q1d =
         Inr (mfem_forall NE (PAVectorDiffusionApply3D_element
               (if T_D1D \<noteq> 0 then T_D1D else d1d) (if T_Q1D \<noteq> 0 then T_Q1D else q1d)
               b g bt gt d x) y')"
  using assms by (simp add: PAVectorDiffusionApply3D_def Let_def split: if_splits)

lemma Diagonal2D_Inr_any:
  assumes "PAVectorDiffusionDiagonal2D MAX_D1D MAX_Q1D T_D1D T_Q1D NE b g d y d1d q1d = Inr r"
  shows "PAVectorDiffusionDiagonal2D MAX_D1D MAX_Q1D T_D1D T_Q1D NE b g d y' d1d q1d =
         Inr (mfem_forall NE (PAVectorDiffusionDiagonal2D_element
               (if T_D1D \<noteq> 0 then T_D1D else d1d) (if T_Q1D \<noteq> 0 then T_Q1D else q1d) b g d) y')"
  using assms by (simp add: PAVectorDiffusionDiagonal2D_def Let_def split: if_splits)

lemma Diagonal3D_Inr_any:
  assumes "PAVectorDiffusionDiagonal3D MAX_D1D MAX_Q1D T_D1D T_Q1D NE b g d y d1d q1d = Inr r"
  shows "PAVectorDiffusionDiagonal3D MAX_D1D MAX_Q1D T_D1D T_Q1D NE b g d y' d1d q1d =
         Inr (mfem_forall NE (PAVectorDiffusionDiagonal3D_element
               (if T_D1D \<noteq> 0 then T_D1D else d1d) (if T_Q1D \<noteq> 0 then T_Q1D else q1d) b g d) y')"
  using assms by (simp add: PAVectorDiffusionDiagonal3D_def Let_def split: if_splits)

lemma adds_to_zero_based:
  assumes "adds_to F c"
  shows "length (F y) = length y"
    and "k < length y \<Longrightarrow> F y ! k = y ! k + F (replicate (length y) 0) ! k"
  using adds_to_length [OF assms, of y] adds_to_nth [OF assms, of k y]
    adds_to_nth [OF assms, of k "replicate (length y) 0"]
  by simp_all

lemma adds_to_null:
  assumes "adds_to F c" and "\<And>k. k < length y \<Longrightarrow> c k = 0"
  shows "F y = y"
  by (rule nth_equalityI) (simp_all add: adds_to_length [OF assms(1)] adds_to_nth [OF assms(1)] assms(2))

lemma scatter4_null:
  assumes "\<And>e c dx dy. e < NE \<Longrightarrow> c < VDIM \<Longrightarrow> dx < D1D \<Longrightarrow> dy < D1D \<Longrightarrow> val e c dx dy = 0"
  shows "scatter4 D1D VDIM NE val k = 0"
  unfolding scatter4_def by (intro sum.neutral ballI) (simp add: assms)

lemma scatter5_null:
  assumes "\<And>e c dx dy dz. e < NE \<Longrightarrow> c < VDIM \<Longrightarrow> dx < D1D \<Longrightarrow> dy < D1D \<Longrightarrow> dz < D1D \<Longrightarrow>
             val e c dx dy dz = 0"
  shows "scatter5 D1D VDIM NE val k = 0"
  unfolding scatter5_def by (intro sum.neutral ballI) (simp add: assms)

lemma Apply2D_fwd_null:
  assumes "e < NE" "c < VDIM"
  shows "Apply2D_fwd D1D Q1D VDIM tx ty (replicate (D1D * D1D * VDIM * NE) 0) e c qy qx = 0"
  unfolding Apply2D_fwd_def
  by (intro sum.neutral ballI) (use assms in \<open>simp add: at4_less\<close>)

lemma Apply2D_value_null:
  assumes "e < NE" "c < VDIM"
  shows "Apply2D_value D1D Q1D VDIM b g bt gt d (replicate (D1D * D1D * VDIM * NE) 0) e c dx dy = 0"
  unfolding Apply2D_value_def Apply2D_flux0_def Apply2D_flux1_def
  by (simp add: Apply2D_fwd_null [OF assms])

lemma Apply3D_fwd_null:
  assumes "e < NE" "c < 3"
  shows "Apply3D_fwd D1D Q1D tx ty tz (replicate (D1D * D1D * D1D * 3 * NE) 0) e c qz qy qx = 0"
  unfolding Apply3D_fwd_def
  by (intro sum.neutral ballI) (use assms in \<open>simp add: at5_less\<close>)

lemma Apply3D_value_null:
  assumes "e < NE" "c < 3"
  shows "Apply3D_value D1D Q1D b g bt gt op (replicate (D1D * D1D * D1D * 3 * NE) 0) e c dx dy dz = 0"
  unfolding Apply3D_value_def Apply3D_flux0_def Apply3D_flux1_def Apply3D_flux2_def
  by (simp add: Apply3D_fwd_null [OF assms])

lemma Apply2D_kernel_null:
  "mfem_forall NE (PAVectorDiffusionApply2D_element D1D Q1D VDIM b g bt gt d
      (replicate (D1D * D1D * VDIM * NE) 0)) y = y"
  by (rule adds_to_null [OF Apply2D_kernel_adds]) (simp add: scatter4_null Apply2D_value_null)

lemma Apply3D_kernel_null:
  "mfem_forall NE (PAVectorDiffusionApply3D_element D1D Q1D b g bt gt op
      (replicate (D1D * D1D * D1D * 3 * NE) 0)) y = y"
  by (rule adds_to_null [OF Apply3D_kernel_adds]) (simp add: scatter5_null Apply3D_value_null)

lemma diagonal_consistency_2D:
  assumes bt: "\<And>dd q. dd < D1D \<Longrightarrow> q < Q1D \<Longrightarrow> bt ! at2 D1D dd q = b ! at2 Q1D q dd"
    and gt: "\<And>dd q. dd < D1D \<Longrightarrow> q < Q1D \<Longrightarrow> gt ! at2 D1D dd q = g ! at2 Q1D q dd"
    and i: "i < D1D * D1D * 2 * NE"
  shows "mfem_forall NE (PAVectorDiffusionDiagonal2D_element D1D Q1D b g d)
           (replicate (D1D * D1D * 2 * NE) 0) ! i =
         mfem_forall NE (PAVectorDiffusionApply2D_element D1D Q1D 2 b g bt gt d
             (unit_vec (D1D * D1D * 2 * NE) i)) (replicate (D1D * D1D * 2 * NE) 0) ! i"
proof -
  from i obtain dx dy c e where *: "dx < D1D" "dy < D1D" "c < 2" "e < NE"
    and i_eq: "i = at4 D1D D1D 2 dx dy c e"
    by (rule at4_decode)
  have "mfem_forall NE (PAVectorDiffusionDiagonal2D_element D1D Q1D b g d)
           (replicate (D1D * D1D * 2 * NE) 0) ! i =
        scatter4 D1D 2 NE (\<lambda>e c dx dy. Diagonal2D_value Q1D b g d e dx dy) i"
    using adds_to_nth [OF Diagonal2D_kernel_adds, of i "replicate (D1D * D1D * 2 * NE) 0"] i
    by simp
  also have "\<dots> = Diagonal2D_value Q1D b g d e dx dy"
    unfolding i_eq by (rule scatter4_at [OF *])
  also have "\<dots> = Apply2D_value D1D Q1D 2 b g bt gt d (unit_vec (D1D * D1D * 2 * NE) i) e c dx dy"
    unfolding i_eq by (rule Apply2D_value_unit [OF * bt gt, symmetric])
  also have "\<dots> = scatter4 D1D 2 NE
       (Apply2D_value D1D Q1D 2 b g bt gt d (unit_vec (D1D * D1D * 2 * NE) i)) i"
    unfolding i_eq [symmetric] unfolding i_eq by (rule scatter4_at [OF *, symmetric])
  also have "\<dots> = mfem_forall NE (PAVectorDiffusionApply2D_element D1D Q1D 2 b g bt gt d
             (unit_vec (D1D * D1D * 2 * NE) i)) (replicate (D1D * D1D * 2 * NE) 0) ! i"
    using adds_to_nth [OF Apply2D_kernel_adds, of i "replicate (D1D * D1D * 2 * NE) 0"] i
    by simp
  finally show ?thesis .
qed

lemma diagonal_consistency_3D:
  assumes bt: "\<And>dd q. dd < D1D \<Longrightarrow> q < Q1D \<Longrightarrow> bt ! at2 D1D dd q = b ! at2 Q1D q dd"
    and gt: "\<And>dd q. dd < D1D \<Longrightarrow> q < Q1D \<Longrightarrow> gt ! at2 D1D dd q = g ! at2 Q1D q dd"
    and i: "i < D1D * D1D * D1D * 3 * NE"
  shows "mfem_forall NE (PAVectorDiffusionDiagonal3D_element D1D Q1D b g d)
           (replicate (D1D * D1D * D1D * 3 * NE) 0) ! i =
         mfem_forall NE (PAVectorDiffusionApply3D_element D1D Q1D b g bt gt d
             (unit_vec (D1D * D1D * D1D * 3 * NE) i)) (replicate (D1D * D1D * D1D * 3 * NE) 0) ! i"
proof -
  from i obtain dx dy dz c e where *: "dx < D1D" "dy < D1D" "dz < D1D" "c < 3" "e < NE"
    and i_eq: "i = at5 D1D D1D D1D 3 dx dy dz c e"
    by (rule at5_decode)
  have "mfem_forall NE (PAVectorDiffusionDiagonal3D_element D1D Q1D b g d)
           (replicate (D1D * D1D * D1D * 3 * NE) 0) ! i =
        scatter5 D1D 3 NE (\<lambda>e c dx dy dz. Diagonal3D_value Q1D b g d e dx dy dz) i"
    using adds_to_nth [OF Diagonal3D_kernel_adds, of i "replicate (D1D * D1D * D1D * 3 * NE) 0"] i
    by simp
  also have "\<dots> = Diagonal3D_value Q1D b g d e dx dy dz"
    unfolding i_eq by (rule scatter5_at [OF *])
  also have "\<dots> = Apply3D_value D1D Q1D b g bt gt d (unit_vec (D1D * D1D * D1D * 3 * NE) i)
                      e c dx dy dz"
    unfolding i_eq by (rule Apply3D_value_unit [OF * bt gt, symmetric])
  also have "\<dots> = scatter5 D1D 3 NE
       (Apply3D_value D1D Q1D b g bt gt d (unit_vec (D1D * D1D * D1D * 3 * NE) i)) i"
    unfolding i_eq by (rule scatter5_at [OF *, symmetric])
  also have "\<dots> = mfem_forall NE (PAVectorDiffusionApply3D_element D1D Q1D b g bt gt d
             (unit_vec (D1D * D1D * D1D * 3 * NE) i)) (replicate (D1D * D1D * D1D * 3 * NE) 0) ! i"
    using adds_to_nth [OF Apply3D_kernel_adds, of i "replicate (D1D * D1D * D1D * 3 * NE) 0"] i
    by simp
  finally show ?thesis .
qed

lemma Diagonal2D_entry:
  assumes "dx < D1D" "dy < D1D" "c < 2" "e < NE" "length y = D1D * D1D * 2 * NE"
  shows "mfem_forall NE (PAVectorDiffusionDiagonal2D_element D1D Q1D b g d) y !
           at4 D1D D1D 2 dx dy c e =
         y ! at4 D1D D1D 2 dx dy c e + Diagonal2D_value Q1D b g d e dx dy"
  using adds_to_nth [OF Diagonal2D_kernel_adds, where k = "at4 D1D D1D 2 dx dy c e" and y = y
      and ?D1D.1 = D1D and ?NE.1 = NE and ?Q1D.1 = Q1D and ?b.1 = b and ?g.1 = g and ?d.1 = d]
    at4_less [of dx D1D dy D1D c 2 e NE] assms
  by (simp add: scatter4_at)

lemma Diagonal3D_entry:
  assumes "dx < D1D" "dy < D1D" "dz < D1D" "c < 3" "e < NE" "length y = D1D * D1D * D1D * 3 * NE"
  shows "mfem_forall NE (PAVectorDiffusionDiagonal3D_element D1D Q1D b g d) y !
           at5 D1D D1D D1D 3 dx dy dz c e =
         y ! at5 D1D D1D D1D 3 dx dy dz c e + Diagonal3D_value Q1D b g d e dx dy dz"
  using adds_to_nth [OF Diagonal3D_kernel_adds, where k = "at5 D1D D1D D1D 3 dx dy dz c e" and y = y
      and ?D1D.1 = D1D and ?NE.1 = NE and ?Q1D.1 = Q1D and ?b.1 = b and ?g.1 = g and ?d.1 = d]
    at5_less [of dx D1D dy D1D dz D1D c 3 e NE] assms
  by (simp add: scatter5_at)

lemma Diagonal2D_beyond_two_components:
  assumes "D1D * D1D * 2 * NE \<le> k" "k < length y"
  shows "mfem_forall NE (PAVectorDiffusionDiagonal2D_element D1D Q1D b g d) y ! k = y ! k"
proof -
  have "scatter4 D1D 2 NE (\<lambda>e c dx dy. Diagonal2D_value Q1D b g d e dx dy) k = 0"
    unfolding scatter4_def
  proof (intro sum.neutral ballI)
    fix e c dy dx assume "e \<in> {..<NE}" "c \<in> {..<2::nat}" "dy \<in> {..<D1D}" "dx \<in> {..<D1D}"
    then have "at4 D1D D1D 2 dx dy c e < D1D * D1D * 2 * NE"
      by (intro at4_less) simp_all
    with assms(1) show "(if k = at4 D1D D1D 2 dx dy c e then Diagonal2D_value Q1D b g d e dx dy
                        else 0) = 0"
      by simp
  qed
  with adds_to_nth [OF Diagonal2D_kernel_adds, where k = k and y = y
      and ?D1D.1 = D1D and ?NE.1 = NE and ?Q1D.1 = Q1D and ?b.1 = b and ?g.1 = g and ?d.1 = d] assms(2)
  show ?thesis by simp
qed

lemma accumulates_from_adds:
  assumes "adds_to F c" and "r = F y"
  shows "\<exists>r0. Inr (F (replicate (length y) 0)) = (Inr r0 :: mfem_error + real list) \<and>
              length r = length y \<and> (\<forall>k<length y. r ! k = y ! k + r0 ! k)"
  using assms(2) adds_to_zero_based(1) [OF assms(1), where y = y]
    adds_to_zero_based(2) [OF assms(1), where y = y]
  by simp

text \<open>
  C4.  The diagonal kernels against the apply kernels on unit vectors.  With two vector
  components in two dimensions and in three dimensions the entry \<open>i\<close> of the assembled diagonal
  is the entry \<open>i\<close> of the apply kernel on the unit vector \<open>e\<^sub>i\<close> (lemmas
  \<open>diagonal_consistency_2D\<close> and \<open>diagonal_consistency_3D\<close>).  On a surface mesh
  (\<open>dim = 2\<close>, \<open>sdim = 3\<close>) \<^verbatim>\<open>AddMultPA\<close> runs the two-dimensional apply kernel with three
  vector components, while \<^verbatim>\<open>AssembleDiagonalPA\<close> runs the two-dimensional diagonal kernel,
  whose output view has two: for one element with \<open>D1D = Q1D = 1\<close>, \<open>B = G = Bt = Gt = [1]\<close>
  and \<open>D = [1, 0, 1]\<close> the operator maps the unit vector of the third component to
  \<open>[0, 0, 2]\<close>, and the assembled diagonal has 0 at that degree of freedom.
\<close>

theorem diagonal2D_surface_mismatch:
  "AddMultPA False ceedOp_AddMult 14 14 2 3 1 1 1 [1] [1] [1] [1] [1, 0, 1] (unit_vec 3 2)
     [0, 0, 0] = Inr [0, 0, 2] \<and>
   (\<exists>diag. AssembleDiagonalPA False ceedOp_GetDiagonal 14 14 2 1 1 1 [1] [1] [1, 0, 1] [0, 0, 0] =
      Inr diag \<and> diag ! 2 = 0)"
  by (simp add: AddMultPA_def AssembleDiagonalPA_def PAVectorDiffusionAssembleDiagonal_def
      PAVectorDiffusionDiagonal2D_def PAVectorDiffusionDiagonal2D_element_def
      Diagonal2D_QD_cell_def Diagonal2D_temp_def stack_array_def unit_vec_def
      PAVectorDiffusionApply2D_def
      PAVectorDiffusionApply2D_element_def Apply2D_grad_clear_def Apply2D_grad_def
      Apply2D_gradX_def Apply2D_pointwise_def Apply2D_gradX_back_def Apply2D_y_def
      mfem_forall_def for_loop_Suc for_loop_0 for_loop_3 at2_def at3_def at4_def Let_def)

text \<open>
  C5.  The operator of the apply kernels is symmetric: with \<open>Bt\<close> and \<open>Gt\<close> the transposed
  copies of \<open>B\<close> and \<open>G\<close>, and \<open>Ax\<close>, \<open>Ay\<close> the results of the kernel on \<open>x\<close> and on
  \<open>y\<close> into zero-initialised outputs, \<open>dot Ax y = dot x Ay\<close>, in two dimensions (any number
  of vector components) and in three.
\<close>

theorem apply_symmetric:
  assumes "D1D = (if T_D1D \<noteq> 0 then T_D1D else d1d)"
    and "Q1D = (if T_Q1D \<noteq> 0 then T_Q1D else q1d)"
    and "VDIM = (if T_VDIM \<noteq> 0 then T_VDIM else vdim)"
    and "\<forall>dd<D1D. \<forall>q<Q1D. bt ! at2 D1D dd q = b ! at2 Q1D q dd \<and>
                             gt ! at2 D1D dd q = g ! at2 Q1D q dd"
  shows "(length x = D1D * D1D * VDIM * NE \<and> length y = D1D * D1D * VDIM * NE \<and>
          PAVectorDiffusionApply2D MAX_D1D MAX_Q1D T_D1D T_Q1D T_VDIM NE b g bt gt d x
            (replicate (D1D * D1D * VDIM * NE) 0) d1d q1d vdim = Inr Ax \<and>
          PAVectorDiffusionApply2D MAX_D1D MAX_Q1D T_D1D T_Q1D T_VDIM NE b g bt gt d y
            (replicate (D1D * D1D * VDIM * NE) 0) d1d q1d vdim = Inr Ay \<longrightarrow>
          dot Ax y = dot x Ay) \<and>
         (length x = D1D * D1D * D1D * 3 * NE \<and> length y = D1D * D1D * D1D * 3 * NE \<and>
          PAVectorDiffusionApply3D MAX_D1D MAX_Q1D T_D1D T_Q1D NE b g bt gt d x
            (replicate (D1D * D1D * D1D * 3 * NE) 0) d1d q1d = Inr Ax \<and>
          PAVectorDiffusionApply3D MAX_D1D MAX_Q1D T_D1D T_Q1D NE b g bt gt d y
            (replicate (D1D * D1D * D1D * 3 * NE) 0) d1d q1d = Inr Ay \<longrightarrow>
          dot Ax y = dot x Ay)"
proof -
  have bt: "bt ! at2 D1D dd q = b ! at2 Q1D q dd" and gt: "gt ! at2 D1D dd q = g ! at2 Q1D q dd"
    if "dd < D1D" "q < Q1D" for dd q
    using assms(4) that by simp_all
  show ?thesis
  proof (intro conjI impI; elim conjE)
    assume len: "length x = D1D * D1D * VDIM * NE" "length y = D1D * D1D * VDIM * NE"
      and rx: "PAVectorDiffusionApply2D MAX_D1D MAX_Q1D T_D1D T_Q1D T_VDIM NE b g bt gt d x
            (replicate (D1D * D1D * VDIM * NE) 0) d1d q1d vdim = Inr Ax"
      and ry: "PAVectorDiffusionApply2D MAX_D1D MAX_Q1D T_D1D T_Q1D T_VDIM NE b g bt gt d y
            (replicate (D1D * D1D * VDIM * NE) 0) d1d q1d vdim = Inr Ay"
    have "Ax = mfem_forall NE (PAVectorDiffusionApply2D_element D1D Q1D VDIM b g bt gt d x)
                      (replicate (D1D * D1D * VDIM * NE) 0)"
      and "Ay = mfem_forall NE (PAVectorDiffusionApply2D_element D1D Q1D VDIM b g bt gt d y)
                      (replicate (D1D * D1D * VDIM * NE) 0)"
      using Apply2D_Inr [OF rx] Apply2D_Inr [OF ry] by (simp_all add: assms(1-3))
    then show "dot Ax y = dot x Ay"
      using Apply2D_symmetric [OF bt gt len] by simp
  next
    assume len: "length x = D1D * D1D * D1D * 3 * NE" "length y = D1D * D1D * D1D * 3 * NE"
      and rx: "PAVectorDiffusionApply3D MAX_D1D MAX_Q1D T_D1D T_Q1D NE b g bt gt d x
            (replicate (D1D * D1D * D1D * 3 * NE) 0) d1d q1d = Inr Ax"
      and ry: "PAVectorDiffusionApply3D MAX_D1D MAX_Q1D T_D1D T_Q1D NE b g bt gt d y
            (replicate (D1D * D1D * D1D * 3 * NE) 0) d1d q1d = Inr Ay"
    have "Ax = mfem_forall NE (PAVectorDiffusionApply3D_element D1D Q1D b g bt gt d x)
                      (replicate (D1D * D1D * D1D * 3 * NE) 0)"
      and "Ay = mfem_forall NE (PAVectorDiffusionApply3D_element D1D Q1D b g bt gt d y)
                      (replicate (D1D * D1D * D1D * 3 * NE) 0)"
      using Apply3D_Inr [OF rx] Apply3D_Inr [OF ry] by (simp_all add: assms(1-3))
    then show "dot Ax y = dot x Ay"
      using Apply3D_symmetric [OF bt gt len] by simp
  qed
qed

theorem apply_symmetric_witness:
  "PAVectorDiffusionApply2D 14 14 0 0 0 1 [1] [1] [1] [1] [1, 0, 1] [3] [0] 1 1 1 = Inr [6] \<and>
   PAVectorDiffusionApply2D 14 14 0 0 0 1 [1] [1] [1] [1] [1, 0, 1] [5] [0] 1 1 1 = Inr [10] \<and>
   dot [6] [5] = dot [3] [10] \<and>
   PAVectorDiffusionApply3D 14 14 0 0 1 [1] [1] [1] [1] [1, 0, 0, 1, 0, 1] [1, 2, 3] [0, 0, 0] 1 1 =
     Inr [3, 6, 9] \<and>
   PAVectorDiffusionApply3D 14 14 0 0 1 [1] [1] [1] [1] [1, 0, 0, 1, 0, 1] [1, 0, 2] [0, 0, 0] 1 1 =
     Inr [3, 0, 6] \<and>
   dot [3, 6, 9] [1, 0, 2] = dot [1, 2, 3] [3, 0, 6]"
  using apply_symmetric [where ?D1D = 1 and ?Q1D = 1 and VDIM = 1 and ?T_D1D = 0 and ?T_Q1D = 0
      and T_VDIM = 0 and d1d = 1 and q1d = 1 and vdim = 1 and NE = 1 and ?MAX_D1D = 14
      and ?MAX_Q1D = 14 and b = "[1]" and g = "[1]" and bt = "[1]" and gt = "[1]"
      and d = "[1, 0, 1]" and x = "[3]" and y = "[5]" and Ax = "[6]" and Ay = "[10]"]
    apply_symmetric [where ?D1D = 1 and ?Q1D = 1 and VDIM = 3 and ?T_D1D = 0 and ?T_Q1D = 0
      and T_VDIM = 0 and d1d = 1 and q1d = 1 and vdim = 3 and NE = 1 and ?MAX_D1D = 14
      and ?MAX_Q1D = 14 and b = "[1]" and g = "[1]" and bt = "[1]" and gt = "[1]"
      and d = "[1, 0, 0, 1, 0, 1]" and x = "[1, 2, 3]" and y = "[1, 0, 2]" and Ax = "[3, 6, 9]"
      and Ay = "[3, 0, 6]"]
  by (simp add: PAVectorDiffusionApply2D_def
      PAVectorDiffusionApply2D_element_def Apply2D_grad_clear_def Apply2D_grad_def
      Apply2D_gradX_def Apply2D_pointwise_def Apply2D_gradX_back_def Apply2D_y_def
      PAVectorDiffusionApply3D_def PAVectorDiffusionApply3D_element_def
      Apply3D_grad_clear_def Apply3D_grad_def Apply3D_gradXY_def Apply3D_gradX_def
      Apply3D_pointwise_def Apply3D_gradX_back_def Apply3D_gradXY_back_def Apply3D_y_def
      stack_array_def mfem_forall_def for_loop_Suc for_loop_0 for_loop_3
      at2_def at3_def at4_def at5_def Let_def dot_def)

text \<open>
  C7.  The diagonal kernels add one scalar per degree-of-freedom position to every vector
  component of their output view (lemmas \<open>Diagonal2D_entry\<close> and \<open>Diagonal3D_entry\<close>), but
  the view of the two-dimensional kernel always has two components, and entries beyond them
  are left alone (lemma \<open>Diagonal2D_beyond_two_components\<close>).  On a surface mesh, where
  the vectors have three components per node, two elements with \<open>D1D = Q1D = 1\<close>,
  \<open>B = G = [1]\<close> and operator data \<open>[1, 0, 1]\<close> and \<open>[2, 0, 2]\<close> have the diagonal values 2
  and 4; the kernel turns the zero vector into \<open>[2, 2, 4, 4, 0, 0]\<close>, not into
  \<open>[2, 2, 2, 4, 4, 4]\<close>.
\<close>

theorem diagonal2D_two_components_only:
  "AssembleDiagonalPA False ceedOp_GetDiagonal 14 14 2 1 1 2 [1] [1] [1, 0, 1, 2, 0, 2]
     [0, 0, 0, 0, 0, 0] = Inr [2, 2, 4, 4, 0, 0]"
  by (simp add: AssembleDiagonalPA_def PAVectorDiffusionAssembleDiagonal_def
      PAVectorDiffusionDiagonal2D_def PAVectorDiffusionDiagonal2D_element_def
      Diagonal2D_QD_cell_def Diagonal2D_temp_def stack_array_def
      mfem_forall_def for_loop_Suc for_loop_0 at2_def at3_def at4_def Let_def eval_nat_numeral)

text \<open>
  C8.  The apply and the diagonal kernels only add to their output: whenever a kernel returns
  \<open>r\<close> from the output \<open>y\<close>, it also returns some \<open>r0\<close> from the zero vector of the same
  length, \<open>r\<close> is as long as \<open>y\<close>, and \<open>r ! k = y ! k + r0 ! k\<close> for every entry; the
  contribution \<open>r0\<close> does not depend on \<open>y\<close>.  The kernels return nothing but the output
  vector; their other arguments are values that they read.  On the zero input vector the apply
  kernels return \<open>y\<close> itself.
\<close>

theorem kernels_accumulate:
  "(PAVectorDiffusionApply2D MAX_D1D MAX_Q1D T_D1D T_Q1D T_VDIM NE b g bt gt d x y d1d q1d vdim =
      Inr r \<longrightarrow>
    (\<exists>r0. PAVectorDiffusionApply2D MAX_D1D MAX_Q1D T_D1D T_Q1D T_VDIM NE b g bt gt d x
             (replicate (length y) 0) d1d q1d vdim = Inr r0 \<and>
          length r = length y \<and> (\<forall>k<length y. r ! k = y ! k + r0 ! k))) \<and>
   (PAVectorDiffusionApply3D MAX_D1D MAX_Q1D T_D1D T_Q1D NE b g bt gt d x y d1d q1d = Inr r \<longrightarrow>
    (\<exists>r0. PAVectorDiffusionApply3D MAX_D1D MAX_Q1D T_D1D T_Q1D NE b g bt gt d x
             (replicate (length y) 0) d1d q1d = Inr r0 \<and>
          length r = length y \<and> (\<forall>k<length y. r ! k = y ! k + r0 ! k))) \<and>
   (PAVectorDiffusionDiagonal2D MAX_D1D MAX_Q1D T_D1D T_Q1D NE b g d y d1d q1d = Inr r \<longrightarrow>
    (\<exists>r0. PAVectorDiffusionDiagonal2D MAX_D1D MAX_Q1D T_D1D T_Q1D NE b g d
             (replicate (length y) 0) d1d q1d = Inr r0 \<and>
          length r = length y \<and> (\<forall>k<length y. r ! k = y ! k + r0 ! k))) \<and>
   (PAVectorDiffusionDiagonal3D MAX_D1D MAX_Q1D T_D1D T_Q1D NE b g d y d1d q1d = Inr r \<longrightarrow>
    (\<exists>r0. PAVectorDiffusionDiagonal3D MAX_D1D MAX_Q1D T_D1D T_Q1D NE b g d
             (replicate (length y) 0) d1d q1d = Inr r0 \<and>
          length r = length y \<and> (\<forall>k<length y. r ! k = y ! k + r0 ! k))) \<and>
   (D1D = (if T_D1D \<noteq> 0 then T_D1D else d1d) \<and> VDIM = (if T_VDIM \<noteq> 0 then T_VDIM else vdim) \<and>
    PAVectorDiffusionApply2D MAX_D1D MAX_Q1D T_D1D T_Q1D T_VDIM NE b g bt gt d
      (replicate (D1D * D1D * VDIM * NE) 0) y d1d q1d vdim = Inr r \<longrightarrow> r = y) \<and>
   (D1D = (if T_D1D \<noteq> 0 then T_D1D else d1d) \<and>
    PAVectorDiffusionApply3D MAX_D1D MAX_Q1D T_D1D T_Q1D NE b g bt gt d
      (replicate (D1D * D1D * D1D * 3 * NE) 0) y d1d q1d = Inr r \<longrightarrow> r = y)"
proof (intro conjI impI; (elim conjE)?)
  assume r: "PAVectorDiffusionApply2D MAX_D1D MAX_Q1D T_D1D T_Q1D T_VDIM NE b g bt gt d x y
               d1d q1d vdim = Inr r"
  show "\<exists>r0. PAVectorDiffusionApply2D MAX_D1D MAX_Q1D T_D1D T_Q1D T_VDIM NE b g bt gt d x
             (replicate (length y) 0) d1d q1d vdim = Inr r0 \<and>
          length r = length y \<and> (\<forall>k<length y. r ! k = y ! k + r0 ! k)"
    unfolding Apply2D_Inr_any [OF r]
    by (rule accumulates_from_adds [OF Apply2D_kernel_adds Apply2D_Inr [OF r]])
next
  assume r: "PAVectorDiffusionApply3D MAX_D1D MAX_Q1D T_D1D T_Q1D NE b g bt gt d x y d1d q1d =
               Inr r"
  show "\<exists>r0. PAVectorDiffusionApply3D MAX_D1D MAX_Q1D T_D1D T_Q1D NE b g bt gt d x
             (replicate (length y) 0) d1d q1d = Inr r0 \<and>
          length r = length y \<and> (\<forall>k<length y. r ! k = y ! k + r0 ! k)"
    unfolding Apply3D_Inr_any [OF r]
    by (rule accumulates_from_adds [OF Apply3D_kernel_adds Apply3D_Inr [OF r]])
next
  assume r: "PAVectorDiffusionDiagonal2D MAX_D1D MAX_Q1D T_D1D T_Q1D NE b g d y d1d q1d = Inr r"
  show "\<exists>r0. PAVectorDiffusionDiagonal2D MAX_D1D MAX_Q1D T_D1D T_Q1D NE b g d
             (replicate (length y) 0) d1d q1d = Inr r0 \<and>
          length r = length y \<and> (\<forall>k<length y. r ! k = y ! k + r0 ! k)"
    unfolding Diagonal2D_Inr_any [OF r]
    by (rule accumulates_from_adds [OF Diagonal2D_kernel_adds Diagonal2D_Inr [OF r]])
next
  assume r: "PAVectorDiffusionDiagonal3D MAX_D1D MAX_Q1D T_D1D T_Q1D NE b g d y d1d q1d = Inr r"
  show "\<exists>r0. PAVectorDiffusionDiagonal3D MAX_D1D MAX_Q1D T_D1D T_Q1D NE b g d
             (replicate (length y) 0) d1d q1d = Inr r0 \<and>
          length r = length y \<and> (\<forall>k<length y. r ! k = y ! k + r0 ! k)"
    unfolding Diagonal3D_Inr_any [OF r]
    by (rule accumulates_from_adds [OF Diagonal3D_kernel_adds Diagonal3D_Inr [OF r]])
next
  assume D: "D1D = (if T_D1D \<noteq> 0 then T_D1D else d1d)"
    and V: "VDIM = (if T_VDIM \<noteq> 0 then T_VDIM else vdim)"
    and r: "PAVectorDiffusionApply2D MAX_D1D MAX_Q1D T_D1D T_Q1D T_VDIM NE b g bt gt d
      (replicate (D1D * D1D * VDIM * NE) 0) y d1d q1d vdim = Inr r"
  from Apply2D_Inr [OF r]
  have "r = mfem_forall NE (PAVectorDiffusionApply2D_element D1D
              (if T_Q1D \<noteq> 0 then T_Q1D else q1d) VDIM b g bt gt d
              (replicate (D1D * D1D * VDIM * NE) 0)) y"
    unfolding D [symmetric] V [symmetric] .
  then show "r = y" by (simp only: Apply2D_kernel_null)
next
  assume D: "D1D = (if T_D1D \<noteq> 0 then T_D1D else d1d)"
    and r: "PAVectorDiffusionApply3D MAX_D1D MAX_Q1D T_D1D T_Q1D NE b g bt gt d
      (replicate (D1D * D1D * D1D * 3 * NE) 0) y d1d q1d = Inr r"
  from Apply3D_Inr [OF r]
  have "r = mfem_forall NE (PAVectorDiffusionApply3D_element D1D
              (if T_Q1D \<noteq> 0 then T_Q1D else q1d) b g bt gt d
              (replicate (D1D * D1D * D1D * 3 * NE) 0)) y"
    unfolding D [symmetric] .
  then show "r = y" by (simp only: Apply3D_kernel_null)
qed

theorem kernels_accumulate_witness:
  "PAVectorDiffusionApply2D 14 14 0 0 0 1 [1] [1] [1] [1] [1, 0, 1] [3] [5] 1 1 1 = Inr [11] \<and>
   PAVectorDiffusionApply2D 14 14 0 0 0 1 [1] [1] [1] [1] [1, 0, 1] [3] [0] 1 1 1 = Inr [6] \<and>
   PAVectorDiffusionApply2D 14 14 0 0 0 1 [1] [1] [1] [1] [1, 0, 1] [0] [5] 1 1 1 = Inr [5] \<and>
   PAVectorDiffusionDiagonal2D 14 14 0 0 1 [1] [1] [1, 0, 1] [5, 7] 1 1 = Inr [7, 9] \<and>
   PAVectorDiffusionApply3D 14 14 0 0 1 [1] [1] [1] [1] [1, 0, 0, 1, 0, 1] [1, 2, 3] [1, 1, 1] 1 1 =
     Inr [4, 7, 10] \<and>
   PAVectorDiffusionApply3D 14 14 0 0 1 [1] [1] [1] [1] [1, 0, 0, 1, 0, 1] [0, 0, 0] [1, 2, 3] 1 1 =
     Inr [1, 2, 3] \<and>
   PAVectorDiffusionDiagonal3D 14 14 0 0 1 [1] [1] [1, 0, 0, 1, 0, 1] [1, 2, 3] 1 1 = Inr [4, 5, 6]"
  using kernels_accumulate [where ?MAX_D1D = 14 and ?MAX_Q1D = 14 and ?T_D1D = 0 and ?T_Q1D = 0
      and T_VDIM = 0 and NE = 1 and b = "[1]" and g = "[1]" and bt = "[1]" and gt = "[1]"
      and d = "[1, 0, 1]" and x = "[3]" and y = "[5]" and d1d = 1 and q1d = 1 and vdim = 1
      and r = "[11]" and ?D1D = 1 and VDIM = 1]
    kernels_accumulate [where ?MAX_D1D = 14 and ?MAX_Q1D = 14 and ?T_D1D = 0 and ?T_Q1D = 0
      and T_VDIM = 0 and NE = 1 and b = "[1]" and g = "[1]" and bt = "[1]" and gt = "[1]"
      and d = "[1, 0, 1]" and x = "[0]" and y = "[5]" and d1d = 1 and q1d = 1 and vdim = 1
      and r = "[5]" and ?D1D = 1 and VDIM = 1]
    kernels_accumulate [where ?MAX_D1D = 14 and ?MAX_Q1D = 14 and ?T_D1D = 0 and ?T_Q1D = 0
      and T_VDIM = 0 and NE = 1 and b = "[1]" and g = "[1]" and bt = "[1]" and gt = "[1]"
      and d = "[1, 0, 1]" and x = "[3]" and y = "[5, 7]" and d1d = 1 and q1d = 1 and vdim = 1
      and r = "[7, 9]" and ?D1D = 1 and VDIM = 1]
    kernels_accumulate [where ?MAX_D1D = 14 and ?MAX_Q1D = 14 and ?T_D1D = 0 and ?T_Q1D = 0
      and T_VDIM = 0 and NE = 1 and b = "[1]" and g = "[1]" and bt = "[1]" and gt = "[1]"
      and d = "[1, 0, 0, 1, 0, 1]" and x = "[1, 2, 3]" and y = "[1, 1, 1]" and d1d = 1 and q1d = 1
      and vdim = 3 and r = "[4, 7, 10]" and ?D1D = 1 and VDIM = 3]
    kernels_accumulate [where ?MAX_D1D = 14 and ?MAX_Q1D = 14 and ?T_D1D = 0 and ?T_Q1D = 0
      and T_VDIM = 0 and NE = 1 and b = "[1]" and g = "[1]" and bt = "[1]" and gt = "[1]"
      and d = "[1, 0, 0, 1, 0, 1]" and x = "[0, 0, 0]" and y = "[1, 2, 3]" and d1d = 1 and q1d = 1
      and vdim = 3 and r = "[1, 2, 3]" and ?D1D = 1 and VDIM = 3]
  by (simp add: PAVectorDiffusionApply2D_def
      PAVectorDiffusionApply2D_element_def Apply2D_grad_clear_def Apply2D_grad_def
      Apply2D_gradX_def Apply2D_pointwise_def Apply2D_gradX_back_def Apply2D_y_def
      PAVectorDiffusionDiagonal2D_def PAVectorDiffusionDiagonal2D_element_def
      Diagonal2D_QD_cell_def Diagonal2D_temp_def
      PAVectorDiffusionApply3D_def PAVectorDiffusionApply3D_element_def
      Apply3D_grad_clear_def Apply3D_grad_def Apply3D_gradXY_def Apply3D_gradX_def
      Apply3D_pointwise_def Apply3D_gradX_back_def Apply3D_gradXY_back_def Apply3D_y_def
      PAVectorDiffusionDiagonal3D_def PAVectorDiffusionDiagonal3D_element_def
      Diagonal3D_QQD_def Diagonal3D_QDD_def Diagonal3D_Y_def Diagonal3D_temp_def Diagonal3D_k_def
      stack_array_def mfem_forall_def for_loop_Suc for_loop_0 for_loop_3
      at2_def at3_def at4_def at5_def Let_def)

end
